theory Spec2Isabelle
  imports Main "HOL-Library.AList" "HOL-Library.Sublist"
begin

section \<open>JavaScript strings and numbers\<close>

text \<open>
  A JavaScript string is modelled as a \<^typ>\<open>string\<close>: a list of code units below 256
  (the Latin-1 range). Only the library functions the handlers call are modelled:
  \<^verbatim>\<open>trim\<close>, \<^verbatim>\<open>toLowerCase\<close>, \<^verbatim>\<open>toUpperCase\<close>, \<^verbatim>\<open>parseInt(s, 10)\<close>, \<^verbatim>\<open>join\<close> and the
  conversion of an array index to text.
\<close>

definition nl :: string where
  "nl = [CHR 0x0A]"

definition dq :: string where
  "dq = [CHR 0x22]"

definition sq :: string where
  "sq = [CHR 0x27]"

text \<open>The white space of \<^verbatim>\<open>String.prototype.trim\<close> and of \<^verbatim>\<open>parseInt\<close>, below 256.\<close>

definition isWhiteSpace :: "char \<Rightarrow> bool" where
  "isWhiteSpace c =
     (c \<in> set [CHR 0x09, CHR 0x0A, CHR 0x0B, CHR 0x0C, CHR 0x0D, CHR 0x20, CHR 0xA0])"

definition trim :: "string \<Rightarrow> string" where
  "trim s = rev (dropWhile isWhiteSpace (rev (dropWhile isWhiteSpace s)))"

definition upperLetters :: string where
  "upperLetters = ''ABCDEFGHIJKLMNOPQRSTUVWXYZ'' @
     [CHR 0xC0, CHR 0xC1, CHR 0xC2, CHR 0xC3, CHR 0xC4, CHR 0xC5, CHR 0xC6, CHR 0xC7,
      CHR 0xC8, CHR 0xC9, CHR 0xCA, CHR 0xCB, CHR 0xCC, CHR 0xCD, CHR 0xCE, CHR 0xCF,
      CHR 0xD0, CHR 0xD1, CHR 0xD2, CHR 0xD3, CHR 0xD4, CHR 0xD5, CHR 0xD6,
      CHR 0xD8, CHR 0xD9, CHR 0xDA, CHR 0xDB, CHR 0xDC, CHR 0xDD, CHR 0xDE]"

definition lowerLetters :: string where
  "lowerLetters = ''abcdefghijklmnopqrstuvwxyz'' @
     [CHR 0xE0, CHR 0xE1, CHR 0xE2, CHR 0xE3, CHR 0xE4, CHR 0xE5, CHR 0xE6, CHR 0xE7,
      CHR 0xE8, CHR 0xE9, CHR 0xEA, CHR 0xEB, CHR 0xEC, CHR 0xED, CHR 0xEE, CHR 0xEF,
      CHR 0xF0, CHR 0xF1, CHR 0xF2, CHR 0xF3, CHR 0xF4, CHR 0xF5, CHR 0xF6,
      CHR 0xF8, CHR 0xF9, CHR 0xFA, CHR 0xFB, CHR 0xFC, CHR 0xFD, CHR 0xFE]"

definition toLowerChar :: "char \<Rightarrow> char" where
  "toLowerChar c = (case map_of (zip upperLetters lowerLetters) c of Some l \<Rightarrow> l | None \<Rightarrow> c)"

definition toLowerCase :: "string \<Rightarrow> string" where
  "toLowerCase s = map toLowerChar s"

text \<open>
  \<^verbatim>\<open>toUpperCase\<close> is applied to the operation name only, after the \<^verbatim>\<open>switch\<close> has
  accepted it, so to one of four lower-case ASCII words: the ASCII letters are all it needs.
\<close>

definition toUpperChar :: "char \<Rightarrow> char" where
  "toUpperChar c =
     (case map_of (zip ''abcdefghijklmnopqrstuvwxyz'' ''ABCDEFGHIJKLMNOPQRSTUVWXYZ'') c of
        Some u \<Rightarrow> u
      | None \<Rightarrow> c)"

definition toUpperCase :: "string \<Rightarrow> string" where
  "toUpperCase s = map toUpperChar s"

definition isDigit :: "char \<Rightarrow> bool" where
  "isDigit c = (c \<in> set ''0123456789'')"

definition digitValue :: "char \<Rightarrow> int" where
  "digitValue c = int (of_char c) - 48"

definition decimal :: "string \<Rightarrow> int" where
  "decimal ds = foldl (\<lambda>acc c. 10 * acc + digitValue c) 0 ds"

text \<open>
  \<^verbatim>\<open>parseInt(s, 10)\<close>: skip leading white space, read an optional sign, then the longest
  run of decimal digits; \<open>None\<close> is \<^verbatim>\<open>NaN\<close> (no digit was read). What follows the digits
  is ignored, so \<^verbatim>\<open>parseInt("2abc", 10)\<close> is 2. The value is kept exact; JavaScript rounds
  it to a double, which changes no comparison with an array length.
\<close>

definition parseInt :: "string \<Rightarrow> int option" where
  "parseInt s =
     (let t = dropWhile isWhiteSpace s;
          negative = (t \<noteq> [] \<and> hd t = CHR ''-'');
          u = (if t \<noteq> [] \<and> (hd t = CHR ''-'' \<or> hd t = CHR ''+'') then tl t else t);
          ds = takeWhile isDigit u
      in if ds = [] then None else Some (if negative then - decimal ds else decimal ds))"

text \<open>The decimal text of an array index or a count, as a template literal prints it.\<close>

fun showNat :: "nat \<Rightarrow> string" where
  "showNat n =
     (if n < 10 then [''0123456789'' ! n]
      else showNat (n div 10) @ [''0123456789'' ! (n mod 10)])"

declare showNat.simps [simp del]

text \<open>\<^verbatim>\<open>Array.prototype.join\<close> on an array of strings.\<close>

fun join :: "string \<Rightarrow> string list \<Rightarrow> string" where
  "join sep [] = []"
| "join sep [x] = x"
| "join sep (x # y # zs) = x @ sep @ join sep (y # zs)"

text \<open>The truth value of an optional string: \<^verbatim>\<open>undefined\<close> and \<^verbatim>\<open>""\<close> are falsy.\<close>

fun truthyStr :: "string option \<Rightarrow> bool" where
  "truthyStr None = False"
| "truthyStr (Some s) = (s \<noteq> [])"

section \<open>Data model\<close>

text \<open>
  A field value of a record: a string, a boolean or a number. Doubles are not modelled:
  the number type is a parameter \<open>'n\<close>, and \<^verbatim>\<open>parseFloat\<close> is passed to the guided flow as
  a function into \<open>'n option\<close> (\<open>None\<close> is \<^verbatim>\<open>NaN\<close>).
\<close>

datatype 'n jsval = JStr string | JBool bool | JNum 'n

text \<open>
  A record (\<^verbatim>\<open>Record<string, any>\<close>) is an association list in insertion order:
  assignment is \<^const>\<open>AList.update\<close> (an existing key keeps its place, a new key goes
  last), \<^verbatim>\<open>delete\<close> is \<^const>\<open>AList.delete\<close>, a read is \<^const>\<open>map_of\<close>.
\<close>

type_synonym 'n sfrecord = "(string \<times> 'n jsval) list"

fun truthy :: "('n::zero) jsval option \<Rightarrow> bool" where
  "truthy None = False"
| "truthy (Some (JStr s)) = (s \<noteq> [])"
| "truthy (Some (JBool b)) = b"
| "truthy (Some (JNum n)) = (n \<noteq> 0)"

text \<open>\<^verbatim>\<open>Object.assign(target, source)\<close>: the source's entries are assigned in order.\<close>

definition assign :: "'n sfrecord \<Rightarrow> 'n sfrecord \<Rightarrow> 'n sfrecord" where
  "assign target source = fold (\<lambda>(k, v). AList.update k v) source target"

text \<open>A row returned by \<^verbatim>\<open>find\<close> or \<^verbatim>\<open>retrieve\<close>, with the columns the handlers read.\<close>

record sobject =
  Id' :: string
  Name :: string
  Email :: "string option"
  Phone :: "string option"

text \<open>
  Modelled from the spec: the field descriptor \<^verbatim>\<open>SalesforceField\<close> (types/salesforce) is
  not among the sources. The spec's data model gives it a name, label, type, nilability,
  creatability, for picklists the ordered (label, value, isDefault) entries and for
  references the target object names; the members are named as the handlers read them.
\<close>

record picklistEntry =
  pvLabel :: string
  pvValue :: string
  defaultValue :: bool

record sfield =
  fName :: string
  fLabel :: string
  fType :: string
  nillable :: bool
  defaultedOnCreate :: bool
  createable :: bool
  picklistValues :: "picklistEntry list option"
  referenceTo :: "string list option"

text \<open>
  Modelled from the spec: the type \<^verbatim>\<open>DMLResult\<close> (types/salesforce) is not among the
  sources. The spec's data model: a per-record outcome with a success flag, an optional
  identifier and zero or more structured errors (message, status code, offending field
  names). The handler reads \<^verbatim>\<open>errors\<close> both as an array and as a single object.
\<close>

record DMLError =
  message :: string
  statusCode :: "string option"
  errFields :: "string list option"

datatype DMLErrors = ErrorList "DMLError list" | SingleError DMLError

record DMLResult =
  success :: bool
  id' :: "string option"
  errors :: "DMLErrors option"

text \<open>The answer of a bulk call: \<^verbatim>\<open>DMLResult | DMLResult[]\<close>.\<close>

datatype DMLResponse = OneResult DMLResult | ManyResults "DMLResult list"

text \<open>
  The answer of \<^verbatim>\<open>create\<close> for one record, as \<^verbatim>\<open>handleCreateCase\<close> reads it: the flag,
  the identifier it prints, and an optional array of errors that it joins (each element
  stands for its string form).
\<close>

record SaveResult =
  saved :: bool
  savedId :: string
  saveErrors :: "string list option"

text \<open>The result of a tool: \<^verbatim>\<open>{ content: [{ type: "text", text }], isError }\<close>.\<close>

datatype contentItem = TextItem string

record toolResult =
  content :: "contentItem list"
  isError :: bool

section \<open>Effects: prompts, remote calls and exceptions\<close>

text \<open>
  An asynchronous function is a function of the world: the chunks the user will still
  type on standard input, and the trace of what has happened (prompts shown and remote
  calls issued, oldest first). It returns a value, throws an \<^verbatim>\<open>Error\<close> (modelled as
  its message), or stays pending for ever because \<^verbatim>\<open>promptUser\<close> waits for input that
  never comes. Console logging is not modelled.
\<close>

datatype criteria = NameLike string | AccountIdIs string

datatype 'n rcall =
    Describe string
  | Retrieve string string
  | Find string criteria "string list"
  | CreateOne string "'n sfrecord"
  | Create string "'n sfrecord list"
  | Update string "'n sfrecord list"
  | Destroy string "'n jsval option list"
  | Upsert string "'n sfrecord list" string

datatype 'n event = Prompted string | Called "'n rcall"

record 'n world =
  stdin :: "string list"
  trace :: "'n event list"

datatype 'a outcome = Returned 'a | Thrown string | Pending

type_synonym ('n, 'a) task = "'n world \<Rightarrow> 'a outcome \<times> 'n world"

definition resolve :: "'a \<Rightarrow> ('n, 'a) task" where
  "resolve x w = (Returned x, w)"

definition throw :: "string \<Rightarrow> ('n, 'a) task" where
  "throw e w = (Thrown e, w)"

text \<open>Sequencing (\<^verbatim>\<open>await\<close> and the statements after it).\<close>

definition andThen :: "('n, 'a) task \<Rightarrow> ('a \<Rightarrow> ('n, 'b) task) \<Rightarrow> ('n, 'b) task" where
  "andThen m f w =
     (case m w of
        (Returned x, w') \<Rightarrow> f x w'
      | (Thrown e, w') \<Rightarrow> (Thrown e, w')
      | (Pending, w') \<Rightarrow> (Pending, w'))"

text \<open>\<^verbatim>\<open>try { m } catch (error) { h(error) }\<close>.\<close>

definition tryCatch :: "('n, 'a) task \<Rightarrow> (string \<Rightarrow> ('n, 'a) task) \<Rightarrow> ('n, 'a) task" where
  "tryCatch m h w =
     (case m w of
        (Thrown e, w') \<Rightarrow> h e w'
      | other \<Rightarrow> other)"

text \<open>
  \<^verbatim>\<open>promptUser\<close> (utils/interaction): print the message, wait for one chunk of standard
  input and resolve with it trimmed.
\<close>

definition promptUser :: "string \<Rightarrow> ('n, string) task" where
  "promptUser msg w =
     (case stdin w of
        [] \<Rightarrow> (Pending, w\<lparr>trace := trace w @ [Prompted msg]\<rparr>)
      | d # ds \<Rightarrow> (Returned (trim d), w\<lparr>stdin := ds, trace := trace w @ [Prompted msg]\<rparr>))"

text \<open>
  The connection (an external collaborator): every method answers from the history of
  the session so far and its arguments, with a value or a rejection (\<open>Inl\<close> the error's
  message).
\<close>

record 'n connection =
  instanceUrl :: "string option"
  describeAnswer :: "'n event list \<Rightarrow> string \<Rightarrow> string + sfield list"
  retrieveAnswer :: "'n event list \<Rightarrow> string \<Rightarrow> string \<Rightarrow> string + sobject"
  findAnswer :: "'n event list \<Rightarrow> string \<Rightarrow> criteria \<Rightarrow> string list \<Rightarrow> string + sobject list"
  createOneAnswer :: "'n event list \<Rightarrow> string \<Rightarrow> 'n sfrecord \<Rightarrow> string + SaveResult"
  createAnswer :: "'n event list \<Rightarrow> string \<Rightarrow> 'n sfrecord list \<Rightarrow> string + DMLResponse"
  updateAnswer :: "'n event list \<Rightarrow> string \<Rightarrow> 'n sfrecord list \<Rightarrow> string + DMLResponse"
  destroyAnswer :: "'n event list \<Rightarrow> string \<Rightarrow> 'n jsval option list \<Rightarrow> string + DMLResponse"
  upsertAnswer :: "'n event list \<Rightarrow> string \<Rightarrow> 'n sfrecord list \<Rightarrow> string \<Rightarrow> string + DMLResponse"

definition remote :: "'n rcall \<Rightarrow> ('n event list \<Rightarrow> string + 'a) \<Rightarrow> ('n, 'a) task" where
  "remote c answer w =
     (case answer (trace w) of
        Inl e \<Rightarrow> (Thrown e, w\<lparr>trace := trace w @ [Called c]\<rparr>)
      | Inr x \<Rightarrow> (Returned x, w\<lparr>trace := trace w @ [Called c]\<rparr>))"

definition describe :: "'n connection \<Rightarrow> string \<Rightarrow> ('n, sfield list) task" where
  "describe conn obj = remote (Describe obj) (\<lambda>h. describeAnswer conn h obj)"

definition retrieve :: "'n connection \<Rightarrow> string \<Rightarrow> string \<Rightarrow> ('n, sobject) task" where
  "retrieve conn obj i = remote (Retrieve obj i) (\<lambda>h. retrieveAnswer conn h obj i)"

definition find' :: "'n connection \<Rightarrow> string \<Rightarrow> criteria \<Rightarrow> string list \<Rightarrow> ('n, sobject list) task" where
  "find' conn obj crit cols = remote (Find obj crit cols) (\<lambda>h. findAnswer conn h obj crit cols)"

definition createOne :: "'n connection \<Rightarrow> string \<Rightarrow> 'n sfrecord \<Rightarrow> ('n, SaveResult) task" where
  "createOne conn obj r = remote (CreateOne obj r) (\<lambda>h. createOneAnswer conn h obj r)"

definition create :: "'n connection \<Rightarrow> string \<Rightarrow> 'n sfrecord list \<Rightarrow> ('n, DMLResponse) task" where
  "create conn obj rs = remote (Create obj rs) (\<lambda>h. createAnswer conn h obj rs)"

definition update :: "'n connection \<Rightarrow> string \<Rightarrow> 'n sfrecord list \<Rightarrow> ('n, DMLResponse) task" where
  "update conn obj rs = remote (Update obj rs) (\<lambda>h. updateAnswer conn h obj rs)"

definition destroy :: "'n connection \<Rightarrow> string \<Rightarrow> 'n jsval option list \<Rightarrow> ('n, DMLResponse) task" where
  "destroy conn obj ids = remote (Destroy obj ids) (\<lambda>h. destroyAnswer conn h obj ids)"

definition upsert :: "'n connection \<Rightarrow> string \<Rightarrow> 'n sfrecord list \<Rightarrow> string \<Rightarrow> ('n, DMLResponse) task" where
  "upsert conn obj rs ext = remote (Upsert obj rs ext) (\<lambda>h. upsertAnswer conn h obj rs ext)"

section \<open>The case tools (tools/caseCreation)\<close>

definition errorResult :: "string \<Rightarrow> toolResult" where
  "errorResult t = \<lparr>content = [TextItem t], isError = True\<rparr>"

definition okResult :: "string \<Rightarrow> toolResult" where
  "okResult t = \<lparr>content = [TextItem t], isError = False\<rparr>"

text \<open>
  The required fields of the Case object, as \<^verbatim>\<open>handleGetCaseMetadata\<close> and
  \<^verbatim>\<open>advancedGuidedCaseCreation\<close> filter them from the describe result.
\<close>

definition requiredFields :: "sfield list \<Rightarrow> sfield list" where
  "requiredFields fs =
     filter (\<lambda>field. \<not> nillable field \<and> \<not> defaultedOnCreate field \<and> createable field \<and>
                     fName field \<noteq> ''CaseNumber'') fs"

definition guidedProcessText :: string where
  "guidedProcessText =
     ''GUIDED CASE CREATION PROCESS - FOLLOW THESE STEPS IN ORDER:\<newline>\<newline>'' @
     ''1. FIRST STEP: Use the 'salesforce_search_accounts' tool to help the user find and select an account\<newline>'' @
     ''   - Ask the user for an account name to search for\<newline>'' @
     ''   - Once they provide a name, call salesforce_search_accounts with their search term\<newline>'' @
     ''   - Present the results and ask them to select an account by number\<newline>\<newline>'' @
     ''2. SECOND STEP: After the user selects an account, use the 'salesforce_search_contacts' tool\<newline>'' @
     ''   - Call salesforce_search_contacts with the selected accountId\<newline>'' @
     ''   - Present the contact results and ask the user to select a contact by number\<newline>\<newline>'' @
     ''3. THIRD STEP: Ask for the Subject field (one field at a time)\<newline>'' @
     ''   - Ask the user to provide a subject for the case\<newline>'' @
     ''   - Wait for their response before proceeding\<newline>\<newline>'' @
     ''4. FOURTH STEP: Ask for the Description field (one field at a time)\<newline>'' @
     ''   - Ask the user to provide a detailed description of the issue\<newline>'' @
     ''   - Wait for their response before proceeding\<newline>\<newline>'' @
     ''5. FIFTH STEP: For each picklist field (Priority, Status, Type, Origin), use the salesforce_get_picklist_values tool\<newline>'' @
     ''   - Call salesforce_get_picklist_values with fieldName='' @ dq @ ''Priority'' @ dq @ ''\<newline>'' @
     ''   - Present the options and ask the user to select one\<newline>'' @
     ''   - Wait for their response before proceeding to the next field\<newline>'' @
     ''   - Repeat for Status, Type, and Origin fields\<newline>\<newline>'' @
     ''6. FINAL STEP: After collecting all required information, use the 'salesforce_create_case' tool\<newline>'' @
     ''   - Call salesforce_create_case with all the collected information\<newline>'' @
     ''   - Confirm to the user that the case has been created\<newline>\<newline>'' @
     ''IMPORTANT: Ask for ONE FIELD AT A TIME and wait for the user's response before proceeding to the next field.''"

definition handleGetCaseMetadata :: "'n connection \<Rightarrow> ('n, toolResult) task" where
  "handleGetCaseMetadata conn =
     tryCatch
       (andThen (describe conn ''Case'') (\<lambda>caseDescribe.
          resolve (okResult
            (''Case Object Metadata:\<newline>\<newline>Required Fields:\<newline>'' @
             join nl (map (\<lambda>field. ''- '' @ fLabel field @ '' ('' @ fName field @ ''): '' @ fType field)
                        (requiredFields caseDescribe)) @
             ''\<newline>\<newline>'' @ guidedProcessText))))
       (\<lambda>error. resolve (errorResult (''Error getting case metadata: '' @ error)))"

text \<open>The numbered lines of a list of choices: \<^verbatim>\<open>`${idx + 1}. ${label}`\<close>.\<close>

definition numbered :: "('a \<Rightarrow> string) \<Rightarrow> 'a list \<Rightarrow> string list" where
  "numbered line xs = map (\<lambda>(idx, x). showNat (idx + 1) @ ''. '' @ line x) (enumerate 0 xs)"

definition handleSearchAccounts :: "'n connection \<Rightarrow> string \<Rightarrow> ('n, toolResult) task" where
  "handleSearchAccounts conn searchTerm =
     tryCatch
       (andThen (find' conn ''Account'' (NameLike (''%'' @ searchTerm @ ''%'')) [''Id'', ''Name''])
          (\<lambda>accounts.
             if length accounts = 0
             then resolve (okResult ''No accounts found matching your search criteria.'')
             else resolve (okResult
               (''Found '' @ showNat (length accounts) @ '' accounts matching '' @ dq @ searchTerm @ dq @
                '':\<newline>\<newline>'' @
                join nl (numbered (\<lambda>account. Name account @ '' (ID: '' @ Id' account @ '')'') accounts)))))
       (\<lambda>error. resolve (errorResult (''Error searching accounts: '' @ error)))"

text \<open>\<^verbatim>\<open>x || 'N/A'\<close> on an optional string.\<close>

definition orNA :: "string option \<Rightarrow> string" where
  "orNA x = (if truthyStr x then the x else ''N/A'')"

definition handleSearchContacts :: "'n connection \<Rightarrow> string \<Rightarrow> ('n, toolResult) task" where
  "handleSearchContacts conn accountId =
     tryCatch
       (andThen (retrieve conn ''Account'' accountId) (\<lambda>account.
        andThen (find' conn ''Contact'' (AccountIdIs accountId) [''Id'', ''Name'', ''Email'', ''Phone''])
          (\<lambda>contacts.
             if length contacts = 0
             then resolve (okResult
               (''No contacts found for account '' @ dq @ Name account @ dq @ '' (ID: '' @ accountId @ '').''))
             else resolve (okResult
               (''Found '' @ showNat (length contacts) @ '' contacts for account '' @ dq @ Name account @ dq @
                '':\<newline>\<newline>'' @
                join ''\<newline>\<newline>''
                  (numbered (\<lambda>contact. Name contact @ '' (ID: '' @ Id' contact @ '')\<newline>   Email: '' @
                                        orNA (Email contact) @ ''\<newline>   Phone: '' @ orNA (Phone contact))
                     contacts))))))
       (\<lambda>error. resolve (errorResult (''Error searching contacts: '' @ error)))"

text \<open>
  The arguments of \<^verbatim>\<open>salesforce_create_case\<close>, typed by the tool's input schema: five
  required strings, three optional strings, and the optional \<^verbatim>\<open>additionalFields\<close> object.
\<close>

record 'n createCaseArgs =
  subject :: string
  description :: string
  priority :: string
  status :: string
  accountId :: string
  contactId :: "string option"
  caseType :: "string option"
  origin :: "string option"
  additionalFields :: "'n sfrecord option"

text \<open>The record \<^verbatim>\<open>handleCreateCase\<close> prepares and hands to \<^verbatim>\<open>create\<close>.\<close>

definition caseRecordOf :: "'n createCaseArgs \<Rightarrow> 'n sfrecord" where
  "caseRecordOf args =
     (let caseRecord = [(''Subject'', JStr (subject args)),
                        (''Description'', JStr (description args)),
                        (''Priority'', JStr (priority args)),
                        (''Status'', JStr (status args)),
                        (''AccountId'', JStr (accountId args))];
          caseRecord = (if truthyStr (contactId args)
                        then AList.update ''ContactId'' (JStr (the (contactId args))) caseRecord
                        else caseRecord);
          caseRecord = (if truthyStr (caseType args)
                        then AList.update ''Type'' (JStr (the (caseType args))) caseRecord
                        else caseRecord);
          caseRecord = (if truthyStr (origin args)
                        then AList.update ''Origin'' (JStr (the (origin args))) caseRecord
                        else caseRecord)
      in case additionalFields args of
           Some extra \<Rightarrow> assign caseRecord extra
         | None \<Rightarrow> caseRecord)"

text \<open>
  \<^verbatim>\<open>conn.instanceUrl || process.env.SALESFORCE_INSTANCE_URL\<close>, printed in a template
  literal; the environment variable is a parameter.
\<close>

definition instanceUrlText :: "'n connection \<Rightarrow> string option \<Rightarrow> string" where
  "instanceUrlText conn env =
     (if truthyStr (instanceUrl conn) then the (instanceUrl conn)
      else case env of Some u \<Rightarrow> u | None \<Rightarrow> ''undefined'')"

definition handleCreateCase ::
  "string option \<Rightarrow> 'n connection \<Rightarrow> 'n createCaseArgs \<Rightarrow> ('n, toolResult) task" where
  "handleCreateCase env conn args =
     tryCatch
       (andThen (createOne conn ''Case'' (caseRecordOf args)) (\<lambda>result.
          if saved result
          then resolve (okResult
            (''The case has been created successfully!\<newline>\<newline>Case Details:\<newline>\<newline>- Case ID: '' @
             savedId result @ ''\<newline>- Subject: '' @ subject args @ ''\<newline>- Priority: '' @ priority args @
             ''\<newline>- Status: '' @ status args @ ''\<newline>\<newline>You can view the case at: '' @
             instanceUrlText conn env @ ''/lightning/r/Case/'' @ savedId result @ ''/view''))
          else resolve (errorResult
            (''Failed to create case: '' @
             (case saveErrors result of Some es \<Rightarrow> join '', '' es | None \<Rightarrow> ''undefined'')))))
       (\<lambda>error. resolve (errorResult (''Error creating case: '' @ error)))"

text \<open>
  A picklist field without \<^verbatim>\<open>picklistValues\<close> makes \<^verbatim>\<open>field.picklistValues.map\<close> raise a
  \<^verbatim>\<open>TypeError\<close> inside the \<^verbatim>\<open>try\<close>; it is modelled as a throw with the engine's message.
\<close>

definition handleGetPicklistValues :: "'n connection \<Rightarrow> string \<Rightarrow> ('n, toolResult) task" where
  "handleGetPicklistValues conn fieldName =
     tryCatch
       (andThen (describe conn ''Case'') (\<lambda>caseDescribe.
          case List.find (\<lambda>f. fName f = fieldName) caseDescribe of
            None \<Rightarrow> resolve (errorResult (''Field '' @ sq @ fieldName @ sq @ '' not found on Case object.''))
          | Some field \<Rightarrow>
              if fType field \<noteq> ''picklist''
              then resolve (errorResult (''Field '' @ sq @ fieldName @ sq @ '' is not a picklist field.''))
              else
                (case picklistValues field of
                   None \<Rightarrow> throw ''Cannot read properties of undefined (reading 'map')''
                 | Some entries \<Rightarrow>
                     resolve (okResult
                       (''Picklist values for '' @ fLabel field @ '' ('' @ fieldName @ ''):\<newline>\<newline>'' @
                        join nl (numbered (\<lambda>entry. pvLabel entry @
                                   (if defaultValue entry then '' (Default)'' else [])) entries) @
                        ''\<newline>\<newline>Please ask the user to select one of these values for the '' @
                        fLabel field @ '' field.'')))))
       (\<lambda>error. resolve (errorResult (''Error getting picklist values: '' @ error)))"

section \<open>The guided case-creation flow (advancedGuidedCaseCreation)\<close>

text \<open>
  The flow is one function in the source; here each of its steps is a definition, and
  \<open>advancedGuidedCaseCreation\<close> composes them in the source's order. The older
  \<^verbatim>\<open>guidedCaseCreation\<close> is called by no handler and is not modelled.
\<close>

text \<open>
  Account selection: prompt for a search string and find the accounts; no match throws,
  one match is taken without a prompt, otherwise \<open>chooseAccount\<close> prompts for a 1-based
  choice and throws unless the answer is a number of the list.
\<close>

definition chooseAccount :: "sobject list \<Rightarrow> ('n, sobject) task" where
  "chooseAccount accounts =
     andThen (promptUser (''Select an account:\<newline>'' @ join nl (numbered Name accounts)))
       (\<lambda>answer.
          case parseInt answer of
            None \<Rightarrow> throw ''Invalid account selection. Please enter a valid number from the list.''
          | Some accountSelection \<Rightarrow>
              if accountSelection < 1 \<or> accountSelection > int (length accounts)
              then throw ''Invalid account selection. Please enter a valid number from the list.''
              else resolve (accounts ! nat (accountSelection - 1)))"

definition selectAccount :: "'n connection \<Rightarrow> ('n, sobject) task" where
  "selectAccount conn =
     andThen (promptUser ''Enter a search string to filter accounts:'') (\<lambda>accountSearchString.
     andThen (find' conn ''Account'' (NameLike (''%'' @ accountSearchString @ ''%'')) [''Id'', ''Name''])
       (\<lambda>accounts.
          if length accounts = 0
          then throw ''No accounts found matching your search criteria. Please try again with a different search term.''
          else if length accounts = 1 then resolve (accounts ! 0)
          else chooseAccount accounts))"

text \<open>
  Contact selection: only when the account has contacts; a blank answer skips, and an
  answer that is not a number of the list leaves the record as it is.
\<close>

definition selectContact :: "sobject list \<Rightarrow> 'n sfrecord \<Rightarrow> ('n, 'n sfrecord) task" where
  "selectContact contacts caseRecord =
     (if length contacts > 0
      then
        andThen (promptUser (''Select a contact for this case (or press Enter to skip):\<newline>'' @
                             join nl (numbered Name contacts)))
          (\<lambda>contactSelectionInput.
             if trim contactSelectionInput \<noteq> []
             then
               (case parseInt contactSelectionInput of
                  None \<Rightarrow> resolve caseRecord
                | Some contactSelection \<Rightarrow>
                    if contactSelection \<ge> 1 \<and> contactSelection \<le> int (length contacts)
                    then resolve (AList.update ''ContactId''
                                    (JStr (Id' (contacts ! nat (contactSelection - 1)))) caseRecord)
                    else resolve caseRecord)
             else resolve caseRecord)
      else resolve caseRecord)"

text \<open>
  \<^verbatim>\<open>let x = ""; while (x.trim() === "") { x = await promptUser(msg); }\<close>: the loop ends
  with the first answer that is not blank, and never ends when there is none.
\<close>

function promptUntilFilled :: "string \<Rightarrow> ('n, string) task" where
  "promptUntilFilled msg w =
     (case promptUser msg w of
        (Returned answer, w') \<Rightarrow>
           if trim answer = [] then promptUntilFilled msg w' else (Returned answer, w')
      | other \<Rightarrow> other)"
  by pat_completeness auto
termination
  by (relation "measure (\<lambda>(msg, w). length (stdin w))")
     (auto simp: promptUser_def split: list.splits)

declare promptUntilFilled.simps [simp del]

definition webContact :: "('n::zero) sfrecord \<Rightarrow> ('n, 'n sfrecord) task" where
  "webContact caseRecord =
     (if \<not> truthy (map_of caseRecord ''ContactId'')
      then
        andThen (promptUntilFilled ''Web Email (required):'') (\<lambda>webEmail.
        andThen (promptUntilFilled ''Web Name (required):'') (\<lambda>webName.
          resolve (AList.update ''SuppliedName'' (JStr webName)
                    (AList.update ''SuppliedEmail'' (JStr webEmail) caseRecord))))
      else resolve caseRecord)"

definition askSubject :: "('n::zero) sfrecord \<Rightarrow> ('n, 'n sfrecord) task" where
  "askSubject caseRecord =
     (if \<not> truthy (map_of caseRecord ''Subject'')
      then andThen (promptUser ''Enter a subject for this case:'')
             (\<lambda>answer. resolve (AList.update ''Subject'' (JStr answer) caseRecord))
      else resolve caseRecord)"

definition askDescription :: "('n::zero) sfrecord \<Rightarrow> ('n, 'n sfrecord) task" where
  "askDescription caseRecord =
     (if \<not> truthy (map_of caseRecord ''Description'')
      then andThen (promptUser ''Enter a description for this case (press Enter to skip):'')
             (\<lambda>answer.
                if trim answer = []
                then resolve (AList.delete ''Description''
                                (AList.update ''Description'' (JStr answer) caseRecord))
                else resolve (AList.update ''Description'' (JStr answer) caseRecord))
      else resolve caseRecord)"

text \<open>\<^verbatim>\<open>item.label || item.value\<close>.\<close>

definition entryLabel :: "picklistEntry \<Rightarrow> string" where
  "entryLabel item = (if pvLabel item \<noteq> [] then pvLabel item else pvValue item)"

text \<open>
  The Origin, Status and Priority steps are three copies of one block that differ in the
  field name and the prompt: the field is set only when the answer is a number of the
  list, and the flow goes on either way.
\<close>

definition askCommonPicklist ::
  "sfield list \<Rightarrow> string \<Rightarrow> string \<Rightarrow> ('n::zero) sfrecord \<Rightarrow> ('n, 'n sfrecord) task" where
  "askCommonPicklist caseDescribe key heading caseRecord =
     (if \<not> truthy (map_of caseRecord key)
      then
        (case List.find (\<lambda>f. fName f = key) caseDescribe of
           None \<Rightarrow> resolve caseRecord
         | Some field \<Rightarrow>
             (case picklistValues field of
                None \<Rightarrow> resolve caseRecord
              | Some entries \<Rightarrow>
                  if length entries > 0
                  then
                    andThen (promptUser (heading @ join nl (numbered entryLabel entries)))
                      (\<lambda>answer.
                         case parseInt answer of
                           None \<Rightarrow> resolve caseRecord
                         | Some selection \<Rightarrow>
                             if selection \<ge> 1 \<and> selection \<le> int (length entries)
                             then resolve (AList.update key
                                             (JStr (pvValue (entries ! nat (selection - 1)))) caseRecord)
                             else resolve caseRecord)
                  else resolve caseRecord))
      else resolve caseRecord)"

text \<open>
  A required reference field: search, then select as for the account
  (\<open>chooseReference\<close>), inside a \<^verbatim>\<open>try\<close> whose \<^verbatim>\<open>catch\<close> replaces every error by one
  message.
\<close>

definition chooseReference ::
  "sfield \<Rightarrow> string \<Rightarrow> sobject list \<Rightarrow> 'n sfrecord \<Rightarrow> ('n, 'n sfrecord) task" where
  "chooseReference field objectName records caseRecord =
     andThen (promptUser (''Select a '' @ fLabel field @ '':\<newline>'' @ join nl (numbered Name records)))
       (\<lambda>answer.
          case parseInt answer of
            None \<Rightarrow> throw (''Invalid '' @ objectName @
                           '' selection. Please enter a valid number from the list.'')
          | Some selection \<Rightarrow>
              if selection < 1 \<or> selection > int (length records)
              then throw (''Invalid '' @ objectName @
                          '' selection. Please enter a valid number from the list.'')
              else resolve (AList.update (fName field)
                              (JStr (Id' (records ! nat (selection - 1)))) caseRecord))"

definition askReference ::
  "'n connection \<Rightarrow> sfield \<Rightarrow> string \<Rightarrow> 'n sfrecord \<Rightarrow> ('n, 'n sfrecord) task" where
  "askReference conn field objectName caseRecord =
     andThen (promptUser (''Enter a search string to find '' @ fLabel field @ '':'')) (\<lambda>searchString.
       tryCatch
         (andThen (find' conn objectName (NameLike (''%'' @ searchString @ ''%'')) [''Id'', ''Name''])
            (\<lambda>records.
               if length records = 0
               then throw (''No '' @ objectName @ '' records found matching your search criteria.'')
               else if length records = 1
               then resolve (AList.update (fName field) (JStr (Id' (records ! 0))) caseRecord)
               else chooseReference field objectName records caseRecord))
         (\<lambda>error. throw (''Unable to find '' @ fLabel field @ '' records. Please try again.'')))"

text \<open>A required picklist field: an answer that is not a number of the list throws.\<close>

definition askPicklist ::
  "sfield \<Rightarrow> picklistEntry list \<Rightarrow> 'n sfrecord \<Rightarrow> ('n, 'n sfrecord) task" where
  "askPicklist field entries caseRecord =
     andThen (promptUser (''Select a '' @ fLabel field @ '':\<newline>'' @
                          join nl (numbered entryLabel entries)))
       (\<lambda>answer.
          case parseInt answer of
            None \<Rightarrow> throw (''Invalid '' @ fLabel field @
                           '' selection. Please enter a valid number from the list.'')
          | Some selection \<Rightarrow>
              if selection < 1 \<or> selection > int (length entries)
              then throw (''Invalid '' @ fLabel field @
                          '' selection. Please enter a valid number from the list.'')
              else resolve (AList.update (fName field)
                              (JStr (pvValue (entries ! nat (selection - 1)))) caseRecord))"

text \<open>Every other required field: the \<^verbatim>\<open>switch\<close> on the field's type.\<close>

definition askScalar ::
  "(string \<Rightarrow> 'n option) \<Rightarrow> sfield \<Rightarrow> 'n sfrecord \<Rightarrow> ('n, 'n sfrecord) task" where
  "askScalar parseFloat field caseRecord =
     (if fType field = ''boolean''
      then andThen (promptUser (fLabel field @ '' (true/false):''))
             (\<lambda>boolResponse.
                resolve (AList.update (fName field) (JBool (toLowerCase boolResponse = ''true'')) caseRecord))
      else if fType field = ''date''
      then andThen (promptUser (fLabel field @ '' (YYYY-MM-DD):''))
             (\<lambda>answer. resolve (AList.update (fName field) (JStr answer) caseRecord))
      else if fType field = ''datetime''
      then andThen (promptUser (fLabel field @ '' (YYYY-MM-DDTHH:MM:SS):''))
             (\<lambda>answer. resolve (AList.update (fName field) (JStr answer) caseRecord))
      else if fType field = ''double'' \<or> fType field = ''int'' \<or> fType field = ''currency''
      then andThen (promptUser (fLabel field @ '':''))
             (\<lambda>numResponse.
                case parseFloat numResponse of
                  None \<Rightarrow> throw (''Invalid number format for '' @ fLabel field)
                | Some fieldValue \<Rightarrow> resolve (AList.update (fName field) (JNum fieldValue) caseRecord))
      else andThen (promptUser (fLabel field @ '':''))
             (\<lambda>answer. resolve (AList.update (fName field) (JStr answer) caseRecord)))"

text \<open>
  \<^verbatim>\<open>caseRecord[name] !== undefined\<close> on a record that started as \<^verbatim>\<open>{}\<close>: true for the
  record's own keys, and for the names every object inherits from \<^verbatim>\<open>Object.prototype\<close>.
\<close>

definition inheritedNames :: "string list" where
  "inheritedNames =
     [''constructor'', ''__defineGetter__'', ''__defineSetter__'', ''hasOwnProperty'',
      ''__lookupGetter__'', ''__lookupSetter__'', ''isPrototypeOf'', ''propertyIsEnumerable'',
      ''toString'', ''valueOf'', ''__proto__'', ''toLocaleString'']"

definition isDefined :: "'n sfrecord \<Rightarrow> string \<Rightarrow> bool" where
  "isDefined caseRecord name = (map_of caseRecord name \<noteq> None \<or> name \<in> set inheritedNames)"

text \<open>One iteration of the loop over the required fields.\<close>

definition processField ::
  "(string \<Rightarrow> 'n option) \<Rightarrow> 'n connection \<Rightarrow> sfield \<Rightarrow> 'n sfrecord \<Rightarrow> ('n, 'n sfrecord) task" where
  "processField parseFloat conn field caseRecord =
     (if fName field = ''AccountId'' \<or> fName field = ''ContactId'' \<or>
         fName field = ''Subject'' \<or> fName field = ''Description'' \<or>
         fName field = ''Origin'' \<or> fName field = ''Status'' \<or>
         fName field = ''Priority'' \<or> isDefined caseRecord (fName field)
      then resolve caseRecord
      else
        (case (if fType field = ''reference'' then referenceTo field else None) of
           Some (objectName # others) \<Rightarrow> askReference conn field objectName caseRecord
         | other \<Rightarrow>
             (case (if fType field = ''picklist'' then picklistValues field else None) of
                Some (entry # entries) \<Rightarrow> askPicklist field (entry # entries) caseRecord
              | other \<Rightarrow> askScalar parseFloat field caseRecord)))"

primrec processFields ::
  "(string \<Rightarrow> 'n option) \<Rightarrow> 'n connection \<Rightarrow> sfield list \<Rightarrow> 'n sfrecord \<Rightarrow> ('n, 'n sfrecord) task" where
  "processFields parseFloat conn [] caseRecord = resolve caseRecord"
| "processFields parseFloat conn (field # rest) caseRecord =
     andThen (processField parseFloat conn field caseRecord) (processFields parseFloat conn rest)"

text \<open>Everything before the summary: the record that is handed to the confirmation.\<close>

definition collectCaseRecord ::
  "(string \<Rightarrow> 'n option) \<Rightarrow> ('n::zero) connection \<Rightarrow> ('n, 'n sfrecord) task" where
  "collectCaseRecord parseFloat conn =
     andThen (describe conn ''Case'') (\<lambda>caseDescribe.
     andThen (selectAccount conn) (\<lambda>selectedAccount.
     andThen (find' conn ''Contact'' (AccountIdIs (Id' selectedAccount)) [''Id'', ''Name'']) (\<lambda>contacts.
     andThen (selectContact contacts [(''AccountId'', JStr (Id' selectedAccount))]) (\<lambda>caseRecord.
     andThen (webContact caseRecord) (\<lambda>caseRecord.
     andThen (askSubject caseRecord) (\<lambda>caseRecord.
     andThen (askDescription caseRecord) (\<lambda>caseRecord.
     andThen (askCommonPicklist caseDescribe ''Origin'' ''Select an origin:\<newline>'' caseRecord) (\<lambda>caseRecord.
     andThen (askCommonPicklist caseDescribe ''Status'' ''Select a status:\<newline>'' caseRecord) (\<lambda>caseRecord.
     andThen (askCommonPicklist caseDescribe ''Priority'' ''Select a priority:\<newline>'' caseRecord) (\<lambda>caseRecord.
       processFields parseFloat conn (requiredFields caseDescribe) caseRecord))))))))))"

text \<open>The confirmation: anything but \<^verbatim>\<open>y\<close>, whatever its case, cancels.\<close>

definition confirmCase :: "'n sfrecord \<Rightarrow> ('n, 'n sfrecord) task" where
  "confirmCase caseRecord =
     andThen (promptUser ''\<newline>Create this case? (Y/N):'') (\<lambda>confirmation.
       if toLowerCase confirmation \<noteq> ''y''
       then throw ''Case creation canceled by user.''
       else resolve caseRecord)"

definition advancedGuidedCaseCreation ::
  "(string \<Rightarrow> 'n option) \<Rightarrow> ('n::zero) connection \<Rightarrow> ('n, 'n sfrecord) task" where
  "advancedGuidedCaseCreation parseFloat conn =
     andThen (collectCaseRecord parseFloat conn) confirmCase"

section \<open>The DML handler (handleDMLRecords)\<close>

record 'n DMLArgs =
  operation :: string
  objectName :: string
  records :: "'n sfrecord list"
  externalIdField :: "string option"
  guidedInput :: "bool option"

text \<open>\<^verbatim>\<open>Array.isArray(result) ? result : [result]\<close>.\<close>

definition resultsOf :: "DMLResponse \<Rightarrow> DMLResult list" where
  "resultsOf result = (case result of ManyResults rs \<Rightarrow> rs | OneResult r \<Rightarrow> [r])"

definition successCount :: "DMLResult list \<Rightarrow> nat" where
  "successCount results = length (filter success results)"

definition failureCount :: "DMLResult list \<Rightarrow> nat" where
  "failureCount results = length results - successCount results"

text \<open>The line of a successful record that has an identifier.\<close>

definition successLine :: "nat \<times> DMLResult \<Rightarrow> string" where
  "successLine p =
     (case p of (idx, r) \<Rightarrow>
        if success r \<and> truthyStr (id' r)
        then ''Record '' @ showNat (idx + 1) @ '' - ID: '' @ the (id' r) @ ''\<newline>''
        else [])"

text \<open>One error of an array of errors.\<close>

definition errorDetail :: "DMLError \<Rightarrow> string" where
  "errorDetail error =
     ''  - '' @ message error @
     (if truthyStr (statusCode error) then '' ['' @ the (statusCode error) @ '']'' else []) @
     (case errFields error of
        Some fs \<Rightarrow> if length fs > 0 then ''\<newline>    Fields: '' @ join '', '' fs else []
      | None \<Rightarrow> []) @
     ''\<newline>''"

text \<open>A single error object: its field names are printed whenever they are present.\<close>

definition singleErrorDetail :: "DMLError \<Rightarrow> string" where
  "singleErrorDetail error =
     ''  - '' @ message error @
     (if truthyStr (statusCode error) then '' ['' @ the (statusCode error) @ '']'' else []) @
     (case errFields error of
        Some fs \<Rightarrow> ''\<newline>    Fields: '' @ join '', '' fs
      | None \<Rightarrow> []) @
     ''\<newline>''"

definition failureReport :: "nat \<times> DMLResult \<Rightarrow> string" where
  "failureReport p =
     (case p of (idx, r) \<Rightarrow>
        if \<not> success r
        then
          (case errors r of
             None \<Rightarrow> []
           | Some (ErrorList es) \<Rightarrow>
               ''Record '' @ showNat (idx + 1) @ '':\<newline>'' @ concat (map errorDetail es)
           | Some (SingleError e) \<Rightarrow>
               ''Record '' @ showNat (idx + 1) @ '':\<newline>'' @ singleErrorDetail e)
        else [])"

text \<open>The report (\<^verbatim>\<open>responseText\<close>), the same text in both variants of the handler.\<close>

definition formatDMLResults :: "string \<Rightarrow> DMLResult list \<Rightarrow> string" where
  "formatDMLResults op results =
     toUpperCase op @ '' operation completed.\<newline>'' @
     ''Processed '' @ showNat (length results) @ '' records:\<newline>'' @
     ''- Successful: '' @ showNat (successCount results) @ ''\<newline>'' @
     ''- Failed: '' @ showNat (failureCount results) @ ''\<newline>'' @
     (if successCount results > 0
      then ''\<newline>Successful Records:\<newline>'' @ concat (map successLine (enumerate 0 results))
      else []) @
     ''\<newline>'' @
     (if failureCount results > 0
      then ''Errors:\<newline>'' @ concat (map failureReport (enumerate 0 results))
      else [])"

text \<open>
  The handler that stands with the guided flow (tools/caseCreation, second part): an
  insert of a Case runs the flow and creates the record the flow returns.
\<close>

definition handleDMLRecords ::
  "(string \<Rightarrow> 'n option) \<Rightarrow> ('n::zero) connection \<Rightarrow> 'n DMLArgs \<Rightarrow> ('n, toolResult) task" where
  "handleDMLRecords parseFloat conn args =
     andThen
       (if operation args = ''insert''
        then
          (if objectName args = ''Case''
           then andThen (advancedGuidedCaseCreation parseFloat conn)
                  (\<lambda>caseDetails. create conn (objectName args) [caseDetails])
           else create conn (objectName args) (records args))
        else if operation args = ''update''
        then update conn (objectName args) (records args)
        else if operation args = ''delete''
        then destroy conn (objectName args) (map (\<lambda>r. map_of r ''Id'') (records args))
        else if operation args = ''upsert''
        then
          (if \<not> truthyStr (externalIdField args)
           then throw ''externalIdField is required for upsert operations''
           else upsert conn (objectName args) (records args) (the (externalIdField args)))
        else throw (''Unsupported operation: '' @ operation args))
       (\<lambda>result. resolve (okResult (formatDMLResults (operation args) (resultsOf result))))"

definition dedicatedToolsText :: string where
  "dedicatedToolsText =
     ''For creating Case records, please use the dedicated case creation tools:\<newline>'' @
     ''1. salesforce_get_case_metadata - Get required fields and picklist values\<newline>'' @
     ''2. salesforce_search_accounts - Search for accounts\<newline>'' @
     ''3. salesforce_search_contacts - Search for contacts\<newline>'' @
     ''4. salesforce_get_picklist_values - Get picklist values for a specific field\<newline>'' @
     ''5. salesforce_create_case - Create the case with collected information\<newline>\<newline>'' @
     ''These tools provide a better guided experience for creating cases.''"

text \<open>
  The other variant of the handler (unnamed/part_001): an insert of a Case returns at once
  with a message that points to the case tools; the rest is the same.
\<close>

definition handleDMLRecords_part_001 :: "'n connection \<Rightarrow> 'n DMLArgs \<Rightarrow> ('n, toolResult) task" where
  "handleDMLRecords_part_001 conn args =
     (if operation args = ''insert'' \<and> objectName args = ''Case''
      then resolve (errorResult dedicatedToolsText)
      else
        andThen
          (if operation args = ''insert''
           then create conn (objectName args) (records args)
           else if operation args = ''update''
           then update conn (objectName args) (records args)
           else if operation args = ''delete''
           then destroy conn (objectName args) (map (\<lambda>r. map_of r ''Id'') (records args))
           else if operation args = ''upsert''
           then
             (if \<not> truthyStr (externalIdField args)
              then throw ''externalIdField is required for upsert operations''
              else upsert conn (objectName args) (records args) (the (externalIdField args)))
           else throw (''Unsupported operation: '' @ operation args))
          (\<lambda>result. resolve (okResult (formatDMLResults (operation args) (resultsOf result)))))"

section \<open>A sample organisation\<close>

text \<open>
  A concrete connection and concrete inputs, on which the theorems below are instantiated.
  Numbers are integers here and \<^verbatim>\<open>parseFloat\<close> reads an integer.
\<close>

definition acmeCorp :: sobject where
  "acmeCorp = \<lparr>Id' = ''001A'', Name = ''Acme Corp'', Email = None, Phone = None\<rparr>"

definition acmeIndustries :: sobject where
  "acmeIndustries = \<lparr>Id' = ''001B'', Name = ''Acme Industries'', Email = None, Phone = None\<rparr>"

definition ada :: sobject where
  "ada = \<lparr>Id' = ''003A'', Name = ''Ada'', Email = Some ''ada@acme.test'', Phone = None\<rparr>"

definition bob :: sobject where
  "bob = \<lparr>Id' = ''003B'', Name = ''Bob'', Email = None, Phone = Some ''555''\<rparr>"

definition widget :: sobject where
  "widget = \<lparr>Id' = ''01tA'', Name = ''Widget'', Email = None, Phone = None\<rparr>"

definition gadget :: sobject where
  "gadget = \<lparr>Id' = ''01tB'', Name = ''Gadget'', Email = None, Phone = None\<rparr>"

definition entry :: "string \<Rightarrow> bool \<Rightarrow> picklistEntry" where
  "entry v d = \<lparr>pvLabel = v, pvValue = v, defaultValue = d\<rparr>"

definition plainField :: "string \<Rightarrow> string \<Rightarrow> sfield" where
  "plainField n t =
     \<lparr>fName = n, fLabel = n, fType = t, nillable = False, defaultedOnCreate = False,
      createable = True, picklistValues = None, referenceTo = None\<rparr>"

definition originField :: sfield where
  "originField = (plainField ''Origin'' ''picklist'')
     \<lparr>picklistValues := Some [entry ''Phone'' False, entry ''Web'' True]\<rparr>"

definition statusField :: sfield where
  "statusField = (plainField ''Status'' ''picklist'')
     \<lparr>picklistValues := Some [entry ''New'' True, entry ''Closed'' False]\<rparr>"

definition priorityField :: sfield where
  "priorityField = (plainField ''Priority'' ''picklist'')
     \<lparr>picklistValues := Some [entry ''High'' False, entry ''Low'' True]\<rparr>"

definition regionField :: sfield where
  "regionField = (plainField ''Region__c'' ''picklist'')
     \<lparr>picklistValues := Some [entry ''North'' False, entry ''South'' False]\<rparr>"

definition productField :: sfield where
  "productField = (plainField ''Product__c'' ''reference'')\<lparr>referenceTo := Some [''Product2'']\<rparr>"

definition caseFields :: "sfield list" where
  "caseFields = [originField, statusField, priorityField, regionField, productField,
                 plainField ''Seats__c'' ''int'']"

definition savedOk :: "string \<Rightarrow> DMLResult" where
  "savedOk i = \<lparr>success = True, id' = Some i, errors = None\<rparr>"

definition rejected :: "DMLErrors \<Rightarrow> DMLResult" where
  "rejected es = \<lparr>success = False, id' = None, errors = Some es\<rparr>"

definition missingName :: DMLError where
  "missingName = \<lparr>message = ''Required fields are missing: [Name]'',
                   statusCode = Some ''REQUIRED_FIELD_MISSING'', errFields = Some [''Name'']\<rparr>"

text \<open>
  The sample connection answers one result per submitted record: a record without a
  \<^verbatim>\<open>Name\<close> is rejected on insert, every other record succeeds. It finds two accounts,
  two contacts of the first account and two products.
\<close>

definition sampleConn :: "int connection" where
  "sampleConn =
     \<lparr>instanceUrl = Some ''https://acme.test'',
      describeAnswer = (\<lambda>h obj. if obj = ''Case'' then Inr caseFields else Inl (''no such object: '' @ obj)),
      retrieveAnswer = (\<lambda>h obj i. if i = ''001A'' then Inr acmeCorp else Inl ''NOT_FOUND''),
      findAnswer = (\<lambda>h obj crit cols.
         if obj = ''Account'' then Inr [acmeCorp, acmeIndustries]
         else if obj = ''Contact'' then Inr (if crit = AccountIdIs ''001A'' then [ada, bob] else [])
         else if obj = ''Product2'' then Inr [widget, gadget]
         else Inl (''no such object: '' @ obj)),
      createOneAnswer = (\<lambda>h obj r. Inr \<lparr>saved = True, savedId = ''500A'', saveErrors = None\<rparr>),
      createAnswer = (\<lambda>h obj rs. Inr (ManyResults
         (map (\<lambda>r. if obj = ''Case'' \<or> map_of r ''Name'' \<noteq> None then savedOk ''a01''
                   else rejected (ErrorList [missingName])) rs))),
      updateAnswer = (\<lambda>h obj rs. Inr (ManyResults (map (\<lambda>r. savedOk ''a01'') rs))),
      destroyAnswer = (\<lambda>h obj ids. Inr (ManyResults (map (\<lambda>r. savedOk ''a01'') ids))),
      upsertAnswer = (\<lambda>h obj rs ext. Inr (ManyResults (map (\<lambda>r. savedOk ''a01'') rs)))\<rparr>"

text \<open>A connection whose every call is rejected.\<close>

definition downConn :: "int connection" where
  "downConn =
     \<lparr>instanceUrl = None,
      describeAnswer = (\<lambda>h obj. Inl ''ECONNRESET''),
      retrieveAnswer = (\<lambda>h obj i. Inl ''ECONNRESET''),
      findAnswer = (\<lambda>h obj crit cols. Inl ''ECONNRESET''),
      createOneAnswer = (\<lambda>h obj r. Inl ''ECONNRESET''),
      createAnswer = (\<lambda>h obj rs. Inl ''ECONNRESET''),
      updateAnswer = (\<lambda>h obj rs. Inl ''ECONNRESET''),
      destroyAnswer = (\<lambda>h obj ids. Inl ''ECONNRESET''),
      upsertAnswer = (\<lambda>h obj rs ext. Inl ''ECONNRESET'')\<rparr>"

text \<open>The sample connection with every bulk create rejected.\<close>

definition lockedConn :: "int connection" where
  "lockedConn = sampleConn\<lparr>createAnswer := (\<lambda>h obj rs. Inl ''INSUFFICIENT_ACCESS'')\<rparr>"

definition sampleParseFloat :: "string \<Rightarrow> int option" where
  "sampleParseFloat s = parseInt s"

definition typing :: "string list \<Rightarrow> int world" where
  "typing lines = \<lparr>stdin = lines, trace = []\<rparr>"

definition dmlArgs :: "string \<Rightarrow> string \<Rightarrow> int sfrecord list \<Rightarrow> string option \<Rightarrow> int DMLArgs" where
  "dmlArgs op obj rs ext =
     \<lparr>operation = op, objectName = obj, records = rs, externalIdField = ext, guidedInput = None\<rparr>"

text \<open>Sample arguments, the answers of sample runs of the guided flow, and what they give.\<close>

definition sampleCase :: "int createCaseArgs" where
  "sampleCase =
     \<lparr>subject = ''Printer jam'', description = ''Tray 2'', priority = ''High'', status = ''New'',
      accountId = ''001A'', contactId = None, caseType = Some ''Problem'', origin = None,
      additionalFields = Some [(''Subject'', JStr ''Printer on fire''), (''Escalated__c'', JBool True)]\<rparr>"

definition sampleAnswers :: "string list" where
  "sampleAnswers = [''Acme'', ''1'', ''2'', ''Printer jam'', ''Tray 2'', ''1'', ''9'', ''2'', ''1'',
                    ''wid'', ''2'', ''12'', ''y'']"

definition twoCases :: "int DMLArgs" where
  "twoCases = dmlArgs ''insert'' ''Case'' [[(''Subject'', JStr ''a'')], [(''Subject'', JStr ''b'')]] None"

definition mixedBatch :: "int DMLArgs" where
  "mixedBatch = dmlArgs ''insert'' ''Account'' [[(''Name'', JStr ''Acme'')], [(''Phone'', JStr ''555'')]] None"

definition mixedReport :: string where
  "mixedReport = ''INSERT operation completed.\<newline>Processed 2 records:\<newline>- Successful: 1\<newline>- Failed: 1\<newline>\<newline>Successful Records:\<newline>Record 1 - ID: a01\<newline>\<newline>Errors:\<newline>Record 2:\<newline>  - Required fields are missing: [Name] [REQUIRED_FIELD_MISSING]\<newline>    Fields: Name\<newline>''"

definition mixedResults :: "DMLResult list" where
  "mixedResults = [savedOk ''a01'', rejected (ErrorList [missingName])]"

definition collectAnswers :: "string list" where
  "collectAnswers = [''Acme'', ''1'', ''2'', ''Printer jam'', ''Tray 2'', ''1'', ''9'', ''2'', ''1'',
                     ''wid'', ''2'', ''12'']"

definition sampleRecord :: "int sfrecord" where
  "sampleRecord =
     [(''AccountId'', JStr ''001A''), (''ContactId'', JStr ''003B''),
      (''Subject'', JStr ''Printer jam''), (''Description'', JStr ''Tray 2''),
      (''Origin'', JStr ''Phone''), (''Priority'', JStr ''Low''),
      (''Region__c'', JStr ''North''), (''Product__c'', JStr ''01tB''), (''Seats__c'', JNum 12)]"

definition sampleTrace :: "int event list" where
  "sampleTrace =
     [Called (Describe ''Case''),
      Prompted ''Enter a search string to filter accounts:'',
      Called (Find ''Account'' (NameLike ''%Acme%'') [''Id'', ''Name'']),
      Prompted ''Select an account:\<newline>1. Acme Corp\<newline>2. Acme Industries'',
      Called (Find ''Contact'' (AccountIdIs ''001A'') [''Id'', ''Name'']),
      Prompted ''Select a contact for this case (or press Enter to skip):\<newline>1. Ada\<newline>2. Bob'',
      Prompted ''Enter a subject for this case:'',
      Prompted ''Enter a description for this case (press Enter to skip):'',
      Prompted ''Select an origin:\<newline>1. Phone\<newline>2. Web'',
      Prompted ''Select a status:\<newline>1. New\<newline>2. Closed'',
      Prompted ''Select a priority:\<newline>1. High\<newline>2. Low'',
      Prompted ''Select a Region__c:\<newline>1. North\<newline>2. South'',
      Prompted ''Enter a search string to find Product__c:'',
      Called (Find ''Product2'' (NameLike ''%wid%'') [''Id'', ''Name'']),
      Prompted ''Select a Product__c:\<newline>1. Widget\<newline>2. Gadget'',
      Prompted ''Seats__c:'']"

text \<open>
  Two runs on the first account, which has two contacts: the contact prompt is answered
  with a blank line, or with a number that is not of the list; the web email and the web
  name are given after blank answers.
\<close>

definition skipAnswers :: "string list" where
  "skipAnswers = [''Acme'', ''1'', '''', '''', ''   '', '' pat@acme.test '', ''  '', ''Pat'',
                  ''Printer jam'', '''', ''2'', ''1'', ''1'', ''2'', ''gad'', ''1'', ''3'']"

definition invalidAnswers :: "string list" where
  "invalidAnswers = [''Acme'', ''1'', ''7'', '''', ''   '', '' pat@acme.test '', ''  '', ''Pat'',
                     ''Printer jam'', '''', ''2'', ''1'', ''1'', ''2'', ''gad'', ''1'', ''3'']"

definition skipRecord :: "int sfrecord" where
  "skipRecord =
     [(''AccountId'', JStr ''001A''), (''SuppliedEmail'', JStr ''pat@acme.test''),
      (''SuppliedName'', JStr ''Pat''), (''Subject'', JStr ''Printer jam''),
      (''Origin'', JStr ''Web''), (''Status'', JStr ''New''), (''Priority'', JStr ''High''),
      (''Region__c'', JStr ''South''), (''Product__c'', JStr ''01tA''), (''Seats__c'', JNum 3)]"

definition skipTrace :: "int event list" where
  "skipTrace =
     [Called (Describe ''Case''),
      Prompted ''Enter a search string to filter accounts:'',
      Called (Find ''Account'' (NameLike ''%Acme%'') [''Id'', ''Name'']),
      Prompted ''Select an account:\<newline>1. Acme Corp\<newline>2. Acme Industries'',
      Called (Find ''Contact'' (AccountIdIs ''001A'') [''Id'', ''Name'']),
      Prompted ''Select a contact for this case (or press Enter to skip):\<newline>1. Ada\<newline>2. Bob'',
      Prompted ''Web Email (required):'',
      Prompted ''Web Email (required):'',
      Prompted ''Web Email (required):'',
      Prompted ''Web Name (required):'',
      Prompted ''Web Name (required):'',
      Prompted ''Enter a subject for this case:'',
      Prompted ''Enter a description for this case (press Enter to skip):'',
      Prompted ''Select an origin:\<newline>1. Phone\<newline>2. Web'',
      Prompted ''Select a status:\<newline>1. New\<newline>2. Closed'',
      Prompted ''Select a priority:\<newline>1. High\<newline>2. Low'',
      Prompted ''Select a Region__c:\<newline>1. North\<newline>2. South'',
      Prompted ''Enter a search string to find Product__c:'',
      Called (Find ''Product2'' (NameLike ''%gad%'') [''Id'', ''Name'']),
      Prompted ''Select a Product__c:\<newline>1. Widget\<newline>2. Gadget'',
      Prompted ''Seats__c:'']"

section \<open>Vocabulary of the statements\<close>

text \<open>
  The 0-based index that an answer selects among \<open>n\<close> presented choices: the answer's
  leading integer, when it lies in \<open>[1, n]\<close>.
\<close>

definition chosen :: "string \<Rightarrow> nat \<Rightarrow> nat option" where
  "chosen answer n =
     (case parseInt answer of
        None \<Rightarrow> None
      | Some k \<Rightarrow> if 1 \<le> k \<and> k \<le> int n then Some (nat (k - 1)) else None)"

text \<open>The events that write to the organisation.\<close>

fun isWrite :: "'n event \<Rightarrow> bool" where
  "isWrite (Called (CreateOne obj r)) = True"
| "isWrite (Called (Create obj rs)) = True"
| "isWrite (Called (Update obj rs)) = True"
| "isWrite (Called (Destroy obj ids)) = True"
| "isWrite (Called (Upsert obj rs ext)) = True"
| "isWrite e = False"

definition writes :: "'n world \<Rightarrow> 'n event list" where
  "writes w = filter isWrite (trace w)"

text \<open>The connection's answer to a bulk call after a history.\<close>

fun bulkAnswer :: "'n connection \<Rightarrow> 'n event list \<Rightarrow> 'n rcall \<Rightarrow> (string + DMLResponse) option" where
  "bulkAnswer conn h (Create obj rs) = Some (createAnswer conn h obj rs)"
| "bulkAnswer conn h (Update obj rs) = Some (updateAnswer conn h obj rs)"
| "bulkAnswer conn h (Destroy obj ids) = Some (destroyAnswer conn h obj ids)"
| "bulkAnswer conn h (Upsert obj rs ext) = Some (upsertAnswer conn h obj rs ext)"
| "bulkAnswer conn h c = None"

text \<open>How many records a bulk call submits.\<close>

fun submitted :: "'n rcall \<Rightarrow> nat" where
  "submitted (Create obj rs) = length rs"
| "submitted (Update obj rs) = length rs"
| "submitted (Destroy obj ids) = length ids"
| "submitted (Upsert obj rs ext) = length rs"
| "submitted c = 0"

text \<open>A connection that answers every bulk call with one result per submitted record.\<close>

definition oneResultPerRecord :: "'n connection \<Rightarrow> bool" where
  "oneResultPerRecord conn =
     (\<forall>h c resp. bulkAnswer conn h c = Some (Inr resp) \<longrightarrow> length (resultsOf resp) = submitted c)"

text \<open>A task that leaves the organisation as it found it: it adds no write to the trace.\<close>

definition readOnly :: "('n, 'a) task \<Rightarrow> bool" where
  "readOnly m = (\<forall>w. writes (snd (m w)) = writes w)"

text \<open>A field of the record that holds a string which is not blank.\<close>

definition filled :: "'n sfrecord \<Rightarrow> string \<Rightarrow> bool" where
  "filled r k = (case map_of r k of Some (JStr s) \<Rightarrow> trim s \<noteq> [] | _ \<Rightarrow> False)"

text \<open>The record names a contact, or carries a web email and a web name.\<close>

definition contactGiven :: "('n::zero) sfrecord \<Rightarrow> bool" where
  "contactGiven r =
     (truthy (map_of r ''ContactId'') \<or> (filled r ''SuppliedEmail'' \<and> filled r ''SuppliedName''))"

text \<open>A postcondition: whatever the task returns satisfies \<open>Q\<close>.\<close>

definition yields :: "('a \<Rightarrow> bool) \<Rightarrow> ('n, 'a) task \<Rightarrow> bool" where
  "yields Q m = (\<forall>w r w'. m w = (Returned r, w') \<longrightarrow> Q r)"

text \<open>
  Two worlds in which the user types the same answers up to surrounding white space, and a
  task that cannot tell such worlds apart.
\<close>

definition sameTyped :: "'n world \<Rightarrow> 'n world \<Rightarrow> bool" where
  "sameTyped w v = (map trim (stdin w) = map trim (stdin v) \<and> trace w = trace v)"

definition blind :: "('n, 'a) task \<Rightarrow> bool" where
  "blind m = (\<forall>w v. sameTyped w v \<longrightarrow> fst (m w) = fst (m v) \<and> sameTyped (snd (m w)) (snd (m v)))"

section \<open>Sequencing lemmas\<close>

lemma andThen_simps:
  "m w = (Returned x, w') \<Longrightarrow> andThen m f w = f x w'"
  "m w = (Thrown e, w') \<Longrightarrow> andThen m f w = (Thrown e, w')"
  "m w = (Pending, w') \<Longrightarrow> andThen m f w = (Pending, w')"
  by (simp_all add: andThen_def)

section \<open>Upsert needs an external id field\<close>

text \<open>
  C4, amended. For an upsert, in both variants of the handler: when \<^verbatim>\<open>externalIdField\<close> is
  absent or the empty string, the handler throws the missing-parameter error and the world
  is unchanged, so no remote call was issued; when it is a non-empty string, the next
  event is the upsert call with the caller's records and that field.
\<close>

theorem upsert_external_id:
  assumes "operation args = ''upsert''"
  shows "(\<not> truthyStr (externalIdField args) \<longrightarrow>
            handleDMLRecords parseFloat conn args w =
              (Thrown ''externalIdField is required for upsert operations'', w) \<and>
            handleDMLRecords_part_001 conn args w =
              (Thrown ''externalIdField is required for upsert operations'', w)) \<and>
         (\<forall>f. externalIdField args = Some f \<and> f \<noteq> [] \<longrightarrow>
            trace (snd (handleDMLRecords parseFloat conn args w)) =
              trace w @ [Called (Upsert (objectName args) (records args) f)] \<and>
            trace (snd (handleDMLRecords_part_001 conn args w)) =
              trace w @ [Called (Upsert (objectName args) (records args) f)])"
  using assms
  by (auto simp: handleDMLRecords_def handleDMLRecords_part_001_def andThen_def throw_def
        upsert_def remote_def resolve_def split: sum.splits)

theorem upsert_external_id_witness:
  "handleDMLRecords sampleParseFloat sampleConn
     (dmlArgs ''upsert'' ''Account'' [[(''Name'', JStr ''x'')]] None) (typing [])
     = (Thrown ''externalIdField is required for upsert operations'', typing []) \<and>
   trace (snd (handleDMLRecords sampleParseFloat sampleConn
            (dmlArgs ''upsert'' ''Account'' [[(''Name'', JStr ''x'')]] (Some ''Ext__c'')) (typing [])))
     = [Called (Upsert ''Account'' [[(''Name'', JStr ''x'')]] ''Ext__c'')]"
  using upsert_external_id [of "dmlArgs ''upsert'' ''Account'' [[(''Name'', JStr ''x'')]] None"
          sampleParseFloat sampleConn "typing []"]
        upsert_external_id [of "dmlArgs ''upsert'' ''Account'' [[(''Name'', JStr ''x'')]] (Some ''Ext__c'')"
          sampleParseFloat sampleConn "typing []"]
  by (simp add: dmlArgs_def typing_def)

text \<open>
  The claim as stated fails when the supplied field is the empty string: it is supplied,
  and no upsert call is issued.
\<close>

theorem upsert_empty_external_id_counterexample:
  "externalIdField (dmlArgs ''upsert'' ''Account'' [[(''Name'', JStr ''x'')]] (Some '''')) = Some '''' \<and>
   handleDMLRecords sampleParseFloat sampleConn
     (dmlArgs ''upsert'' ''Account'' [[(''Name'', JStr ''x'')]] (Some '''')) (typing [])
     = (Thrown ''externalIdField is required for upsert operations'', typing []) \<and>
   handleDMLRecords_part_001 sampleConn
     (dmlArgs ''upsert'' ''Account'' [[(''Name'', JStr ''x'')]] (Some '''')) (typing [])
     = (Thrown ''externalIdField is required for upsert operations'', typing [])"
  by (simp add: handleDMLRecords_def handleDMLRecords_part_001_def dmlArgs_def andThen_def throw_def)

section \<open>handleCreateCase merges the additional fields last\<close>

lemma map_of_assign:
  "distinct (map fst source) \<Longrightarrow>
   map_of (assign target source) k = (case map_of source k of Some v \<Rightarrow> Some v | None \<Rightarrow> map_of target k)"
  unfolding assign_def
proof (induction source arbitrary: target)
  case Nil
  then show ?case by simp
next
  case (Cons p source)
  obtain k' v' where p: "p = (k', v')" by (cases p)
  from Cons.prems have d: "distinct (map fst source)" and n: "k' \<notin> fst ` set source"
    by (auto simp: p)
  have none: "map_of source k' = None"
    using n by (simp add: map_of_eq_None_iff)
  show ?case
    using Cons.IH [OF d, of "AList.update k' v' target"] none
    by (auto simp: p update_conv' split: option.splits)
qed

lemma handleCreateCase_trace:
  "trace (snd (handleCreateCase env conn args w)) =
     trace w @ [Called (CreateOne ''Case'' (caseRecordOf args))]"
  by (simp add: handleCreateCase_def tryCatch_def andThen_def createOne_def remote_def resolve_def
        split: sum.splits)

lemma caseRecordOf_named:
  "map_of (caseRecordOf (args\<lparr>additionalFields := None\<rparr>)) ''Subject'' = Some (JStr (subject args))"
  "map_of (caseRecordOf (args\<lparr>additionalFields := None\<rparr>)) ''Description'' = Some (JStr (description args))"
  "map_of (caseRecordOf (args\<lparr>additionalFields := None\<rparr>)) ''Priority'' = Some (JStr (priority args))"
  "map_of (caseRecordOf (args\<lparr>additionalFields := None\<rparr>)) ''Status'' = Some (JStr (status args))"
  "map_of (caseRecordOf (args\<lparr>additionalFields := None\<rparr>)) ''AccountId'' = Some (JStr (accountId args))"
  by (simp_all add: caseRecordOf_def Let_def update_conv')

text \<open>
  C9. \<^verbatim>\<open>handleCreateCase\<close> sends exactly one record to \<^verbatim>\<open>create\<close>; the named arguments
  are written first (the subject under \<^verbatim>\<open>Subject\<close>), then \<^verbatim>\<open>additionalFields\<close> is
  merged: a key of \<^verbatim>\<open>additionalFields\<close> has its value from there, also when a named
  argument wrote the same key, and every other key keeps the value the named arguments
  gave it. (An object has each key once: the entries' keys are distinct.)
\<close>

theorem additional_fields_override:
  assumes "additionalFields args = Some extra" and "distinct (map fst extra)"
  shows "trace (snd (handleCreateCase env conn args w)) =
           trace w @ [Called (CreateOne ''Case'' (caseRecordOf args))] \<and>
         map_of (caseRecordOf (args\<lparr>additionalFields := None\<rparr>)) ''Subject'' = Some (JStr (subject args)) \<and>
         (\<forall>k v. map_of extra k = Some v \<longrightarrow> map_of (caseRecordOf args) k = Some v) \<and>
         (\<forall>k. map_of extra k = None \<longrightarrow>
            map_of (caseRecordOf args) k = map_of (caseRecordOf (args\<lparr>additionalFields := None\<rparr>)) k)"
proof -
  have eq: "caseRecordOf args = assign (caseRecordOf (args\<lparr>additionalFields := None\<rparr>)) extra"
    using assms(1) by (simp add: caseRecordOf_def Let_def)
  have over: "\<forall>k v. map_of extra k = Some v \<longrightarrow> map_of (caseRecordOf args) k = Some v"
    unfolding eq by (simp add: map_of_assign [OF assms(2)])
  have keep: "\<forall>k. map_of extra k = None \<longrightarrow>
      map_of (caseRecordOf args) k = map_of (caseRecordOf (args\<lparr>additionalFields := None\<rparr>)) k"
    unfolding eq by (simp add: map_of_assign [OF assms(2)])
  show ?thesis
    using over keep handleCreateCase_trace [of env conn args w] caseRecordOf_named(1) [of args]
    by blast
qed

theorem additional_fields_override_witness:
  "map_of (caseRecordOf sampleCase) ''Subject'' = Some (JStr ''Printer on fire'') \<and>
   map_of (caseRecordOf (sampleCase\<lparr>additionalFields := None\<rparr>)) ''Subject'' = Some (JStr ''Printer jam'') \<and>
   trace (snd (handleCreateCase None sampleConn sampleCase (typing []))) =
     [Called (CreateOne ''Case'' (caseRecordOf sampleCase))]"
proof -
  have a: "additionalFields sampleCase = Some [(''Subject'', JStr ''Printer on fire''), (''Escalated__c'', JBool True)]"
    by (simp add: sampleCase_def)
  have d: "distinct (map fst [(''Subject'', JStr ''Printer on fire'' :: int jsval), (''Escalated__c'', JBool True)])"
    by simp
  show ?thesis
    using additional_fields_override [OF a d, of None sampleConn "typing []"]
    by (simp add: sampleCase_def typing_def)
qed

section \<open>Remote failures: caught by the case tools, thrown by the DML handler\<close>

lemma getCaseMetadata_total: "\<exists>res. fst (handleGetCaseMetadata conn w) = Returned res"
  by (auto simp: handleGetCaseMetadata_def tryCatch_def andThen_def describe_def remote_def resolve_def
      split: sum.splits)

lemma searchAccounts_total: "\<exists>res. fst (handleSearchAccounts conn t w) = Returned res"
  by (auto simp: handleSearchAccounts_def tryCatch_def andThen_def find'_def remote_def resolve_def
      split: sum.splits)

lemma searchContacts_total: "\<exists>res. fst (handleSearchContacts conn a w) = Returned res"
  by (auto simp: handleSearchContacts_def tryCatch_def andThen_def find'_def retrieve_def remote_def resolve_def
      split: sum.splits)

lemma createCase_total: "\<exists>res. fst (handleCreateCase env conn args w) = Returned res"
  by (auto simp: handleCreateCase_def tryCatch_def andThen_def createOne_def remote_def resolve_def
      split: sum.splits)

lemma getPicklistValues_total: "\<exists>res. fst (handleGetPicklistValues conn f w) = Returned res"
  by (auto simp: handleGetPicklistValues_def tryCatch_def andThen_def describe_def remote_def resolve_def throw_def
      split: sum.splits option.splits)

lemma getCaseMetadata_caught:
  "describeAnswer conn (trace w) ''Case'' = Inl e \<Longrightarrow>
   fst (handleGetCaseMetadata conn w) = Returned (errorResult (''Error getting case metadata: '' @ e))"
  by (simp add: handleGetCaseMetadata_def tryCatch_def andThen_def describe_def remote_def resolve_def)

lemma searchAccounts_caught:
  "findAnswer conn (trace w) ''Account'' (NameLike (''%'' @ t @ ''%'')) [''Id'', ''Name''] = Inl e \<Longrightarrow>
   fst (handleSearchAccounts conn t w) = Returned (errorResult (''Error searching accounts: '' @ e))"
  by (simp add: handleSearchAccounts_def tryCatch_def andThen_def find'_def remote_def resolve_def)

lemma searchContacts_caught:
  "retrieveAnswer conn (trace w) ''Account'' a = Inl e \<or>
   (\<exists>account. retrieveAnswer conn (trace w) ''Account'' a = Inr account \<and>
      findAnswer conn (trace w @ [Called (Retrieve ''Account'' a)]) ''Contact'' (AccountIdIs a)
        [''Id'', ''Name'', ''Email'', ''Phone''] = Inl e) \<Longrightarrow>
   fst (handleSearchContacts conn a w) = Returned (errorResult (''Error searching contacts: '' @ e))"
  by (auto simp: handleSearchContacts_def tryCatch_def andThen_def find'_def retrieve_def remote_def resolve_def)

lemma createCase_caught:
  "createOneAnswer conn (trace w) ''Case'' (caseRecordOf args) = Inl e \<Longrightarrow>
   fst (handleCreateCase env conn args w) = Returned (errorResult (''Error creating case: '' @ e))"
  by (simp add: handleCreateCase_def tryCatch_def andThen_def createOne_def remote_def resolve_def)

lemma getPicklistValues_caught:
  "describeAnswer conn (trace w) ''Case'' = Inl e \<Longrightarrow>
   fst (handleGetPicklistValues conn f w) = Returned (errorResult (''Error getting picklist values: '' @ e))"
  by (simp add: handleGetPicklistValues_def tryCatch_def andThen_def describe_def remote_def resolve_def)

lemma dml_rejection_thrown:
  assumes "bulkAnswer conn (trace w) c = Some (Inl e)"
    and "(operation args = ''insert'' \<and> objectName args \<noteq> ''Case'' \<and> c = Create (objectName args) (records args)) \<or>
         (operation args = ''update'' \<and> c = Update (objectName args) (records args)) \<or>
         (operation args = ''delete'' \<and> c = Destroy (objectName args) (map (\<lambda>r. map_of r ''Id'') (records args))) \<or>
         (operation args = ''upsert'' \<and> truthyStr (externalIdField args) \<and>
            c = Upsert (objectName args) (records args) (the (externalIdField args)))"
  shows "handleDMLRecords parseFloat conn args w = (Thrown e, w\<lparr>trace := trace w @ [Called c]\<rparr>) \<and>
         handleDMLRecords_part_001 conn args w = (Thrown e, w\<lparr>trace := trace w @ [Called c]\<rparr>)"
  using assms
  by (auto simp: handleDMLRecords_def handleDMLRecords_part_001_def andThen_def
        create_def update_def destroy_def upsert_def remote_def)

lemma guided_insert_describe_rejected:
  assumes "operation args = ''insert''" "objectName args = ''Case''"
    and "describeAnswer conn (trace w) ''Case'' = Inl e"
  shows "handleDMLRecords parseFloat conn args w =
           (Thrown e, w\<lparr>trace := trace w @ [Called (Describe ''Case'')]\<rparr>)"
  using assms
  by (simp add: handleDMLRecords_def advancedGuidedCaseCreation_def collectCaseRecord_def
        andThen_def describe_def remote_def)

lemma guided_insert_flow_thrown:
  "operation args = ''insert'' \<and> objectName args = ''Case'' \<and>
   advancedGuidedCaseCreation parseFloat conn w = (Thrown e, w1) \<longrightarrow>
     handleDMLRecords parseFloat conn args w = (Thrown e, w1)"
  by (simp add: handleDMLRecords_def andThen_def)

lemma guided_insert_create_rejected:
  "operation args = ''insert'' \<and> objectName args = ''Case'' \<and>
   advancedGuidedCaseCreation parseFloat conn w = (Returned caseDetails, w1) \<and>
   createAnswer conn (trace w1) ''Case'' [caseDetails] = Inl e \<longrightarrow>
     handleDMLRecords parseFloat conn args w =
       (Thrown e, w1\<lparr>trace := trace w1 @ [Called (Create ''Case'' [caseDetails])]\<rparr>)"
  by (simp add: handleDMLRecords_def andThen_def create_def remote_def)

text \<open>
  C3, amended. The five case tools (\<^verbatim>\<open>handleGetCaseMetadata\<close>, \<^verbatim>\<open>handleSearchAccounts\<close>,
  \<^verbatim>\<open>handleSearchContacts\<close>, \<^verbatim>\<open>handleCreateCase\<close>, \<^verbatim>\<open>handleGetPicklistValues\<close>) always
  return a result object, and when a remote call of theirs is rejected the result is
  \<^verbatim>\<open>isError: true\<close> with the tool's prefix followed by the error's message.
  \<^verbatim>\<open>handleDMLRecords\<close> has no \<^verbatim>\<open>catch\<close>: in both variants a rejected create, update,
  destroy or upsert call is thrown to the caller; so is every error that the guided flow
  throws (a rejected describe, a cancellation, an invalid selection), and so is the
  rejection of the create call that follows the flow.
\<close>

theorem remote_failures:
  "(\<exists>res. fst (handleGetCaseMetadata conn w) = Returned res) \<and>
   (\<exists>res. fst (handleSearchAccounts conn searchTerm w) = Returned res) \<and>
   (\<exists>res. fst (handleSearchContacts conn account w) = Returned res) \<and>
   (\<exists>res. fst (handleCreateCase env conn cargs w) = Returned res) \<and>
   (\<exists>res. fst (handleGetPicklistValues conn fieldName w) = Returned res) \<and>
   (describeAnswer conn (trace w) ''Case'' = Inl e \<longrightarrow>
      fst (handleGetCaseMetadata conn w) =
        Returned (errorResult (''Error getting case metadata: '' @ e)) \<and>
      fst (handleGetPicklistValues conn fieldName w) =
        Returned (errorResult (''Error getting picklist values: '' @ e))) \<and>
   (findAnswer conn (trace w) ''Account'' (NameLike (''%'' @ searchTerm @ ''%'')) [''Id'', ''Name''] = Inl e \<longrightarrow>
      fst (handleSearchAccounts conn searchTerm w) =
        Returned (errorResult (''Error searching accounts: '' @ e))) \<and>
   (retrieveAnswer conn (trace w) ''Account'' account = Inl e \<or>
    (\<exists>a. retrieveAnswer conn (trace w) ''Account'' account = Inr a \<and>
       findAnswer conn (trace w @ [Called (Retrieve ''Account'' account)]) ''Contact''
         (AccountIdIs account) [''Id'', ''Name'', ''Email'', ''Phone''] = Inl e) \<longrightarrow>
      fst (handleSearchContacts conn account w) =
        Returned (errorResult (''Error searching contacts: '' @ e))) \<and>
   (createOneAnswer conn (trace w) ''Case'' (caseRecordOf cargs) = Inl e \<longrightarrow>
      fst (handleCreateCase env conn cargs w) =
        Returned (errorResult (''Error creating case: '' @ e))) \<and>
   (bulkAnswer conn (trace w) c = Some (Inl e) \<and>
    ((operation args = ''insert'' \<and> objectName args \<noteq> ''Case'' \<and>
        c = Create (objectName args) (records args)) \<or>
     (operation args = ''update'' \<and> c = Update (objectName args) (records args)) \<or>
     (operation args = ''delete'' \<and>
        c = Destroy (objectName args) (map (\<lambda>r. map_of r ''Id'') (records args))) \<or>
     (operation args = ''upsert'' \<and> truthyStr (externalIdField args) \<and>
        c = Upsert (objectName args) (records args) (the (externalIdField args)))) \<longrightarrow>
      handleDMLRecords parseFloat conn args w = (Thrown e, w\<lparr>trace := trace w @ [Called c]\<rparr>) \<and>
      handleDMLRecords_part_001 conn args w = (Thrown e, w\<lparr>trace := trace w @ [Called c]\<rparr>)) \<and>
   (operation args = ''insert'' \<and> objectName args = ''Case'' \<and>
    describeAnswer conn (trace w) ''Case'' = Inl e \<longrightarrow>
      handleDMLRecords parseFloat conn args w =
        (Thrown e, w\<lparr>trace := trace w @ [Called (Describe ''Case'')]\<rparr>)) \<and>
   (operation args = ''insert'' \<and> objectName args = ''Case'' \<and>
    advancedGuidedCaseCreation parseFloat conn w = (Thrown e, w1) \<longrightarrow>
      handleDMLRecords parseFloat conn args w = (Thrown e, w1)) \<and>
   (operation args = ''insert'' \<and> objectName args = ''Case'' \<and>
    advancedGuidedCaseCreation parseFloat conn w = (Returned caseDetails, w1) \<and>
    createAnswer conn (trace w1) ''Case'' [caseDetails] = Inl e \<longrightarrow>
      handleDMLRecords parseFloat conn args w =
        (Thrown e, w1\<lparr>trace := trace w1 @ [Called (Create ''Case'' [caseDetails])]\<rparr>))"
  using getCaseMetadata_total [of conn w] searchAccounts_total [of conn searchTerm w]
    searchContacts_total [of conn account w] createCase_total [of env conn cargs w]
    getPicklistValues_total [of conn fieldName w]
    getCaseMetadata_caught [of conn w e] getPicklistValues_caught [of conn w e fieldName]
    searchAccounts_caught [of conn w searchTerm e] searchContacts_caught [of conn w account e]
    createCase_caught [of conn w cargs e env]
    dml_rejection_thrown [of conn w c e args parseFloat]
    guided_insert_describe_rejected [of args conn w e parseFloat]
    guided_insert_flow_thrown [of args parseFloat conn w e w1]
    guided_insert_create_rejected [of args parseFloat conn w caseDetails w1 e]
  by blast

lemma cancelled_run:
  "advancedGuidedCaseCreation sampleParseFloat sampleConn (typing (collectAnswers @ [''n''])) =
     (Thrown ''Case creation canceled by user.'',
      \<lparr>stdin = [], trace = sampleTrace @ [Prompted ''\<newline>Create this case? (Y/N):'']\<rparr>)"
  by code_simp

lemma locked_run:
  "advancedGuidedCaseCreation sampleParseFloat lockedConn (typing sampleAnswers) =
     (Returned sampleRecord,
      \<lparr>stdin = [], trace = sampleTrace @ [Prompted ''\<newline>Create this case? (Y/N):'']\<rparr>)"
  by code_simp

theorem remote_failures_witness:
  "fst (handleSearchAccounts downConn ''Acme'' (typing [])) =
     Returned (errorResult ''Error searching accounts: ECONNRESET'') \<and>
   fst (handleGetCaseMetadata downConn (typing [])) =
     Returned (errorResult ''Error getting case metadata: ECONNRESET'') \<and>
   handleDMLRecords_part_001 downConn (dmlArgs ''delete'' ''Account'' [[(''Id'', JStr ''001A'')]] None) (typing []) =
     (Thrown ''ECONNRESET'', \<lparr>stdin = [], trace = [Called (Destroy ''Account'' [Some (JStr ''001A'')])]\<rparr>) \<and>
   handleDMLRecords sampleParseFloat sampleConn twoCases (typing (collectAnswers @ [''n''])) =
     (Thrown ''Case creation canceled by user.'',
      \<lparr>stdin = [], trace = sampleTrace @ [Prompted ''\<newline>Create this case? (Y/N):'']\<rparr>) \<and>
   handleDMLRecords sampleParseFloat lockedConn twoCases (typing sampleAnswers) =
     (Thrown ''INSUFFICIENT_ACCESS'',
      \<lparr>stdin = [],
       trace = sampleTrace @ [Prompted ''\<newline>Create this case? (Y/N):'',
                              Called (Create ''Case'' [sampleRecord])]\<rparr>)"
proof -
  have op: "operation twoCases = ''insert'' \<and> objectName twoCases = ''Case''"
    by (simp add: twoCases_def dmlArgs_def)
  have locked: "createAnswer lockedConn
      (trace \<lparr>stdin = [], trace = sampleTrace @ [Prompted ''\<newline>Create this case? (Y/N):'']\<rparr>)
      ''Case'' [sampleRecord] = Inl ''INSUFFICIENT_ACCESS''"
    by (simp add: lockedConn_def)
  have a: "fst (handleSearchAccounts downConn ''Acme'' (typing [])) =
       Returned (errorResult ''Error searching accounts: ECONNRESET'') \<and>
     fst (handleGetCaseMetadata downConn (typing [])) =
       Returned (errorResult ''Error getting case metadata: ECONNRESET'') \<and>
     handleDMLRecords_part_001 downConn (dmlArgs ''delete'' ''Account'' [[(''Id'', JStr ''001A'')]] None) (typing []) =
       (Thrown ''ECONNRESET'', \<lparr>stdin = [], trace = [Called (Destroy ''Account'' [Some (JStr ''001A'')])]\<rparr>)"
    using remote_failures [of downConn "typing []" "''Acme''" "''001A''" None sampleCase "''Priority''"
        "''ECONNRESET''" "Destroy ''Account'' [Some (JStr ''001A'')]"
        "dmlArgs ''delete'' ''Account'' [[(''Id'', JStr ''001A'')]] None" sampleParseFloat]
    by (simp add: downConn_def typing_def dmlArgs_def)
  have b: "handleDMLRecords sampleParseFloat sampleConn twoCases (typing (collectAnswers @ [''n''])) =
     (Thrown ''Case creation canceled by user.'',
      \<lparr>stdin = [], trace = sampleTrace @ [Prompted ''\<newline>Create this case? (Y/N):'']\<rparr>)"
    using remote_failures [where args = twoCases and parseFloat = sampleParseFloat and conn = sampleConn
        and w = "typing (collectAnswers @ [''n''])" and e = "''Case creation canceled by user.''"
        and ?w1.0 = "\<lparr>stdin = [], trace = sampleTrace @ [Prompted ''\<newline>Create this case? (Y/N):'']\<rparr>"]
      op cancelled_run
    by blast
  have c: "handleDMLRecords sampleParseFloat lockedConn twoCases (typing sampleAnswers) =
     (Thrown ''INSUFFICIENT_ACCESS'',
      \<lparr>stdin = [], trace = sampleTrace @ [Prompted ''\<newline>Create this case? (Y/N):'']\<rparr>
        \<lparr>trace := trace \<lparr>stdin = [], trace = sampleTrace @ [Prompted ''\<newline>Create this case? (Y/N):'']\<rparr> @
                  [Called (Create ''Case'' [sampleRecord])]\<rparr>)"
    using remote_failures [where args = twoCases and parseFloat = sampleParseFloat and conn = lockedConn
        and w = "typing sampleAnswers" and e = "''INSUFFICIENT_ACCESS''" and caseDetails = sampleRecord
        and ?w1.0 = "\<lparr>stdin = [], trace = sampleTrace @ [Prompted ''\<newline>Create this case? (Y/N):'']\<rparr>"]
      op locked_run locked
    by blast
  from a b c show ?thesis by simp
qed

text \<open>
  The claim as stated fails for the DML handler: an update on a connection that rejects
  the call ends in a thrown error, not in a result object.
\<close>

theorem dml_rejection_counterexample:
  "handleDMLRecords sampleParseFloat downConn
      (dmlArgs ''update'' ''Account'' [[(''Id'', JStr ''001A''), (''Name'', JStr ''Acme'')]] None) (typing []) =
     (Thrown ''ECONNRESET'',
      \<lparr>stdin = [],
       trace = [Called (Update ''Account'' [[(''Id'', JStr ''001A''), (''Name'', JStr ''Acme'')]])]\<rparr>) \<and>
   handleDMLRecords_part_001 downConn
      (dmlArgs ''update'' ''Account'' [[(''Id'', JStr ''001A''), (''Name'', JStr ''Acme'')]] None) (typing []) =
     (Thrown ''ECONNRESET'',
      \<lparr>stdin = [],
       trace = [Called (Update ''Account'' [[(''Id'', JStr ''001A''), (''Name'', JStr ''Acme'')]])]\<rparr>)"
  by (simp add: handleDMLRecords_def handleDMLRecords_part_001_def dmlArgs_def typing_def downConn_def
        andThen_def update_def remote_def)

section \<open>The report of a bulk call\<close>

lemma dml_returned:
  assumes "handleDMLRecords parseFloat conn args w = (Returned res, w')"
  shows "\<exists>h c resp. trace w' = h @ [Called c] \<and> bulkAnswer conn h c = Some (Inr resp) \<and>
           res = okResult (formatDMLResults (operation args) (resultsOf resp)) \<and>
           submitted c = (if operation args = ''insert'' \<and> objectName args = ''Case'' then 1
                          else length (records args))"
  using assms
  by (auto simp: handleDMLRecords_def andThen_def create_def update_def destroy_def upsert_def
        remote_def resolve_def throw_def
      split: if_splits prod.splits outcome.splits sum.splits)

lemma dml_part_001_returned:
  assumes "handleDMLRecords_part_001 conn args w = (Returned res, w')"
    and "\<not> (operation args = ''insert'' \<and> objectName args = ''Case'')"
  shows "\<exists>h c resp. trace w' = h @ [Called c] \<and> bulkAnswer conn h c = Some (Inr resp) \<and>
           res = okResult (formatDMLResults (operation args) (resultsOf resp)) \<and>
           submitted c = length (records args)"
  using assms
  by (auto simp: handleDMLRecords_part_001_def andThen_def create_def update_def destroy_def upsert_def
        remote_def resolve_def throw_def
      split: if_splits prod.splits outcome.splits sum.splits)

lemma sublist_concat: "x \<in> set xss \<Longrightarrow> sublist x (concat xss)"
proof -
  assume "x \<in> set xss"
  then obtain as bs where "xss = as @ x # bs" by (auto dest: split_list)
  then have "concat xss = concat as @ x @ concat bs" by simp
  then show ?thesis unfolding sublist_def by blast
qed

lemma sublist_inside: "sublist x y \<Longrightarrow> sublist x (p @ y @ q)"
proof -
  assume "sublist x y"
  then obtain a b where "y = a @ x @ b" unfolding sublist_def by blast
  then have "p @ y @ q = (p @ a) @ x @ (b @ q)" by simp
  then show ?thesis unfolding sublist_def by blast
qed

lemma failure_positive: "r \<in> set rs \<Longrightarrow> \<not> success r \<Longrightarrow> failureCount rs > 0"
  using length_filter_less [of r rs success]
  by (simp add: failureCount_def successCount_def)

lemma failureCount_filter: "failureCount rs = length (filter (\<lambda>r. \<not> success r) rs)"
  using sum_length_filter_compl [of success rs]
  by (simp add: failureCount_def successCount_def)

lemma format_tally:
  "\<exists>rest. formatDMLResults op rs =
      toUpperCase op @ '' operation completed.\<newline>'' @
      ''Processed '' @ showNat (length rs) @ '' records:\<newline>'' @
      ''- Successful: '' @ showNat (length (filter success rs)) @ ''\<newline>'' @
      ''- Failed: '' @ showNat (length (filter (\<lambda>r. \<not> success r) rs)) @ ''\<newline>'' @ rest"
  by (simp only: formatDMLResults_def failureCount_filter successCount_def) blast

lemma sampleConn_oneResultPerRecord: "oneResultPerRecord sampleConn"
  unfolding oneResultPerRecord_def
proof (intro allI impI)
  fix h c resp
  assume "bulkAnswer sampleConn h c = Some (Inr resp)"
  then show "length (resultsOf resp) = submitted c"
    by (cases c) (auto simp: sampleConn_def resultsOf_def)
qed

text \<open>
  C5, amended. The two counts of the report add up to the number of results that the
  remote call returned: whenever the handler (either variant) returns, its last event is
  a bulk call that the connection answered with a response, and the text it returns starts
  with the operation, the number of results of that response, the number of them that
  succeeded and the number of them that failed, and the last two add up to the first.
  The call submits the \<^verbatim>\<open>records\<close> of the caller, except for the guided insert of a Case,
  where one record is submitted whatever \<^verbatim>\<open>records\<close> holds; the number of results is the
  number of submitted records when the connection answers one result per submitted record.
\<close>

theorem tally_counts:
  "length (filter success rs) + length (filter (\<lambda>r. \<not> success r) rs) = length rs \<and>
   (handleDMLRecords parseFloat conn args w = (Returned res, w') \<or>
    handleDMLRecords_part_001 conn args w = (Returned res, w') \<and>
      \<not> (operation args = ''insert'' \<and> objectName args = ''Case'') \<longrightarrow>
    (\<exists>h c resp rest.
       trace w' = h @ [Called c] \<and> bulkAnswer conn h c = Some (Inr resp) \<and>
       content res =
         [TextItem (toUpperCase (operation args) @ '' operation completed.\<newline>'' @
            ''Processed '' @ showNat (length (resultsOf resp)) @ '' records:\<newline>'' @
            ''- Successful: '' @ showNat (length (filter success (resultsOf resp))) @ ''\<newline>'' @
            ''- Failed: '' @ showNat (length (filter (\<lambda>r. \<not> success r) (resultsOf resp))) @
            ''\<newline>'' @ rest)] \<and>
       length (filter success (resultsOf resp)) + length (filter (\<lambda>r. \<not> success r) (resultsOf resp)) =
         length (resultsOf resp) \<and>
       submitted c =
         (if operation args = ''insert'' \<and> objectName args = ''Case'' then 1
          else length (records args)) \<and>
       (oneResultPerRecord conn \<longrightarrow>
          length (resultsOf resp) =
            (if operation args = ''insert'' \<and> objectName args = ''Case'' then 1
             else length (records args)))))"
proof (intro conjI impI)
  show "length (filter success rs) + length (filter (\<lambda>r. \<not> success r) rs) = length rs"
    by (rule sum_length_filter_compl)
next
  assume run: "handleDMLRecords parseFloat conn args w = (Returned res, w') \<or>
    handleDMLRecords_part_001 conn args w = (Returned res, w') \<and>
      \<not> (operation args = ''insert'' \<and> objectName args = ''Case'')"
  then obtain h c resp where t: "trace w' = h @ [Called c]"
    and c: "bulkAnswer conn h c = Some (Inr resp)"
    and res: "res = okResult (formatDMLResults (operation args) (resultsOf resp))"
    and n: "submitted c = (if operation args = ''insert'' \<and> objectName args = ''Case'' then 1
                           else length (records args))"
    using dml_returned [of parseFloat conn args w res w'] dml_part_001_returned [of conn args w res w']
    by auto
  let ?rs = "resultsOf resp"
  obtain rest where rest: "formatDMLResults (operation args) ?rs =
      toUpperCase (operation args) @ '' operation completed.\<newline>'' @
      ''Processed '' @ showNat (length ?rs) @ '' records:\<newline>'' @
      ''- Successful: '' @ showNat (length (filter success ?rs)) @ ''\<newline>'' @
      ''- Failed: '' @ showNat (length (filter (\<lambda>r. \<not> success r) ?rs)) @ ''\<newline>'' @ rest"
    using format_tally [of "operation args" ?rs] by blast
  have one: "oneResultPerRecord conn \<longrightarrow> length ?rs = submitted c"
    using c unfolding oneResultPerRecord_def by blast
  have body: "content res =
         [TextItem (toUpperCase (operation args) @ '' operation completed.\<newline>'' @
            ''Processed '' @ showNat (length ?rs) @ '' records:\<newline>'' @
            ''- Successful: '' @ showNat (length (filter success ?rs)) @ ''\<newline>'' @
            ''- Failed: '' @ showNat (length (filter (\<lambda>r. \<not> success r) ?rs)) @ ''\<newline>'' @ rest)]"
    unfolding res okResult_def using rest by simp
  have sum: "length (filter success ?rs) + length (filter (\<lambda>r. \<not> success r) ?rs) = length ?rs"
    by (rule sum_length_filter_compl)
  have len: "oneResultPerRecord conn \<longrightarrow>
          length ?rs =
            (if operation args = ''insert'' \<and> objectName args = ''Case'' then 1
             else length (records args))"
    using one n by simp
  show "\<exists>h c resp rest.
       trace w' = h @ [Called c] \<and> bulkAnswer conn h c = Some (Inr resp) \<and>
       content res =
         [TextItem (toUpperCase (operation args) @ '' operation completed.\<newline>'' @
            ''Processed '' @ showNat (length (resultsOf resp)) @ '' records:\<newline>'' @
            ''- Successful: '' @ showNat (length (filter success (resultsOf resp))) @ ''\<newline>'' @
            ''- Failed: '' @ showNat (length (filter (\<lambda>r. \<not> success r) (resultsOf resp))) @
            ''\<newline>'' @ rest)] \<and>
       length (filter success (resultsOf resp)) + length (filter (\<lambda>r. \<not> success r) (resultsOf resp)) =
         length (resultsOf resp) \<and>
       submitted c =
         (if operation args = ''insert'' \<and> objectName args = ''Case'' then 1
          else length (records args)) \<and>
       (oneResultPerRecord conn \<longrightarrow>
          length (resultsOf resp) =
            (if operation args = ''insert'' \<and> objectName args = ''Case'' then 1
             else length (records args)))"
    by (intro exI [of _ h] exI [of _ c] exI [of _ resp] exI [of _ rest] conjI t c body sum n len)
qed

lemma mixedBatch_run:
  "handleDMLRecords sampleParseFloat sampleConn mixedBatch (typing []) =
     (Returned (okResult mixedReport),
      \<lparr>stdin = [], trace = [Called (Create ''Account'' (records mixedBatch))]\<rparr>)"
  by code_simp

theorem tally_counts_witness:
  "\<exists>h c resp rest.
       trace \<lparr>stdin = [], trace = [Called (Create ''Account'' (records mixedBatch)) :: int event]\<rparr> =
         h @ [Called c] \<and>
       bulkAnswer sampleConn h c = Some (Inr resp) \<and>
       content (okResult mixedReport) =
         [TextItem (toUpperCase (operation mixedBatch) @ '' operation completed.\<newline>'' @
            ''Processed '' @ showNat (length (resultsOf resp)) @ '' records:\<newline>'' @
            ''- Successful: '' @ showNat (length (filter success (resultsOf resp))) @ ''\<newline>'' @
            ''- Failed: '' @ showNat (length (filter (\<lambda>r. \<not> success r) (resultsOf resp))) @
            ''\<newline>'' @ rest)] \<and>
       length (filter success (resultsOf resp)) + length (filter (\<lambda>r. \<not> success r) (resultsOf resp)) =
         length (resultsOf resp) \<and>
       length (resultsOf resp) = length (records mixedBatch)"
proof -
  have notCase: "\<not> (operation mixedBatch = ''insert'' \<and> objectName mixedBatch = ''Case'')"
    by (simp add: mixedBatch_def dmlArgs_def)
  from tally_counts [of "[]" sampleParseFloat sampleConn mixedBatch "typing []" "okResult mixedReport"
        "\<lparr>stdin = [], trace = [Called (Create ''Account'' (records mixedBatch))]\<rparr>",
        THEN conjunct2, rule_format, OF disjI1, OF mixedBatch_run]
  obtain h c resp rest where
    "trace \<lparr>stdin = [], trace = [Called (Create ''Account'' (records mixedBatch)) :: int event]\<rparr> =
         h @ [Called c]"
    "bulkAnswer sampleConn h c = Some (Inr resp)"
    "content (okResult mixedReport) =
         [TextItem (toUpperCase (operation mixedBatch) @ '' operation completed.\<newline>'' @
            ''Processed '' @ showNat (length (resultsOf resp)) @ '' records:\<newline>'' @
            ''- Successful: '' @ showNat (length (filter success (resultsOf resp))) @ ''\<newline>'' @
            ''- Failed: '' @ showNat (length (filter (\<lambda>r. \<not> success r) (resultsOf resp))) @
            ''\<newline>'' @ rest)]"
    "length (filter success (resultsOf resp)) + length (filter (\<lambda>r. \<not> success r) (resultsOf resp)) =
         length (resultsOf resp)"
    "oneResultPerRecord sampleConn \<longrightarrow>
          length (resultsOf resp) =
            (if operation mixedBatch = ''insert'' \<and> objectName mixedBatch = ''Case'' then 1
             else length (records mixedBatch))"
    by (elim exE conjE)
  moreover from this(5) have "length (resultsOf resp) = length (records mixedBatch)"
    using sampleConn_oneResultPerRecord notCase by (simp only: if_False simp_thms)
  ultimately show ?thesis by (intro exI conjI)
qed

text \<open>
  The claim as stated fails for the guided insert of a Case: the caller passes two
  records, the flow creates one, and the report counts one success and no failure.
\<close>

theorem tally_counts_counterexample:
  "length (records twoCases) = 2 \<and>
   fst (handleDMLRecords sampleParseFloat sampleConn twoCases (typing sampleAnswers)) =
     Returned (okResult ''INSERT operation completed.\<newline>Processed 1 records:\<newline>- Successful: 1\<newline>- Failed: 0\<newline>\<newline>Successful Records:\<newline>Record 1 - ID: a01\<newline>\<newline>'')"
  by code_simp

lemma enumerate_nth: "i < length rs \<Longrightarrow> (i, rs ! i) \<in> set (enumerate 0 rs)"
  by (simp add: in_set_enumerate_eq)

lemma report_contains_block:
  assumes "i < length rs" "\<not> success (rs ! i)"
  shows "sublist (failureReport (i, rs ! i)) (formatDMLResults op rs)"
proof -
  have inner: "sublist (failureReport (i, rs ! i)) (concat (map failureReport (enumerate 0 rs)))"
    using enumerate_nth [OF assms(1)] by (intro sublist_concat) auto
  have "failureCount rs > 0"
    using failure_positive [of "rs ! i" rs] assms by simp
  then have "\<exists>pre. formatDMLResults op rs = pre @ concat (map failureReport (enumerate 0 rs))"
    by (simp only: formatDMLResults_def if_True append_assoc [symmetric]) blast
  then obtain pre where "formatDMLResults op rs = pre @ concat (map failureReport (enumerate 0 rs))" ..
  with inner show ?thesis
    using sublist_inside [of _ _ pre "[]"] by simp
qed

lemma errorDetail_line:
  "errorDetail e =
     ''  - '' @ message e @
     (case statusCode e of Some c \<Rightarrow> if c \<noteq> [] then '' ['' @ c @ '']'' else [] | None \<Rightarrow> []) @
     (case errFields e of
        Some fs \<Rightarrow> if fs \<noteq> [] then ''\<newline>    Fields: '' @ join '', '' fs else []
      | None \<Rightarrow> []) @
     ''\<newline>''"
  by (cases "statusCode e"; cases "errFields e") (simp_all add: errorDetail_def)

lemma singleErrorDetail_line:
  "singleErrorDetail e =
     ''  - '' @ message e @
     (case statusCode e of Some c \<Rightarrow> if c \<noteq> [] then '' ['' @ c @ '']'' else [] | None \<Rightarrow> []) @
     (case errFields e of Some fs \<Rightarrow> ''\<newline>    Fields: '' @ join '', '' fs | None \<Rightarrow> []) @
     ''\<newline>''"
  by (cases "statusCode e"; cases "errFields e") (simp_all add: singleErrorDetail_def)

lemma report_list_block:
  assumes "i < length rs" "\<not> success (rs ! i)" "errors (rs ! i) = Some (ErrorList es)"
  shows "sublist
     (''Record '' @ showNat (i + 1) @ '':\<newline>'' @
      concat (map (\<lambda>e. ''  - '' @ message e @
                    (case statusCode e of
                       Some c \<Rightarrow> if c \<noteq> [] then '' ['' @ c @ '']'' else []
                     | None \<Rightarrow> []) @
                    (case errFields e of
                       Some fs \<Rightarrow> if fs \<noteq> [] then ''\<newline>    Fields: '' @ join '', '' fs else []
                     | None \<Rightarrow> []) @
                    ''\<newline>'') es))
     (formatDMLResults op rs)"
proof -
  have "failureReport (i, rs ! i) =
      ''Record '' @ showNat (i + 1) @ '':\<newline>'' @ concat (map errorDetail es)"
    using assms(2,3) by (simp add: failureReport_def)
  also have "map errorDetail es =
      map (\<lambda>e. ''  - '' @ message e @
                    (case statusCode e of
                       Some c \<Rightarrow> if c \<noteq> [] then '' ['' @ c @ '']'' else []
                     | None \<Rightarrow> []) @
                    (case errFields e of
                       Some fs \<Rightarrow> if fs \<noteq> [] then ''\<newline>    Fields: '' @ join '', '' fs else []
                     | None \<Rightarrow> []) @
                    ''\<newline>'') es"
    by (rule map_cong [OF refl]) (rule errorDetail_line)
  finally show ?thesis
    using report_contains_block [OF assms(1,2), of op] by (simp only:)
qed

lemma report_single_block:
  assumes "i < length rs" "\<not> success (rs ! i)" "errors (rs ! i) = Some (SingleError e)"
  shows "sublist
     (''Record '' @ showNat (i + 1) @ '':\<newline>'' @
      ''  - '' @ message e @
      (case statusCode e of Some c \<Rightarrow> if c \<noteq> [] then '' ['' @ c @ '']'' else [] | None \<Rightarrow> []) @
      (case errFields e of Some fs \<Rightarrow> ''\<newline>    Fields: '' @ join '', '' fs | None \<Rightarrow> []) @
      ''\<newline>'')
     (formatDMLResults op rs)"
proof -
  have "failureReport (i, rs ! i) =
      ''Record '' @ showNat (i + 1) @ '':\<newline>'' @ singleErrorDetail e"
    using assms(2,3) by (simp add: failureReport_def)
  also have "singleErrorDetail e =
      ''  - '' @ message e @
      (case statusCode e of Some c \<Rightarrow> if c \<noteq> [] then '' ['' @ c @ '']'' else [] | None \<Rightarrow> []) @
      (case errFields e of Some fs \<Rightarrow> ''\<newline>    Fields: '' @ join '', '' fs | None \<Rightarrow> []) @
      ''\<newline>''"
    by (rule singleErrorDetail_line)
  finally show ?thesis
    using report_contains_block [OF assms(1,2), of op] by (simp only:)
qed

lemma dml_direct_returns:
  assumes "bulkAnswer conn (trace w) c = Some (Inr resp)"
    and "(operation args = ''insert'' \<and> objectName args \<noteq> ''Case'' \<and> c = Create (objectName args) (records args)) \<or>
         (operation args = ''update'' \<and> c = Update (objectName args) (records args)) \<or>
         (operation args = ''delete'' \<and> c = Destroy (objectName args) (map (\<lambda>r. map_of r ''Id'') (records args))) \<or>
         (operation args = ''upsert'' \<and> truthyStr (externalIdField args) \<and>
            c = Upsert (objectName args) (records args) (the (externalIdField args)))"
  shows "handleDMLRecords parseFloat conn args w =
           (Returned \<lparr>content = [TextItem (formatDMLResults (operation args) (resultsOf resp))],
                      isError = False\<rparr>,
            w\<lparr>trace := trace w @ [Called c]\<rparr>) \<and>
         handleDMLRecords_part_001 conn args w =
           (Returned \<lparr>content = [TextItem (formatDMLResults (operation args) (resultsOf resp))],
                      isError = False\<rparr>,
            w\<lparr>trace := trace w @ [Called c]\<rparr>)"
  using assms
  by (auto simp: handleDMLRecords_def handleDMLRecords_part_001_def andThen_def
        create_def update_def destroy_def upsert_def remote_def resolve_def okResult_def)

lemma dml_guided_returns:
  assumes "operation args = ''insert''" "objectName args = ''Case''"
    and "advancedGuidedCaseCreation parseFloat conn w = (Returned caseDetails, w1)"
    and "createAnswer conn (trace w1) ''Case'' [caseDetails] = Inr resp"
  shows "handleDMLRecords parseFloat conn args w =
           (Returned \<lparr>content = [TextItem (formatDMLResults (operation args) (resultsOf resp))],
                      isError = False\<rparr>,
            w1\<lparr>trace := trace w1 @ [Called (Create ''Case'' [caseDetails])]\<rparr>)"
  using assms
  by (simp add: handleDMLRecords_def andThen_def create_def remote_def resolve_def okResult_def)

text \<open>
  C8. When the connection answers the bulk call of a DML invocation with a response, be it
  a mix of successes and failures, the handler (either variant; for the guided insert of a
  Case, once the flow has returned its record) returns \<^verbatim>\<open>isError: false\<close> and the report of
  that response, and it returns nothing else. The report starts with the tally: the
  operation, the number of results, the number of successes and the number of failures.
  For every failed result it holds that record's block: the 1-based number of the record
  and, for each of its errors, a line with the message, the status code in brackets when
  there is one that is not empty, and the field names, joined by commas, on a line of
  their own (for an array of errors when there is at least one name; for a single error
  object whenever the names are present).
\<close>

theorem partial_failure_reported:
  "(bulkAnswer conn (trace w) c = Some (Inr resp) \<and>
    ((operation args = ''insert'' \<and> objectName args \<noteq> ''Case'' \<and>
        c = Create (objectName args) (records args)) \<or>
     (operation args = ''update'' \<and> c = Update (objectName args) (records args)) \<or>
     (operation args = ''delete'' \<and>
        c = Destroy (objectName args) (map (\<lambda>r. map_of r ''Id'') (records args))) \<or>
     (operation args = ''upsert'' \<and> truthyStr (externalIdField args) \<and>
        c = Upsert (objectName args) (records args) (the (externalIdField args)))) \<longrightarrow>
      handleDMLRecords parseFloat conn args w =
        (Returned \<lparr>content = [TextItem (formatDMLResults (operation args) (resultsOf resp))],
                   isError = False\<rparr>,
         w\<lparr>trace := trace w @ [Called c]\<rparr>) \<and>
      handleDMLRecords_part_001 conn args w =
        (Returned \<lparr>content = [TextItem (formatDMLResults (operation args) (resultsOf resp))],
                   isError = False\<rparr>,
         w\<lparr>trace := trace w @ [Called c]\<rparr>)) \<and>
   (operation args = ''insert'' \<and> objectName args = ''Case'' \<and>
    advancedGuidedCaseCreation parseFloat conn w = (Returned caseDetails, w1) \<and>
    createAnswer conn (trace w1) ''Case'' [caseDetails] = Inr resp \<longrightarrow>
      handleDMLRecords parseFloat conn args w =
        (Returned \<lparr>content = [TextItem (formatDMLResults (operation args) (resultsOf resp))],
                   isError = False\<rparr>,
         w1\<lparr>trace := trace w1 @ [Called (Create ''Case'' [caseDetails])]\<rparr>)) \<and>
   (handleDMLRecords parseFloat conn args w = (Returned res, w') \<or>
    handleDMLRecords_part_001 conn args w = (Returned res, w') \<and>
      \<not> (operation args = ''insert'' \<and> objectName args = ''Case'') \<longrightarrow>
      isError res = False \<and>
      (\<exists>h c resp. trace w' = h @ [Called c] \<and> bulkAnswer conn h c = Some (Inr resp) \<and>
         content res = [TextItem (formatDMLResults (operation args) (resultsOf resp))])) \<and>
   (\<exists>rest. formatDMLResults op rs =
      toUpperCase op @ '' operation completed.\<newline>'' @
      ''Processed '' @ showNat (length rs) @ '' records:\<newline>'' @
      ''- Successful: '' @ showNat (length (filter success rs)) @ ''\<newline>'' @
      ''- Failed: '' @ showNat (length (filter (\<lambda>r. \<not> success r) rs)) @ ''\<newline>'' @ rest) \<and>
   (\<forall>i < length rs. \<not> success (rs ! i) \<longrightarrow>
      (\<forall>es. errors (rs ! i) = Some (ErrorList es) \<longrightarrow>
         sublist
           (''Record '' @ showNat (i + 1) @ '':\<newline>'' @
            concat (map (\<lambda>e. ''  - '' @ message e @
                          (case statusCode e of
                             Some c \<Rightarrow> if c \<noteq> [] then '' ['' @ c @ '']'' else []
                           | None \<Rightarrow> []) @
                          (case errFields e of
                             Some fs \<Rightarrow> if fs \<noteq> [] then ''\<newline>    Fields: '' @ join '', '' fs else []
                           | None \<Rightarrow> []) @
                          ''\<newline>'') es))
           (formatDMLResults op rs)) \<and>
      (\<forall>e. errors (rs ! i) = Some (SingleError e) \<longrightarrow>
         sublist
           (''Record '' @ showNat (i + 1) @ '':\<newline>'' @
            ''  - '' @ message e @
            (case statusCode e of Some c \<Rightarrow> if c \<noteq> [] then '' ['' @ c @ '']'' else [] | None \<Rightarrow> []) @
            (case errFields e of Some fs \<Rightarrow> ''\<newline>    Fields: '' @ join '', '' fs | None \<Rightarrow> []) @
            ''\<newline>'')
           (formatDMLResults op rs)))"
proof (intro conjI)
  show "bulkAnswer conn (trace w) c = Some (Inr resp) \<and>
    ((operation args = ''insert'' \<and> objectName args \<noteq> ''Case'' \<and>
        c = Create (objectName args) (records args)) \<or>
     (operation args = ''update'' \<and> c = Update (objectName args) (records args)) \<or>
     (operation args = ''delete'' \<and>
        c = Destroy (objectName args) (map (\<lambda>r. map_of r ''Id'') (records args))) \<or>
     (operation args = ''upsert'' \<and> truthyStr (externalIdField args) \<and>
        c = Upsert (objectName args) (records args) (the (externalIdField args)))) \<longrightarrow>
      handleDMLRecords parseFloat conn args w =
        (Returned \<lparr>content = [TextItem (formatDMLResults (operation args) (resultsOf resp))],
                   isError = False\<rparr>,
         w\<lparr>trace := trace w @ [Called c]\<rparr>) \<and>
      handleDMLRecords_part_001 conn args w =
        (Returned \<lparr>content = [TextItem (formatDMLResults (operation args) (resultsOf resp))],
                   isError = False\<rparr>,
         w\<lparr>trace := trace w @ [Called c]\<rparr>)"
  proof (rule impI)
    assume a: "bulkAnswer conn (trace w) c = Some (Inr resp) \<and>
    ((operation args = ''insert'' \<and> objectName args \<noteq> ''Case'' \<and>
        c = Create (objectName args) (records args)) \<or>
     (operation args = ''update'' \<and> c = Update (objectName args) (records args)) \<or>
     (operation args = ''delete'' \<and>
        c = Destroy (objectName args) (map (\<lambda>r. map_of r ''Id'') (records args))) \<or>
     (operation args = ''upsert'' \<and> truthyStr (externalIdField args) \<and>
        c = Upsert (objectName args) (records args) (the (externalIdField args))))"
    show "handleDMLRecords parseFloat conn args w =
        (Returned \<lparr>content = [TextItem (formatDMLResults (operation args) (resultsOf resp))],
                   isError = False\<rparr>,
         w\<lparr>trace := trace w @ [Called c]\<rparr>) \<and>
      handleDMLRecords_part_001 conn args w =
        (Returned \<lparr>content = [TextItem (formatDMLResults (operation args) (resultsOf resp))],
                   isError = False\<rparr>,
         w\<lparr>trace := trace w @ [Called c]\<rparr>)"
      by (rule dml_direct_returns [OF a [THEN conjunct1] a [THEN conjunct2]])
  qed
next
  show "operation args = ''insert'' \<and> objectName args = ''Case'' \<and>
    advancedGuidedCaseCreation parseFloat conn w = (Returned caseDetails, w1) \<and>
    createAnswer conn (trace w1) ''Case'' [caseDetails] = Inr resp \<longrightarrow>
      handleDMLRecords parseFloat conn args w =
        (Returned \<lparr>content = [TextItem (formatDMLResults (operation args) (resultsOf resp))],
                   isError = False\<rparr>,
         w1\<lparr>trace := trace w1 @ [Called (Create ''Case'' [caseDetails])]\<rparr>)"
  proof (rule impI)
    assume a: "operation args = ''insert'' \<and> objectName args = ''Case'' \<and>
      advancedGuidedCaseCreation parseFloat conn w = (Returned caseDetails, w1) \<and>
      createAnswer conn (trace w1) ''Case'' [caseDetails] = Inr resp"
    show "handleDMLRecords parseFloat conn args w =
        (Returned \<lparr>content = [TextItem (formatDMLResults (operation args) (resultsOf resp))],
                   isError = False\<rparr>,
         w1\<lparr>trace := trace w1 @ [Called (Create ''Case'' [caseDetails])]\<rparr>)"
      by (rule dml_guided_returns [OF a [THEN conjunct1] a [THEN conjunct2, THEN conjunct1]
            a [THEN conjunct2, THEN conjunct2, THEN conjunct1]
            a [THEN conjunct2, THEN conjunct2, THEN conjunct2]])
  qed
next
  show "handleDMLRecords parseFloat conn args w = (Returned res, w') \<or>
    handleDMLRecords_part_001 conn args w = (Returned res, w') \<and>
      \<not> (operation args = ''insert'' \<and> objectName args = ''Case'') \<longrightarrow>
      isError res = False \<and>
      (\<exists>h c resp. trace w' = h @ [Called c] \<and> bulkAnswer conn h c = Some (Inr resp) \<and>
         content res = [TextItem (formatDMLResults (operation args) (resultsOf resp))])"
  proof (rule impI)
    assume "handleDMLRecords parseFloat conn args w = (Returned res, w') \<or>
      handleDMLRecords_part_001 conn args w = (Returned res, w') \<and>
        \<not> (operation args = ''insert'' \<and> objectName args = ''Case'')"
    then obtain h c' resp' where t: "trace w' = h @ [Called c']"
      and c: "bulkAnswer conn h c' = Some (Inr resp')"
      and res: "res = okResult (formatDMLResults (operation args) (resultsOf resp'))"
      using dml_returned [of parseFloat conn args w res w'] dml_part_001_returned [of conn args w res w']
      by auto
    have "isError res = False"
      and "content res = [TextItem (formatDMLResults (operation args) (resultsOf resp'))]"
      by (simp_all add: res okResult_def)
    with t c show "isError res = False \<and>
      (\<exists>h c resp. trace w' = h @ [Called c] \<and> bulkAnswer conn h c = Some (Inr resp) \<and>
         content res = [TextItem (formatDMLResults (operation args) (resultsOf resp))])"
      by blast
  qed
next
  show "\<exists>rest. formatDMLResults op rs =
      toUpperCase op @ '' operation completed.\<newline>'' @
      ''Processed '' @ showNat (length rs) @ '' records:\<newline>'' @
      ''- Successful: '' @ showNat (length (filter success rs)) @ ''\<newline>'' @
      ''- Failed: '' @ showNat (length (filter (\<lambda>r. \<not> success r) rs)) @ ''\<newline>'' @ rest"
    by (rule format_tally)
next
  show "\<forall>i < length rs. \<not> success (rs ! i) \<longrightarrow>
      (\<forall>es. errors (rs ! i) = Some (ErrorList es) \<longrightarrow>
         sublist
           (''Record '' @ showNat (i + 1) @ '':\<newline>'' @
            concat (map (\<lambda>e. ''  - '' @ message e @
                          (case statusCode e of
                             Some c \<Rightarrow> if c \<noteq> [] then '' ['' @ c @ '']'' else []
                           | None \<Rightarrow> []) @
                          (case errFields e of
                             Some fs \<Rightarrow> if fs \<noteq> [] then ''\<newline>    Fields: '' @ join '', '' fs else []
                           | None \<Rightarrow> []) @
                          ''\<newline>'') es))
           (formatDMLResults op rs)) \<and>
      (\<forall>e. errors (rs ! i) = Some (SingleError e) \<longrightarrow>
         sublist
           (''Record '' @ showNat (i + 1) @ '':\<newline>'' @
            ''  - '' @ message e @
            (case statusCode e of Some c \<Rightarrow> if c \<noteq> [] then '' ['' @ c @ '']'' else [] | None \<Rightarrow> []) @
            (case errFields e of Some fs \<Rightarrow> ''\<newline>    Fields: '' @ join '', '' fs | None \<Rightarrow> []) @
            ''\<newline>'')
           (formatDMLResults op rs))"
    by (intro allI impI conjI report_list_block report_single_block)
qed

theorem partial_failure_reported_witness:
  "handleDMLRecords sampleParseFloat sampleConn mixedBatch (typing []) =
     (Returned \<lparr>content = [TextItem (formatDMLResults ''insert'' mixedResults)], isError = False\<rparr>,
      \<lparr>stdin = [], trace = [Called (Create ''Account'' (records mixedBatch))]\<rparr>) \<and>
   sublist ''Record 2:\<newline>  - Required fields are missing: [Name] [REQUIRED_FIELD_MISSING]\<newline>    Fields: Name\<newline>''
     (formatDMLResults ''insert'' mixedResults)"
proof -
  note t = partial_failure_reported [of sampleConn "typing []" "Create ''Account'' (records mixedBatch)"
      "ManyResults mixedResults" mixedBatch sampleParseFloat _ _ _ _ "''insert''" mixedResults]
  have answer: "bulkAnswer sampleConn (trace (typing [])) (Create ''Account'' (records mixedBatch)) =
      Some (Inr (ManyResults mixedResults))"
    by (simp add: sampleConn_def mixedBatch_def dmlArgs_def mixedResults_def)
  have call: "operation mixedBatch = ''insert'' \<and> objectName mixedBatch \<noteq> ''Case'' \<and>
      Create ''Account'' (records mixedBatch) = Create (objectName mixedBatch) (records mixedBatch)"
    by (simp add: mixedBatch_def dmlArgs_def)
  have 1: "handleDMLRecords sampleParseFloat sampleConn mixedBatch (typing []) =
     (Returned \<lparr>content = [TextItem (formatDMLResults ''insert'' mixedResults)], isError = False\<rparr>,
      \<lparr>stdin = [], trace = [Called (Create ''Account'' (records mixedBatch))]\<rparr>)"
    using t [THEN conjunct1, rule_format, OF conjI, OF answer disjI1, OF call, THEN conjunct1]
    by (simp add: resultsOf_def typing_def mixedBatch_def dmlArgs_def)
  have i: "Suc 0 < length mixedResults" "\<not> success (mixedResults ! Suc 0)"
    "errors (mixedResults ! Suc 0) = Some (ErrorList [missingName])"
    by (simp_all add: mixedResults_def rejected_def)
  have block: "''Record '' @ showNat (Suc 0 + 1) @ '':\<newline>'' @
            concat (map (\<lambda>e. ''  - '' @ message e @
                          (case statusCode e of
                             Some c \<Rightarrow> if c \<noteq> [] then '' ['' @ c @ '']'' else []
                           | None \<Rightarrow> []) @
                          (case errFields e of
                             Some fs \<Rightarrow> if fs \<noteq> [] then ''\<newline>    Fields: '' @ join '', '' fs else []
                           | None \<Rightarrow> []) @
                          ''\<newline>'') [missingName]) =
      ''Record 2:\<newline>  - Required fields are missing: [Name] [REQUIRED_FIELD_MISSING]\<newline>    Fields: Name\<newline>''"
    by code_simp
  have 2: "sublist ''Record 2:\<newline>  - Required fields are missing: [Name] [REQUIRED_FIELD_MISSING]\<newline>    Fields: Name\<newline>''
     (formatDMLResults ''insert'' mixedResults)"
    using t [THEN conjunct2, THEN conjunct2, THEN conjunct2, THEN conjunct2, rule_format,
        OF i(1) i(2), THEN conjunct1, rule_format, OF i(3)]
    unfolding block .
  from 1 2 show ?thesis by (rule conjI)
qed

section \<open>The guided flow only reads\<close>

lemma readOnly_resolve [intro!]: "readOnly (resolve x)"
  by (simp add: readOnly_def resolve_def)

lemma readOnly_throw [intro!]: "readOnly (throw e)"
  by (simp add: readOnly_def throw_def)

lemma readOnly_andThen [intro!]:
  assumes "readOnly m" and "\<And>x. readOnly (f x)"
  shows "readOnly (andThen m f)"
  unfolding readOnly_def
proof
  fix w
  obtain r w1 where m: "m w = (r, w1)" by (cases "m w")
  have w1: "writes w1 = writes w" using assms(1) m by (auto simp: readOnly_def dest: spec [of _ w])
  show "writes (snd (andThen m f w)) = writes w"
  proof (cases r)
    case (Returned x)
    then show ?thesis using assms(2) [of x] m w1 by (simp add: andThen_def readOnly_def)
  qed (use m w1 in \<open>simp_all add: andThen_def\<close>)
qed

lemma readOnly_tryCatch [intro!]:
  assumes "readOnly m" and "\<And>e. readOnly (h e)"
  shows "readOnly (tryCatch m h)"
  unfolding readOnly_def
proof
  fix w
  obtain r w1 where m: "m w = (r, w1)" by (cases "m w")
  have w1: "writes w1 = writes w" using assms(1) m by (auto simp: readOnly_def dest: spec [of _ w])
  show "writes (snd (tryCatch m h w)) = writes w"
  proof (cases r)
    case (Thrown e)
    then show ?thesis using assms(2) [of e] m w1 by (simp add: tryCatch_def readOnly_def)
  qed (use m w1 in \<open>simp_all add: tryCatch_def\<close>)
qed

lemma readOnly_if [intro!]:
  "(c \<Longrightarrow> readOnly a) \<Longrightarrow> (\<not> c \<Longrightarrow> readOnly b) \<Longrightarrow> readOnly (if c then a else b)"
  by simp

lemma readOnly_promptUser [intro!]: "readOnly (promptUser msg)"
  by (simp add: readOnly_def promptUser_def writes_def split: list.splits)

lemma readOnly_describe [intro!]: "readOnly (describe conn obj)"
  by (simp add: readOnly_def describe_def remote_def writes_def split: sum.splits)

lemma readOnly_find [intro!]: "readOnly (find' conn obj crit cols)"
  by (simp add: readOnly_def find'_def remote_def writes_def split: sum.splits)

lemma promptUntilFilled_writes: "writes (snd (promptUntilFilled msg w)) = writes w"
proof (induction msg w rule: promptUntilFilled.induct)
  case (1 msg w)
  obtain r w1 where p: "promptUser msg w = (r, w1)" by (cases "promptUser msg w")
  have w1: "writes w1 = writes w"
    using readOnly_promptUser [of msg] p by (auto simp: readOnly_def dest: spec [of _ w])
  show ?case
  proof (cases r)
    case (Returned answer)
    then show ?thesis
      using "1.IH" [of r w1 answer] p w1
      by (subst promptUntilFilled.simps) (auto split: if_splits)
  qed (use p w1 in \<open>subst promptUntilFilled.simps, simp\<close>)+
qed

lemma readOnly_promptUntilFilled [intro!]: "readOnly (promptUntilFilled msg)"
  by (simp add: readOnly_def promptUntilFilled_writes)

lemma readOnly_chooseAccount [intro!]: "readOnly (chooseAccount accounts)"
  unfolding chooseAccount_def by (auto split: option.splits)

lemma readOnly_selectAccount [intro!]: "readOnly (selectAccount conn)"
  unfolding selectAccount_def by auto

lemma readOnly_selectContact [intro!]: "readOnly (selectContact contacts caseRecord)"
  unfolding selectContact_def by (auto split: option.splits)

lemma readOnly_webContact [intro!]: "readOnly (webContact caseRecord)"
  unfolding webContact_def by auto

lemma readOnly_askSubject [intro!]: "readOnly (askSubject caseRecord)"
  unfolding askSubject_def by auto

lemma readOnly_askDescription [intro!]: "readOnly (askDescription caseRecord)"
  unfolding askDescription_def by auto

lemma readOnly_askCommonPicklist [intro!]: "readOnly (askCommonPicklist fs key heading caseRecord)"
  unfolding askCommonPicklist_def by (auto split: option.splits)

lemma readOnly_chooseReference [intro!]: "readOnly (chooseReference field obj rows caseRecord)"
  unfolding chooseReference_def by (auto split: option.splits)

lemma readOnly_askReference [intro!]: "readOnly (askReference conn field obj caseRecord)"
  unfolding askReference_def by auto

lemma readOnly_askPicklist [intro!]: "readOnly (askPicklist field entries caseRecord)"
  unfolding askPicklist_def by (auto split: option.splits)

lemma readOnly_askScalar [intro!]: "readOnly (askScalar parseFloat field caseRecord)"
  unfolding askScalar_def by (auto split: option.splits)

lemma readOnly_processField [intro!]: "readOnly (processField parseFloat conn field caseRecord)"
  unfolding processField_def by (auto split: option.splits list.splits)

lemma readOnly_processFields [intro!]: "readOnly (processFields parseFloat conn fs caseRecord)"
  by (induction fs arbitrary: caseRecord) auto

lemma readOnly_collectCaseRecord [intro!]: "readOnly (collectCaseRecord parseFloat conn)"
  unfolding collectCaseRecord_def by auto

lemma readOnly_confirmCase [intro!]: "readOnly (confirmCase caseRecord)"
  unfolding confirmCase_def by auto

lemma readOnly_advancedGuidedCaseCreation: "readOnly (advancedGuidedCaseCreation parseFloat conn)"
  unfolding advancedGuidedCaseCreation_def by auto

section \<open>Confirmation and the guided insert\<close>

lemma collect_run_n:
  "collectCaseRecord sampleParseFloat sampleConn (typing (collectAnswers @ [''n''])) =
     (Returned sampleRecord, \<lparr>stdin = [''n''], trace = sampleTrace\<rparr>)"
  by code_simp

lemma writes_of:
  "readOnly m \<Longrightarrow> m w = (r, w1) \<Longrightarrow> writes w1 = writes w"
  by (auto simp: readOnly_def dest: spec [of _ w])

lemma guided_insert_unfold:
  assumes "operation args = ''insert''" "objectName args = ''Case''"
  shows "handleDMLRecords parseFloat conn args w =
     (case collectCaseRecord parseFloat conn w of
        (Returned caseRecord, w1) \<Rightarrow>
          (case stdin w1 of
             [] \<Rightarrow> (Pending, w1\<lparr>trace := trace w1 @ [Prompted ''\<newline>Create this case? (Y/N):'']\<rparr>)
           | d # ds \<Rightarrow>
               if toLowerCase (trim d) \<noteq> ''y''
               then (Thrown ''Case creation canceled by user.'',
                     w1\<lparr>stdin := ds, trace := trace w1 @ [Prompted ''\<newline>Create this case? (Y/N):'']\<rparr>)
               else andThen (create conn ''Case'' [caseRecord])
                      (\<lambda>result. resolve (okResult (formatDMLResults ''insert'' (resultsOf result))))
                      (w1\<lparr>stdin := ds, trace := trace w1 @ [Prompted ''\<newline>Create this case? (Y/N):'']\<rparr>))
      | (Thrown e, w1) \<Rightarrow> (Thrown e, w1)
      | (Pending, w1) \<Rightarrow> (Pending, w1))"
  using assms
  by (simp add: handleDMLRecords_def advancedGuidedCaseCreation_def confirmCase_def andThen_def
        promptUser_def throw_def resolve_def
      split: prod.splits outcome.splits list.splits)

lemma create_report_trace:
  "trace (snd (andThen (create conn obj rs) (\<lambda>result. resolve (g result)) w)) =
     trace w @ [Called (Create obj rs)]"
  by (simp add: andThen_def create_def remote_def resolve_def split: sum.splits)

text \<open>
  C6. The guided flow itself writes nothing. When the record has been collected and the
  answer to the confirmation is anything but \<^verbatim>\<open>y\<close> (after trimming, whatever its case),
  the flow and the handler throw the cancellation error and the handler has issued no
  write. Conversely, a guided insert that has issued a write has collected the record,
  read an affirmative answer, and then issued the create call of that record as its last
  event.
\<close>

theorem declined_confirmation:
  assumes "operation args = ''insert''" "objectName args = ''Case''"
  shows "writes (snd (advancedGuidedCaseCreation parseFloat conn w)) = writes w \<and>
         (\<forall>caseRecord w1 d ds.
            collectCaseRecord parseFloat conn w = (Returned caseRecord, w1) \<and> stdin w1 = d # ds \<and>
            toLowerCase (trim d) \<noteq> ''y'' \<longrightarrow>
              advancedGuidedCaseCreation parseFloat conn w =
                (Thrown ''Case creation canceled by user.'',
                 w1\<lparr>stdin := ds, trace := trace w1 @ [Prompted ''\<newline>Create this case? (Y/N):'']\<rparr>) \<and>
              handleDMLRecords parseFloat conn args w =
                (Thrown ''Case creation canceled by user.'',
                 w1\<lparr>stdin := ds, trace := trace w1 @ [Prompted ''\<newline>Create this case? (Y/N):'']\<rparr>) \<and>
              writes (snd (handleDMLRecords parseFloat conn args w)) = writes w) \<and>
         (writes (snd (handleDMLRecords parseFloat conn args w)) \<noteq> writes w \<longrightarrow>
            (\<exists>caseRecord w1 d ds.
               collectCaseRecord parseFloat conn w = (Returned caseRecord, w1) \<and> stdin w1 = d # ds \<and>
               toLowerCase (trim d) = ''y'' \<and>
               trace (snd (handleDMLRecords parseFloat conn args w)) =
                 trace w1 @ [Prompted ''\<newline>Create this case? (Y/N):'', Called (Create ''Case'' [caseRecord])]))"
proof (intro conjI allI impI)
  show "writes (snd (advancedGuidedCaseCreation parseFloat conn w)) = writes w"
    using readOnly_advancedGuidedCaseCreation [of parseFloat conn] by (simp add: readOnly_def)
next
  fix caseRecord w1 d ds
  assume a: "collectCaseRecord parseFloat conn w = (Returned caseRecord, w1) \<and> stdin w1 = d # ds \<and>
            toLowerCase (trim d) \<noteq> ''y''"
  then have w1: "writes w1 = writes w"
    using writes_of [OF readOnly_collectCaseRecord] by blast
  show "advancedGuidedCaseCreation parseFloat conn w =
                (Thrown ''Case creation canceled by user.'',
                 w1\<lparr>stdin := ds, trace := trace w1 @ [Prompted ''\<newline>Create this case? (Y/N):'']\<rparr>)"
    using a by (simp add: advancedGuidedCaseCreation_def confirmCase_def andThen_def promptUser_def throw_def)
  show h: "handleDMLRecords parseFloat conn args w =
                (Thrown ''Case creation canceled by user.'',
                 w1\<lparr>stdin := ds, trace := trace w1 @ [Prompted ''\<newline>Create this case? (Y/N):'']\<rparr>)"
    using a by (simp add: guided_insert_unfold [OF assms])
  show "writes (snd (handleDMLRecords parseFloat conn args w)) = writes w"
    using w1 by (simp add: h writes_def)
next
  assume changed: "writes (snd (handleDMLRecords parseFloat conn args w)) \<noteq> writes w"
  obtain r w1 where c: "collectCaseRecord parseFloat conn w = (r, w1)"
    by (cases "collectCaseRecord parseFloat conn w")
  have w1: "writes w1 = writes w"
    using writes_of [OF readOnly_collectCaseRecord c] .
  from changed obtain caseRecord where r: "r = Returned caseRecord"
    using c w1 by (cases r) (auto simp: guided_insert_unfold [OF assms])
  from changed obtain d ds where s: "stdin w1 = d # ds"
    using c w1 r by (cases "stdin w1") (auto simp: guided_insert_unfold [OF assms] writes_def)
  from changed have y: "toLowerCase (trim d) = ''y''"
    using c w1 r s by (auto simp: guided_insert_unfold [OF assms] writes_def split: if_splits)
  have "trace (snd (handleDMLRecords parseFloat conn args w)) =
                 trace w1 @ [Prompted ''\<newline>Create this case? (Y/N):'', Called (Create ''Case'' [caseRecord])]"
    using c r s y by (simp add: guided_insert_unfold [OF assms] create_report_trace)
  with c r s y show "\<exists>caseRecord w1 d ds.
               collectCaseRecord parseFloat conn w = (Returned caseRecord, w1) \<and> stdin w1 = d # ds \<and>
               toLowerCase (trim d) = ''y'' \<and>
               trace (snd (handleDMLRecords parseFloat conn args w)) =
                 trace w1 @ [Prompted ''\<newline>Create this case? (Y/N):'', Called (Create ''Case'' [caseRecord])]"
    by blast
qed

theorem declined_confirmation_witness:
  "handleDMLRecords sampleParseFloat sampleConn twoCases (typing (collectAnswers @ [''n''])) =
     (Thrown ''Case creation canceled by user.'',
      \<lparr>stdin = [], trace = sampleTrace @ [Prompted ''\<newline>Create this case? (Y/N):'']\<rparr>) \<and>
   writes (snd (handleDMLRecords sampleParseFloat sampleConn twoCases (typing (collectAnswers @ [''n''])))) = []"
proof -
  have op: "operation twoCases = ''insert''" "objectName twoCases = ''Case''"
    by (simp_all add: twoCases_def dmlArgs_def)
  have n: "toLowerCase (trim ''n'') \<noteq> ''y''" by code_simp
  have "handleDMLRecords sampleParseFloat sampleConn twoCases (typing (collectAnswers @ [''n''])) =
          (Thrown ''Case creation canceled by user.'',
           \<lparr>stdin = [''n''], trace = sampleTrace\<rparr>
             \<lparr>stdin := [], trace := trace \<lparr>stdin = [''n''], trace = sampleTrace\<rparr> @
                                      [Prompted ''\<newline>Create this case? (Y/N):'']\<rparr>) \<and>
        writes (snd (handleDMLRecords sampleParseFloat sampleConn twoCases (typing (collectAnswers @ [''n''])))) =
          writes (typing (collectAnswers @ [''n'']))"
    using declined_confirmation [OF op, of sampleParseFloat sampleConn "typing (collectAnswers @ [''n''])"]
      collect_run_n n
    by (meson world.select_convs(1))
  then show ?thesis by (simp add: typing_def writes_def sampleTrace_def)
qed

text \<open>
  C1, amended. In the handler that stands with the guided flow, an insert of a Case never
  submits the caller's records: it runs the flow and, when the flow returns a record,
  issues one create call with that single record (the only write of the invocation); when
  the flow throws or stays pending, so does the handler, and nothing is written. In the
  other variant (part_001) an insert of a Case returns at once an \<^verbatim>\<open>isError: true\<close>
  result that points to the case tools, with no prompt and no remote call. For every other
  object, both variants issue the create call with exactly the caller's records.
\<close>

theorem insert_case_is_guided:
  assumes "operation args = ''insert''"
  shows "(objectName args = ''Case'' \<longrightarrow>
            (\<forall>caseDetails w1.
               advancedGuidedCaseCreation parseFloat conn w = (Returned caseDetails, w1) \<longrightarrow>
                 trace (snd (handleDMLRecords parseFloat conn args w)) =
                   trace w1 @ [Called (Create ''Case'' [caseDetails])] \<and>
                 writes (snd (handleDMLRecords parseFloat conn args w)) =
                   writes w @ [Called (Create ''Case'' [caseDetails])]) \<and>
            (\<forall>e w1. advancedGuidedCaseCreation parseFloat conn w = (Thrown e, w1) \<longrightarrow>
               handleDMLRecords parseFloat conn args w = (Thrown e, w1) \<and> writes w1 = writes w) \<and>
            (\<forall>w1. advancedGuidedCaseCreation parseFloat conn w = (Pending, w1) \<longrightarrow>
               handleDMLRecords parseFloat conn args w = (Pending, w1) \<and> writes w1 = writes w) \<and>
            handleDMLRecords_part_001 conn args w = (Returned (errorResult dedicatedToolsText), w)) \<and>
         (objectName args \<noteq> ''Case'' \<longrightarrow>
            trace (snd (handleDMLRecords parseFloat conn args w)) =
              trace w @ [Called (Create (objectName args) (records args))] \<and>
            trace (snd (handleDMLRecords_part_001 conn args w)) =
              trace w @ [Called (Create (objectName args) (records args))])"
proof (intro conjI allI impI)
  fix caseDetails w1
  assume c: "objectName args = ''Case''"
    and g: "advancedGuidedCaseCreation parseFloat conn w = (Returned caseDetails, w1)"
  have w1: "writes w1 = writes w"
    using writes_of [OF readOnly_advancedGuidedCaseCreation g] .
  show t: "trace (snd (handleDMLRecords parseFloat conn args w)) =
             trace w1 @ [Called (Create ''Case'' [caseDetails])]"
    using assms c g
    by (simp add: handleDMLRecords_def andThen_def create_def remote_def resolve_def split: sum.splits)
  show "writes (snd (handleDMLRecords parseFloat conn args w)) =
          writes w @ [Called (Create ''Case'' [caseDetails])]"
    using w1 by (simp add: writes_def t)
next
  fix e w1
  assume c: "objectName args = ''Case''"
    and g: "advancedGuidedCaseCreation parseFloat conn w = (Thrown e, w1)"
  show "handleDMLRecords parseFloat conn args w = (Thrown e, w1)"
    using assms c g by (simp add: handleDMLRecords_def andThen_def)
  show "writes w1 = writes w"
    using writes_of [OF readOnly_advancedGuidedCaseCreation g] .
next
  fix w1
  assume c: "objectName args = ''Case''"
    and g: "advancedGuidedCaseCreation parseFloat conn w = (Pending, w1)"
  show "handleDMLRecords parseFloat conn args w = (Pending, w1)"
    using assms c g by (simp add: handleDMLRecords_def andThen_def)
  show "writes w1 = writes w"
    using writes_of [OF readOnly_advancedGuidedCaseCreation g] .
next
  assume "objectName args = ''Case''"
  then show "handleDMLRecords_part_001 conn args w = (Returned (errorResult dedicatedToolsText), w)"
    using assms by (simp add: handleDMLRecords_part_001_def resolve_def)
next
  assume "objectName args \<noteq> ''Case''"
  then show "trace (snd (handleDMLRecords parseFloat conn args w)) =
              trace w @ [Called (Create (objectName args) (records args))]"
    using assms by (simp add: handleDMLRecords_def create_report_trace)
next
  assume "objectName args \<noteq> ''Case''"
  then show "trace (snd (handleDMLRecords_part_001 conn args w)) =
              trace w @ [Called (Create (objectName args) (records args))]"
    using assms by (simp add: handleDMLRecords_part_001_def create_report_trace)
qed

lemma guided_run_y:
  "advancedGuidedCaseCreation sampleParseFloat sampleConn (typing sampleAnswers) =
     (Returned sampleRecord,
      \<lparr>stdin = [], trace = sampleTrace @ [Prompted ''\<newline>Create this case? (Y/N):'']\<rparr>)"
  by code_simp

theorem insert_case_is_guided_witness:
  "trace (snd (handleDMLRecords sampleParseFloat sampleConn twoCases (typing sampleAnswers))) =
     sampleTrace @ [Prompted ''\<newline>Create this case? (Y/N):'', Called (Create ''Case'' [sampleRecord])] \<and>
   writes (snd (handleDMLRecords sampleParseFloat sampleConn twoCases (typing sampleAnswers))) =
     [Called (Create ''Case'' [sampleRecord])] \<and>
   trace (snd (handleDMLRecords_part_001 sampleConn mixedBatch (typing []))) =
     [Called (Create ''Account'' (records mixedBatch))]"
proof -
  have op: "operation twoCases = ''insert''" "objectName twoCases = ''Case''"
    "operation mixedBatch = ''insert''" "objectName mixedBatch \<noteq> ''Case''"
    by (simp_all add: twoCases_def mixedBatch_def dmlArgs_def)
  show ?thesis
    using insert_case_is_guided [OF op(1), of sampleParseFloat sampleConn "typing sampleAnswers"]
      insert_case_is_guided [OF op(3), of sampleParseFloat sampleConn "typing []"]
      guided_run_y op
    by (simp add: typing_def writes_def sampleTrace_def mixedBatch_def dmlArgs_def)
qed

text \<open>
  The claim as stated fails for the part_001 variant: no guided flow is run and no record
  is created.
\<close>

theorem insert_case_refused_counterexample:
  "handleDMLRecords_part_001 sampleConn twoCases (typing sampleAnswers) =
     (Returned (errorResult dedicatedToolsText), typing sampleAnswers) \<and>
   trace (snd (handleDMLRecords_part_001 sampleConn twoCases (typing sampleAnswers))) = []"
  by (simp add: handleDMLRecords_part_001_def twoCases_def dmlArgs_def resolve_def typing_def)

section \<open>Trimmed answers and the loop that insists\<close>

lemma dropWhile_start: "dropWhile P xs = [] \<or> \<not> P (hd (dropWhile P xs))"
  using hd_dropWhile [of P xs] by blast

lemma dropWhile_same: "xs = [] \<or> \<not> P (hd xs) \<Longrightarrow> dropWhile P xs = xs"
  by (cases xs) auto

lemma trim_Nil [simp]: "trim [] = []"
  by (simp add: trim_def)

lemma trim_ends: "trim s = [] \<or> (\<not> isWhiteSpace (hd (trim s)) \<and> \<not> isWhiteSpace (last (trim s)))"
proof (cases "trim s = []")
  case True
  then show ?thesis by simp
next
  case False
  let ?u = "dropWhile isWhiteSpace s"
  let ?v = "dropWhile isWhiteSpace (rev ?u)"
  have t: "trim s = rev ?v" by (simp add: trim_def)
  have v: "?v \<noteq> []" using False t by simp
  then have "\<not> isWhiteSpace (hd ?v)" using dropWhile_start [of isWhiteSpace "rev ?u"] by blast
  then have l: "\<not> isWhiteSpace (last (trim s))" using v by (simp add: t last_rev)
  have "rev ?u = takeWhile isWhiteSpace (rev ?u) @ ?v" by simp
  then have "?u = rev ?v @ rev (takeWhile isWhiteSpace (rev ?u))"
    by (metis rev_append rev_rev_ident)
  then have u: "?u = trim s @ rev (takeWhile isWhiteSpace (rev ?u))" by (simp add: t)
  then have "?u \<noteq> []" using False by (metis append_is_Nil_conv)
  then have "\<not> isWhiteSpace (hd ?u)" using dropWhile_start [of isWhiteSpace s] by blast
  moreover have "hd ?u = hd (trim s)" using u False by (metis hd_append2)
  ultimately show ?thesis using l by simp
qed

lemma trim_trim: "trim (trim s) = trim s"
proof (cases "trim s = []")
  case True
  then show ?thesis by simp
next
  case False
  then have h: "\<not> isWhiteSpace (hd (trim s))" and l: "\<not> isWhiteSpace (last (trim s))"
    using trim_ends [of s] by auto
  have 1: "dropWhile isWhiteSpace (trim s) = trim s"
    using h by (intro dropWhile_same) simp
  have "hd (rev (trim s)) = last (trim s)" using False by (simp add: hd_rev)
  then have 2: "dropWhile isWhiteSpace (rev (trim s)) = rev (trim s)"
    using l by (intro dropWhile_same) simp
  show ?thesis
    by (subst (1) trim_def) (simp add: 1 2)
qed

lemma andThen_ReturnedD:
  "andThen m f w = (Returned y, w') \<Longrightarrow> \<exists>x w1. m w = (Returned x, w1) \<and> f x w1 = (Returned y, w')"
  by (auto simp: andThen_def split: prod.splits outcome.splits)

lemma promptUser_ReturnedD:
  "promptUser msg w = (Returned a, w') \<Longrightarrow>
     \<exists>d. stdin w = d # stdin w' \<and> a = trim d \<and> trace w' = trace w @ [Prompted msg]"
  by (auto simp: promptUser_def split: list.splits)

lemma promptUntilFilled_Returned:
  "promptUntilFilled msg w = (Returned a, w') \<Longrightarrow>
     trim a \<noteq> [] \<and>
     (\<exists>blanks d. stdin w = blanks @ d # stdin w' \<and> (\<forall>b \<in> set blanks. trim b = []) \<and> a = trim d \<and>
        trace w' = trace w @ replicate (length blanks + 1) (Prompted msg))"
proof (induction msg w rule: promptUntilFilled.induct)
  case (1 msg w)
  obtain r w1 where p: "promptUser msg w = (r, w1)" by (cases "promptUser msg w")
  from "1.prems" p obtain answer where r: "r = Returned answer"
    by (cases r) (auto simp: promptUntilFilled.simps [of msg w])
  obtain d where d: "stdin w = d # stdin w1" "answer = trim d" "trace w1 = trace w @ [Prompted msg]"
    using promptUser_ReturnedD p r by blast
  show ?case
  proof (cases "trim answer = []")
    case True
    then have rec: "promptUntilFilled msg w1 = (Returned a, w')"
      using "1.prems" p r by (simp add: promptUntilFilled.simps [of msg w])
    from "1.IH" [OF p [symmetric] r True rec]
    obtain blanks d' where ih: "trim a \<noteq> []" "stdin w1 = blanks @ d' # stdin w'"
        "\<forall>b \<in> set blanks. trim b = []" "a = trim d'"
        "trace w' = trace w1 @ replicate (length blanks + 1) (Prompted msg)"
      by blast
    have blank: "trim d = []" using True d(2) by (simp add: trim_trim)
    have "stdin w = (d # blanks) @ d' # stdin w'" using d(1) ih(2) by simp
    moreover have "\<forall>b \<in> set (d # blanks). trim b = []" using blank ih(3) by simp
    moreover have "trace w' = trace w @ replicate (length (d # blanks) + 1) (Prompted msg)"
      using ih(5) d(3) by (simp add: replicate_app_Cons_same)
    ultimately show ?thesis using ih(1,4) by blast
  next
    case False
    then have "a = answer" "w' = w1"
      using "1.prems" p r by (simp_all add: promptUntilFilled.simps [of msg w])
    then have "stdin w = [] @ d # stdin w'" "a = trim d" "trace w' = trace w @ replicate (length ([] :: string list) + 1) (Prompted msg)"
      using d by simp_all
    moreover have "trim a \<noteq> []" using False \<open>a = answer\<close> by simp
    ultimately show ?thesis by (metis empty_iff list.set(1))
  qed
qed

lemma promptUntilFilled_all_blank:
  "\<forall>b \<in> set (stdin w). trim b = [] \<Longrightarrow> fst (promptUntilFilled msg w) = Pending"
proof (induction msg w rule: promptUntilFilled.induct)
  case (1 msg w)
  show ?case
  proof (cases "stdin w")
    case Nil
    then show ?thesis by (simp add: promptUntilFilled.simps [of msg w] promptUser_def)
  next
    case (Cons d ds)
    let ?w1 = "w\<lparr>stdin := ds, trace := trace w @ [Prompted msg]\<rparr>"
    have p: "promptUser msg w = (Returned (trim d), ?w1)" using Cons by (simp add: promptUser_def)
    have b: "trim (trim d) = []" using "1.prems" Cons by (simp add: trim_trim)
    have "\<forall>b \<in> set (stdin ?w1). trim b = []" using "1.prems" Cons by simp
    from "1.IH" [OF p [symmetric] refl b this] show ?thesis
      using p b by (simp add: promptUntilFilled.simps [of msg w])
  qed
qed

section \<open>Postconditions of the flow's steps\<close>

lemma map_of_update_other: "k' \<noteq> k \<Longrightarrow> map_of (AList.update k v r) k' = map_of r k'"
  by (simp add: update_conv')

lemma map_of_delete_other: "k' \<noteq> k \<Longrightarrow> map_of (AList.delete k r) k' = map_of r k'"
  by (simp add: delete_conv)

lemma contactGiven_update:
  assumes "contactGiven r" and "''ContactId'' \<noteq> k"
    and "map_of r k = None \<or> (''SuppliedEmail'' \<noteq> k \<and> ''SuppliedName'' \<noteq> k)"
  shows "contactGiven (AList.update k v r)"
proof -
  have c: "map_of (AList.update k v r) ''ContactId'' = map_of r ''ContactId''"
    using assms(2) by (rule map_of_update_other)
  show ?thesis
  proof (cases "truthy (map_of r ''ContactId'')")
    case True
    then show ?thesis unfolding contactGiven_def c by blast
  next
    case False
    then have f: "filled r ''SuppliedEmail''" "filled r ''SuppliedName''"
      using assms(1) unfolding contactGiven_def by blast+
    then have "map_of r ''SuppliedEmail'' \<noteq> None" "map_of r ''SuppliedName'' \<noteq> None"
      unfolding filled_def by (auto split: option.splits)
    then have "''SuppliedEmail'' \<noteq> k" "''SuppliedName'' \<noteq> k"
      using assms(3) by blast+
    then have "map_of (AList.update k v r) ''SuppliedEmail'' = map_of r ''SuppliedEmail''"
      "map_of (AList.update k v r) ''SuppliedName'' = map_of r ''SuppliedName''"
      by (simp_all add: map_of_update_other)
    then show ?thesis using f unfolding contactGiven_def filled_def by simp
  qed
qed

lemma contactGiven_delete:
  assumes "contactGiven r" and "''ContactId'' \<noteq> k" and "''SuppliedEmail'' \<noteq> k" and "''SuppliedName'' \<noteq> k"
  shows "contactGiven (AList.delete k r)"
proof -
  have "map_of (AList.delete k r) ''ContactId'' = map_of r ''ContactId''"
    "map_of (AList.delete k r) ''SuppliedEmail'' = map_of r ''SuppliedEmail''"
    "map_of (AList.delete k r) ''SuppliedName'' = map_of r ''SuppliedName''"
    using assms(2-4) by (simp_all add: map_of_delete_other)
  then show ?thesis using assms(1) unfolding contactGiven_def filled_def by simp
qed

lemma yieldsD: "yields Q m \<Longrightarrow> m w = (Returned r, w') \<Longrightarrow> Q r"
  unfolding yields_def by (erule allE [of _ w], erule allE [of _ r], erule allE [of _ w'], simp)

lemma yieldsI: "(\<And>w r w'. m w = (Returned r, w') \<Longrightarrow> Q r) \<Longrightarrow> yields Q m"
  unfolding yields_def by (intro allI impI)

lemma yields_resolve: "Q x \<Longrightarrow> yields Q (resolve x)"
  by (rule yieldsI) (simp add: resolve_def)

lemma yields_throw: "yields Q (throw e)"
  by (rule yieldsI) (simp add: throw_def)

lemma yields_andThen:
  assumes "yields P m" and "\<And>x. P x \<Longrightarrow> yields Q (f x)"
  shows "yields Q (andThen m f)"
proof (rule yieldsI)
  fix w r w'
  assume a: "andThen m f w = (Returned r, w')"
  obtain x w1 where m: "m w = (Returned x, w1)" and f: "f x w1 = (Returned r, w')"
    using andThen_ReturnedD [OF a] by (elim exE conjE)
  have "P x" using assms(1) m by (rule yieldsD)
  then have "yields Q (f x)" by (rule assms(2))
  then show "Q r" using f by (rule yieldsD)
qed

lemma yields_any: "yields (\<lambda>x. True) m"
  by (rule yieldsI) (rule TrueI)

lemma yields_after:
  assumes "\<And>x. yields Q (f x)"
  shows "yields Q (andThen m f)"
  by (rule yields_andThen [OF yields_any]) (rule assms)

lemma yields_tryCatch:
  assumes "yields Q m" and "\<And>e. yields Q (h e)"
  shows "yields Q (tryCatch m h)"
proof (rule yieldsI)
  fix w r w'
  assume a: "tryCatch m h w = (Returned r, w')"
  obtain o1 w1 where m: "m w = (o1, w1)" by (cases "m w")
  show "Q r"
  proof (cases o1)
    case (Returned x)
    then have "m w = (Returned r, w')" using a m by (simp add: tryCatch_def)
    with assms(1) show ?thesis by (rule yieldsD)
  next
    case (Thrown e)
    then have "h e w1 = (Returned r, w')" using a m by (simp add: tryCatch_def)
    with assms(2) show ?thesis by (rule yieldsD)
  next
    case Pending
    then show ?thesis using a m by (simp add: tryCatch_def)
  qed
qed

lemma yields_if: "(c \<Longrightarrow> yields Q a) \<Longrightarrow> (\<not> c \<Longrightarrow> yields Q b) \<Longrightarrow> yields Q (if c then a else b)"
  by (cases c) simp_all

lemma yields_promptUntilFilled: "yields (\<lambda>a. trim a \<noteq> []) (promptUntilFilled msg)"
proof (rule yieldsI)
  fix w r w'
  assume "promptUntilFilled msg w = (Returned r, w')"
  from promptUntilFilled_Returned [OF this] show "trim r \<noteq> []" by (rule conjunct1)
qed

lemma yields_option:
  "(x = None \<Longrightarrow> yields Q a) \<Longrightarrow> (\<And>y. x = Some y \<Longrightarrow> yields Q (b y)) \<Longrightarrow>
   yields Q (case x of None \<Rightarrow> a | Some y \<Rightarrow> b y)"
  by (cases x) simp_all

lemma webContact_given: "yields contactGiven (webContact r)"
proof (cases "truthy (map_of r ''ContactId'')")
  case True
  then have "contactGiven r" unfolding contactGiven_def by (rule disjI1)
  then have "yields contactGiven (resolve r)" by (rule yields_resolve)
  then show ?thesis using True by (simp add: webContact_def)
next
  case False
  have given: "contactGiven (AList.update ''SuppliedName'' (JStr n) (AList.update ''SuppliedEmail'' (JStr e) r))"
    if "trim e \<noteq> []" "trim n \<noteq> []" for e n
    using that by (simp add: contactGiven_def filled_def update_conv')
  have "yields contactGiven
          (andThen (promptUntilFilled ''Web Email (required):'') (\<lambda>webEmail.
           andThen (promptUntilFilled ''Web Name (required):'') (\<lambda>webName.
             resolve (AList.update ''SuppliedName'' (JStr webName)
                       (AList.update ''SuppliedEmail'' (JStr webEmail) r)))))"
    by (intro yields_andThen [OF yields_promptUntilFilled] yields_resolve given)
  then show ?thesis using False by (simp add: webContact_def)
qed

lemma askSubject_keeps: "contactGiven r \<Longrightarrow> yields contactGiven (askSubject r)"
  unfolding askSubject_def
  by (intro yields_if yields_after yields_resolve contactGiven_update) simp_all

lemma askDescription_keeps: "contactGiven r \<Longrightarrow> yields contactGiven (askDescription r)"
  unfolding askDescription_def
  by (intro yields_if yields_after yields_resolve contactGiven_delete contactGiven_update) simp_all

lemma askCommonPicklist_keeps:
  assumes "contactGiven r" and "''ContactId'' \<noteq> key" and "''SuppliedEmail'' \<noteq> key" and "''SuppliedName'' \<noteq> key"
  shows "yields contactGiven (askCommonPicklist fs key heading r)"
  unfolding askCommonPicklist_def
  by (intro yields_if yields_option yields_after yields_resolve contactGiven_update assms disjI2 conjI)

lemma chooseReference_keeps:
  assumes "contactGiven r" and "''ContactId'' \<noteq> fName field" and "map_of r (fName field) = None"
  shows "yields contactGiven (chooseReference field obj rows r)"
  unfolding chooseReference_def
  by (intro yields_if yields_option yields_after yields_resolve yields_throw contactGiven_update assms disjI1)

lemma askReference_keeps:
  assumes "contactGiven r" and "''ContactId'' \<noteq> fName field" and "map_of r (fName field) = None"
  shows "yields contactGiven (askReference conn field obj r)"
  unfolding askReference_def
  by (intro yields_if yields_tryCatch yields_after yields_resolve yields_throw contactGiven_update
        chooseReference_keeps assms disjI1)

lemma askPicklist_keeps:
  assumes "contactGiven r" and "''ContactId'' \<noteq> fName field" and "map_of r (fName field) = None"
  shows "yields contactGiven (askPicklist field entries r)"
  unfolding askPicklist_def
  by (intro yields_if yields_option yields_after yields_resolve yields_throw contactGiven_update assms disjI1)

lemma askScalar_keeps:
  assumes "contactGiven r" and "''ContactId'' \<noteq> fName field" and "map_of r (fName field) = None"
  shows "yields contactGiven (askScalar parseFloat field r)"
  unfolding askScalar_def
  by (intro yields_if yields_option yields_after yields_resolve yields_throw contactGiven_update assms disjI1)

lemma processField_keeps:
  assumes "contactGiven r"
  shows "yields contactGiven (processField parseFloat conn field r)"
proof (cases "fName field = ''AccountId'' \<or> fName field = ''ContactId'' \<or>
         fName field = ''Subject'' \<or> fName field = ''Description'' \<or>
         fName field = ''Origin'' \<or> fName field = ''Status'' \<or>
         fName field = ''Priority'' \<or> isDefined r (fName field)")
  case True
  then have "processField parseFloat conn field r = resolve r"
    unfolding processField_def by (rule if_P)
  then show ?thesis using assms by (simp add: yields_resolve)
next
  case False
  then have n: "''ContactId'' \<noteq> fName field" and u: "map_of r (fName field) = None"
    by (auto simp: isDefined_def)
  note k = askReference_keeps [OF assms n u] askPicklist_keeps [OF assms n u] askScalar_keeps [OF assms n u]
  have "processField parseFloat conn field r =
        (case (if fType field = ''reference'' then referenceTo field else None) of
           Some (obj # others) \<Rightarrow> askReference conn field obj r
         | other \<Rightarrow>
             (case (if fType field = ''picklist'' then picklistValues field else None) of
                Some (e0 # es) \<Rightarrow> askPicklist field (e0 # es) r
              | other \<Rightarrow> askScalar parseFloat field r))"
    unfolding processField_def using False by (rule if_not_P)
  then show ?thesis
    using k by (simp split: option.splits list.splits)
qed

lemma processFields_keeps: "contactGiven r \<Longrightarrow> yields contactGiven (processFields parseFloat conn fs r)"
proof (induction fs arbitrary: r)
  case Nil
  then show ?case by (simp add: yields_resolve)
next
  case (Cons field fs)
  have "yields contactGiven (andThen (processField parseFloat conn field r) (processFields parseFloat conn fs))"
    using processField_keeps [OF Cons.prems] Cons.IH by (rule yields_andThen)
  then show ?case by simp
qed

lemma collectCaseRecord_given: "yields contactGiven (collectCaseRecord parseFloat conn)"
  unfolding collectCaseRecord_def
  by (intro yields_after yields_andThen [OF webContact_given]
        yields_andThen [OF askSubject_keeps] yields_andThen [OF askDescription_keeps]
        yields_andThen [OF askCommonPicklist_keeps] processFields_keeps) simp_all

section \<open>Web contact details when no contact is selected\<close>

lemma promptUntilFilled_insists:
  "stdin w = blanks @ d # rest \<Longrightarrow> \<forall>b \<in> set blanks. trim b = [] \<Longrightarrow> trim d \<noteq> [] \<Longrightarrow>
   promptUntilFilled msg w =
     (Returned (trim d),
      w\<lparr>stdin := rest, trace := trace w @ replicate (length blanks + 1) (Prompted msg)\<rparr>)"
proof (induction blanks arbitrary: w)
  case Nil
  then have "promptUser msg w = (Returned (trim d), w\<lparr>stdin := rest, trace := trace w @ [Prompted msg]\<rparr>)"
    by (simp add: promptUser_def)
  then show ?case
    using Nil.prems(3) by (simp add: promptUntilFilled.simps [of msg w] trim_trim)
next
  case (Cons b bs)
  let ?w1 = "w\<lparr>stdin := bs @ d # rest, trace := trace w @ [Prompted msg]\<rparr>"
  have p: "promptUser msg w = (Returned (trim b), ?w1)"
    using Cons.prems(1) by (simp add: promptUser_def)
  have blank: "trim (trim b) = []" using Cons.prems(2) by (simp add: trim_trim)
  have "\<forall>b \<in> set bs. trim b = []" using Cons.prems(2) by simp
  then have "promptUntilFilled msg ?w1 =
     (Returned (trim d),
      ?w1\<lparr>stdin := rest, trace := trace ?w1 @ replicate (length bs + 1) (Prompted msg)\<rparr>)"
    using Cons.prems(3) by (intro Cons.IH) simp_all
  then show ?case
    using p blank by (simp add: promptUntilFilled.simps [of msg w] replicate_app_Cons_same)
qed

lemma selectContact_unselected:
  assumes "contacts \<noteq> []" and "stdin w = d # rest"
    and "trim d = [] \<or> chosen (trim d) (length contacts) = None"
  shows "selectContact contacts r w =
     (Returned r,
      w\<lparr>stdin := rest,
        trace := trace w @
          [Prompted (''Select a contact for this case (or press Enter to skip):\<newline>'' @
                     join nl (numbered Name contacts))]\<rparr>)"
proof -
  have p: "promptUser (''Select a contact for this case (or press Enter to skip):\<newline>'' @
                       join nl (numbered Name contacts)) w =
     (Returned (trim d),
      w\<lparr>stdin := rest,
        trace := trace w @
          [Prompted (''Select a contact for this case (or press Enter to skip):\<newline>'' @
                     join nl (numbered Name contacts))]\<rparr>)"
    using assms(2) by (simp add: promptUser_def)
  have pos: "length contacts > 0" using assms(1) by simp
  show ?thesis
  proof (cases "trim d = []")
    case True
    then show ?thesis
      unfolding selectContact_def using pos p by (simp add: andThen_def resolve_def)
  next
    case False
    then have "chosen (trim d) (length contacts) = None" using assms(3) by blast
    then show ?thesis
      unfolding selectContact_def using pos p
      by (auto simp add: andThen_def resolve_def chosen_def trim_trim split: option.splits if_splits)
  qed
qed

lemma webContact_asks:
  assumes "\<not> truthy (map_of r ''ContactId'')"
    and "stdin w = blanks1 @ e # blanks2 @ n # rest"
    and "\<forall>b \<in> set blanks1. trim b = []" and "trim e \<noteq> []"
    and "\<forall>b \<in> set blanks2. trim b = []" and "trim n \<noteq> []"
  shows "webContact r w =
     (Returned (AList.update ''SuppliedName'' (JStr (trim n))
                 (AList.update ''SuppliedEmail'' (JStr (trim e)) r)),
      w\<lparr>stdin := rest,
        trace := trace w @ replicate (length blanks1 + 1) (Prompted ''Web Email (required):'') @
                 replicate (length blanks2 + 1) (Prompted ''Web Name (required):'')\<rparr>)"
proof -
  let ?w1 = "w\<lparr>stdin := blanks2 @ n # rest,
               trace := trace w @ replicate (length blanks1 + 1) (Prompted ''Web Email (required):'')\<rparr>"
  have 1: "promptUntilFilled ''Web Email (required):'' w = (Returned (trim e), ?w1)"
    using assms(2,3,4) by (rule promptUntilFilled_insists)
  have "stdin ?w1 = blanks2 @ n # rest" by simp
  then have 2: "promptUntilFilled ''Web Name (required):'' ?w1 =
     (Returned (trim n),
      ?w1\<lparr>stdin := rest,
          trace := trace ?w1 @ replicate (length blanks2 + 1) (Prompted ''Web Name (required):'')\<rparr>)"
    using assms(5,6) by (rule promptUntilFilled_insists)
  have "webContact r =
        andThen (promptUntilFilled ''Web Email (required):'') (\<lambda>webEmail.
        andThen (promptUntilFilled ''Web Name (required):'') (\<lambda>webName.
          resolve (AList.update ''SuppliedName'' (JStr webName)
                    (AList.update ''SuppliedEmail'' (JStr webEmail) r))))"
    unfolding webContact_def using assms(1) by (rule if_P)
  then show ?thesis
    using 1 2 by (simp add: andThen_def resolve_def)
qed

lemma filled_web:
  assumes "trim e \<noteq> []" and "trim n \<noteq> []"
  shows "filled (AList.update ''SuppliedName'' (JStr (trim n))
                  (AList.update ''SuppliedEmail'' (JStr (trim e)) r)) ''SuppliedEmail'' \<and>
         filled (AList.update ''SuppliedName'' (JStr (trim n))
                  (AList.update ''SuppliedEmail'' (JStr (trim e)) r)) ''SuppliedName''"
  using assms by (simp add: filled_def update_conv' trim_trim)

text \<open>
  C7. When the account has contacts and the answer to the contact prompt is blank or is
  not a number of the list, the record is left without a contact. Then, and whenever the
  record names no contact, the flow asks for the web email until an answer is not blank,
  then for the web name until an answer is not blank, one prompt for each answer, and sets
  \<^verbatim>\<open>SuppliedEmail\<close> and \<^verbatim>\<open>SuppliedName\<close> to those two answers, which are strings and not
  blank; a record that names a contact is passed on without a prompt. The loop returns
  nothing but the first answer that is not blank and never returns while every answer is
  blank. Whenever the flow reaches the confirmation with a record in which no contact is
  selected (no \<^verbatim>\<open>ContactId\<close>, or a falsy one), the record holds a \<^verbatim>\<open>SuppliedEmail\<close> and a
  \<^verbatim>\<open>SuppliedName\<close> that are strings and not blank.
\<close>

theorem web_contact_required:
  "(collectCaseRecord parseFloat conn w = (Returned caseRecord, w1) \<and>
    \<not> truthy (map_of caseRecord ''ContactId'') \<longrightarrow>
      filled caseRecord ''SuppliedEmail'' \<and> filled caseRecord ''SuppliedName'') \<and>
   (contacts \<noteq> [] \<and> stdin w = s # rest \<and>
    (trim s = [] \<or> chosen (trim s) (length contacts) = None) \<longrightarrow>
      selectContact contacts caseRecord w =
        (Returned caseRecord,
         w\<lparr>stdin := rest,
           trace := trace w @
             [Prompted (''Select a contact for this case (or press Enter to skip):\<newline>'' @
                        join nl (numbered Name contacts))]\<rparr>)) \<and>
   (stdin w = blanks @ d # rest \<and> (\<forall>b \<in> set blanks. trim b = []) \<and> trim d \<noteq> [] \<longrightarrow>
      promptUntilFilled msg w =
        (Returned (trim d),
         w\<lparr>stdin := rest, trace := trace w @ replicate (length blanks + 1) (Prompted msg)\<rparr>)) \<and>
   (\<not> truthy (map_of caseRecord ''ContactId'') \<and>
    stdin w = blanks1 @ e # blanks2 @ n # rest \<and>
    (\<forall>b \<in> set blanks1. trim b = []) \<and> trim e \<noteq> [] \<and>
    (\<forall>b \<in> set blanks2. trim b = []) \<and> trim n \<noteq> [] \<longrightarrow>
      webContact caseRecord w =
        (Returned (AList.update ''SuppliedName'' (JStr (trim n))
                    (AList.update ''SuppliedEmail'' (JStr (trim e)) caseRecord)),
         w\<lparr>stdin := rest,
           trace := trace w @
             replicate (length blanks1 + 1) (Prompted ''Web Email (required):'') @
             replicate (length blanks2 + 1) (Prompted ''Web Name (required):'')\<rparr>) \<and>
      filled (AList.update ''SuppliedName'' (JStr (trim n))
               (AList.update ''SuppliedEmail'' (JStr (trim e)) caseRecord)) ''SuppliedEmail'' \<and>
      filled (AList.update ''SuppliedName'' (JStr (trim n))
               (AList.update ''SuppliedEmail'' (JStr (trim e)) caseRecord)) ''SuppliedName'') \<and>
   (truthy (map_of caseRecord ''ContactId'') \<longrightarrow>
      webContact caseRecord w = (Returned caseRecord, w)) \<and>
   (promptUntilFilled msg w = (Returned a, w') \<longrightarrow>
      trim a \<noteq> [] \<and>
      (\<exists>blanks d. stdin w = blanks @ d # stdin w' \<and> (\<forall>b \<in> set blanks. trim b = []) \<and> a = trim d \<and>
         trace w' = trace w @ replicate (length blanks + 1) (Prompted msg))) \<and>
   ((\<forall>b \<in> set (stdin w). trim b = []) \<longrightarrow> fst (promptUntilFilled msg w) = Pending)"
proof (intro conjI impI)
  assume a: "collectCaseRecord parseFloat conn w = (Returned caseRecord, w1) \<and>
    \<not> truthy (map_of caseRecord ''ContactId'')"
  then have "contactGiven caseRecord"
    using yieldsD [OF collectCaseRecord_given] by blast
  then show "filled caseRecord ''SuppliedEmail''" "filled caseRecord ''SuppliedName''"
    using a unfolding contactGiven_def by blast+
next
  assume a: "contacts \<noteq> [] \<and> stdin w = s # rest \<and>
    (trim s = [] \<or> chosen (trim s) (length contacts) = None)"
  show "selectContact contacts caseRecord w =
        (Returned caseRecord,
         w\<lparr>stdin := rest,
           trace := trace w @
             [Prompted (''Select a contact for this case (or press Enter to skip):\<newline>'' @
                        join nl (numbered Name contacts))]\<rparr>)"
    by (rule selectContact_unselected [OF a [THEN conjunct1] a [THEN conjunct2, THEN conjunct1]
          a [THEN conjunct2, THEN conjunct2]])
next
  assume a: "stdin w = blanks @ d # rest \<and> (\<forall>b \<in> set blanks. trim b = []) \<and> trim d \<noteq> []"
  show "promptUntilFilled msg w =
        (Returned (trim d),
         w\<lparr>stdin := rest, trace := trace w @ replicate (length blanks + 1) (Prompted msg)\<rparr>)"
    by (rule promptUntilFilled_insists [OF a [THEN conjunct1] a [THEN conjunct2, THEN conjunct1]
          a [THEN conjunct2, THEN conjunct2]])
next
  assume a: "\<not> truthy (map_of caseRecord ''ContactId'') \<and>
    stdin w = blanks1 @ e # blanks2 @ n # rest \<and>
    (\<forall>b \<in> set blanks1. trim b = []) \<and> trim e \<noteq> [] \<and>
    (\<forall>b \<in> set blanks2. trim b = []) \<and> trim n \<noteq> []"
  then have 1: "\<not> truthy (map_of caseRecord ''ContactId'')"
    and 2: "stdin w = blanks1 @ e # blanks2 @ n # rest"
    and 3: "\<forall>b \<in> set blanks1. trim b = []" and 4: "trim e \<noteq> []"
    and 5: "\<forall>b \<in> set blanks2. trim b = []" and 6: "trim n \<noteq> []"
    by blast+
  show "webContact caseRecord w =
        (Returned (AList.update ''SuppliedName'' (JStr (trim n))
                    (AList.update ''SuppliedEmail'' (JStr (trim e)) caseRecord)),
         w\<lparr>stdin := rest,
           trace := trace w @
             replicate (length blanks1 + 1) (Prompted ''Web Email (required):'') @
             replicate (length blanks2 + 1) (Prompted ''Web Name (required):'')\<rparr>)"
    using 1 2 3 4 5 6 by (rule webContact_asks)
  show "filled (AList.update ''SuppliedName'' (JStr (trim n))
               (AList.update ''SuppliedEmail'' (JStr (trim e)) caseRecord)) ''SuppliedEmail''"
    using filled_web [OF 4 6] by (rule conjunct1)
  show "filled (AList.update ''SuppliedName'' (JStr (trim n))
               (AList.update ''SuppliedEmail'' (JStr (trim e)) caseRecord)) ''SuppliedName''"
    using filled_web [OF 4 6] by (rule conjunct2)
next
  assume "truthy (map_of caseRecord ''ContactId'')"
  then show "webContact caseRecord w = (Returned caseRecord, w)"
    by (simp add: webContact_def resolve_def)
next
  assume "promptUntilFilled msg w = (Returned a, w')"
  from promptUntilFilled_Returned [OF this]
  show "trim a \<noteq> []"
    "\<exists>blanks d. stdin w = blanks @ d # stdin w' \<and> (\<forall>b \<in> set blanks. trim b = []) \<and> a = trim d \<and>
         trace w' = trace w @ replicate (length blanks + 1) (Prompted msg)"
    by blast+
next
  assume "\<forall>b \<in> set (stdin w). trim b = []"
  then show "fst (promptUntilFilled msg w) = Pending" by (rule promptUntilFilled_all_blank)
qed

lemma skip_run:
  "collectCaseRecord sampleParseFloat sampleConn (typing skipAnswers) =
     (Returned skipRecord, \<lparr>stdin = [], trace = skipTrace\<rparr>)"
  by code_simp

lemma invalid_run:
  "collectCaseRecord sampleParseFloat sampleConn (typing invalidAnswers) =
     (Returned skipRecord, \<lparr>stdin = [], trace = skipTrace\<rparr>)"
  by code_simp

lemma sample_trims:
  "trim '''' = []" "trim ''   '' = []" "trim ''  '' = []"
  "trim '' pat@acme.test '' = ''pat@acme.test''" "trim ''Pat'' = ''Pat''"
  "trim ''7'' = ''7''"
  by code_simp+

lemma sample_contacts:
  "chosen ''7'' (Suc (Suc 0)) = None"
  "join nl (numbered Name [ada, bob]) = ''1. Ada\<newline>2. Bob''"
  by code_simp+

theorem web_contact_required_witness:
  "selectContact [ada, bob] [(''AccountId'', JStr ''001A'')] (typing [''7'', ''Pat'']) =
     (Returned [(''AccountId'', JStr ''001A'')],
      \<lparr>stdin = [''Pat''],
       trace = [Prompted ''Select a contact for this case (or press Enter to skip):\<newline>1. Ada\<newline>2. Bob'']\<rparr>) \<and>
   selectContact [ada, bob] [(''AccountId'', JStr ''001A'')] (typing [''   '', ''Pat'']) =
     (Returned [(''AccountId'', JStr ''001A'')],
      \<lparr>stdin = [''Pat''],
       trace = [Prompted ''Select a contact for this case (or press Enter to skip):\<newline>1. Ada\<newline>2. Bob'']\<rparr>) \<and>
   promptUntilFilled ''Web Email (required):'' (typing ['''', ''   '', '' pat@acme.test '', ''Pat'']) =
     (Returned ''pat@acme.test'',
      \<lparr>stdin = [''Pat''],
       trace = [Prompted ''Web Email (required):'', Prompted ''Web Email (required):'',
                Prompted ''Web Email (required):'']\<rparr>) \<and>
   webContact [(''AccountId'', JStr ''001A'')]
       (typing ['''', ''   '', '' pat@acme.test '', ''  '', ''Pat'', ''Printer jam'']) =
     (Returned [(''AccountId'', JStr ''001A''), (''SuppliedEmail'', JStr ''pat@acme.test''),
                (''SuppliedName'', JStr ''Pat'')],
      \<lparr>stdin = [''Printer jam''],
       trace = [Prompted ''Web Email (required):'', Prompted ''Web Email (required):'',
                Prompted ''Web Email (required):'', Prompted ''Web Name (required):'',
                Prompted ''Web Name (required):'']\<rparr>) \<and>
   webContact [(''AccountId'', JStr ''001A''), (''ContactId'', JStr ''003B'')] (typing [''Printer jam'']) =
     (Returned [(''AccountId'', JStr ''001A''), (''ContactId'', JStr ''003B'')], typing [''Printer jam'']) \<and>
   collectCaseRecord sampleParseFloat sampleConn (typing skipAnswers) =
     (Returned skipRecord, \<lparr>stdin = [], trace = skipTrace\<rparr>) \<and>
   collectCaseRecord sampleParseFloat sampleConn (typing invalidAnswers) =
     (Returned skipRecord, \<lparr>stdin = [], trace = skipTrace\<rparr>) \<and>
   \<not> truthy (map_of skipRecord ''ContactId'') \<and>
   filled skipRecord ''SuppliedEmail'' \<and> filled skipRecord ''SuppliedName'' \<and>
   fst (promptUntilFilled ''Web Name (required):'' (typing ['''', ''   ''])) = Pending"
proof -
  let ?r = "[(''AccountId'', JStr ''001A'')] :: int sfrecord"
  have none: "\<not> truthy (map_of ?r ''ContactId'')" by simp
  have no: "\<not> truthy (map_of skipRecord ''ContactId'')" by (simp add: skipRecord_def)
  have invalid: "selectContact [ada, bob] ?r (typing [''7'', ''Pat'']) =
     (Returned ?r,
      \<lparr>stdin = [''Pat''],
       trace = [Prompted ''Select a contact for this case (or press Enter to skip):\<newline>1. Ada\<newline>2. Bob'']\<rparr>)"
    using web_contact_required [where contacts = "[ada, bob]" and w = "typing [''7'', ''Pat'']"
        and s = "''7''" and rest = "[''Pat'']" and caseRecord = ?r,
        THEN conjunct2, THEN conjunct1]
    by (simp add: sample_trims sample_contacts typing_def)
  have skipped: "selectContact [ada, bob] ?r (typing [''   '', ''Pat'']) =
     (Returned ?r,
      \<lparr>stdin = [''Pat''],
       trace = [Prompted ''Select a contact for this case (or press Enter to skip):\<newline>1. Ada\<newline>2. Bob'']\<rparr>)"
    using web_contact_required [where contacts = "[ada, bob]" and w = "typing [''   '', ''Pat'']"
        and s = "''   ''" and rest = "[''Pat'']" and caseRecord = ?r,
        THEN conjunct2, THEN conjunct1]
    by (simp add: sample_trims sample_contacts typing_def)
  have loop: "promptUntilFilled ''Web Email (required):'' (typing ['''', ''   '', '' pat@acme.test '', ''Pat'']) =
     (Returned ''pat@acme.test'',
      \<lparr>stdin = [''Pat''],
       trace = [Prompted ''Web Email (required):'', Prompted ''Web Email (required):'',
                Prompted ''Web Email (required):'']\<rparr>)"
    using web_contact_required [where w = "typing ['''', ''   '', '' pat@acme.test '', ''Pat'']"
        and blanks = "['''', ''   '']" and d = "'' pat@acme.test ''" and rest = "[''Pat'']"
        and msg = "''Web Email (required):''",
        THEN conjunct2, THEN conjunct2, THEN conjunct1]
    by (simp add: sample_trims typing_def)
  have web: "webContact ?r (typing ['''', ''   '', '' pat@acme.test '', ''  '', ''Pat'', ''Printer jam'']) =
     (Returned [(''AccountId'', JStr ''001A''), (''SuppliedEmail'', JStr ''pat@acme.test''),
                (''SuppliedName'', JStr ''Pat'')],
      \<lparr>stdin = [''Printer jam''],
       trace = [Prompted ''Web Email (required):'', Prompted ''Web Email (required):'',
                Prompted ''Web Email (required):'', Prompted ''Web Name (required):'',
                Prompted ''Web Name (required):'']\<rparr>)"
    using web_contact_required [where caseRecord = ?r
        and w = "typing ['''', ''   '', '' pat@acme.test '', ''  '', ''Pat'', ''Printer jam'']"
        and ?blanks1.0 = "['''', ''   '']" and e = "'' pat@acme.test ''"
        and ?blanks2.0 = "[''  '']" and n = "''Pat''" and rest = "[''Printer jam'']",
        THEN conjunct2, THEN conjunct2, THEN conjunct2, THEN conjunct1]
    by (simp add: sample_trims typing_def)
  have given: "webContact [(''AccountId'', JStr ''001A''), (''ContactId'', JStr ''003B'')] (typing [''Printer jam'']) =
     (Returned [(''AccountId'', JStr ''001A''), (''ContactId'', JStr ''003B'')], typing [''Printer jam''])"
    using web_contact_required [where caseRecord = "[(''AccountId'', JStr ''001A''), (''ContactId'', JStr ''003B'')]"
        and w = "typing [''Printer jam'']",
        THEN conjunct2, THEN conjunct2, THEN conjunct2, THEN conjunct2, THEN conjunct1]
    by simp
  have f: "filled skipRecord ''SuppliedEmail'' \<and> filled skipRecord ''SuppliedName''"
    using web_contact_required [where parseFloat = sampleParseFloat and conn = sampleConn
        and w = "typing skipAnswers" and caseRecord = skipRecord
        and ?w1.0 = "\<lparr>stdin = [], trace = skipTrace\<rparr>", THEN conjunct1]
      skip_run no
    by blast
  have blank: "\<forall>b \<in> set (stdin (typing ['''', ''   ''])). trim b = []"
    by (simp add: typing_def sample_trims)
  have pending: "fst (promptUntilFilled ''Web Name (required):'' (typing ['''', ''   ''])) = Pending"
    using web_contact_required [where w = "typing ['''', ''   '']" and msg = "''Web Name (required):''",
        THEN conjunct2, THEN conjunct2, THEN conjunct2, THEN conjunct2, THEN conjunct2, THEN conjunct2]
      blank
    by blast
  show ?thesis
    by (intro conjI invalid skipped loop web given skip_run invalid_run no f [THEN conjunct1]
          f [THEN conjunct2] pending)
qed

section \<open>Selection by number\<close>

lemma digit_nth: "m < 10 \<Longrightarrow> ''0123456789'' ! m \<in> set ''0123456789''"
  by (rule nth_mem) simp

lemma digitValue_nth: "m < 10 \<Longrightarrow> digitValue (''0123456789'' ! m) = int m"
proof -
  assume "m < 10"
  then have "m \<in> {0, 1, 2, 3, 4, 5, 6, 7, 8, 9}" by auto
  then show ?thesis by (auto simp: digitValue_def)
qed

lemma showNat_digits: "showNat n \<noteq> [] \<and> set (showNat n) \<subseteq> set ''0123456789''"
proof (induction n rule: showNat.induct)
  case (1 n)
  show ?case
  proof (cases "n < 10")
    case True
    then show ?thesis using digit_nth [of n] by (subst (1 2) showNat.simps) simp
  next
    case False
    have "n mod 10 < 10" by simp
    from digit_nth [OF this] "1.IH" [OF False] show ?thesis
      using False by (subst (1 2) showNat.simps) simp
  qed
qed

lemma decimal_snoc: "decimal (xs @ [c]) = 10 * decimal xs + digitValue c"
  by (simp add: decimal_def)

lemma decimal_showNat: "decimal (showNat n) = int n"
proof (induction n rule: showNat.induct)
  case (1 n)
  show ?case
  proof (cases "n < 10")
    case True
    then have "showNat n = [''0123456789'' ! n]" by (subst showNat.simps) simp
    then show ?thesis using digitValue_nth [OF True] by (simp add: decimal_def)
  next
    case False
    then have s: "showNat n = showNat (n div 10) @ [''0123456789'' ! (n mod 10)]"
      by (subst showNat.simps) simp
    have "digitValue (''0123456789'' ! (n mod 10)) = int (n mod 10)"
      by (rule digitValue_nth) simp
    moreover have "10 * int (n div 10) + int (n mod 10) = int n"
      by (metis mult_div_mod_eq of_nat_add of_nat_mult of_nat_numeral)
    ultimately show ?thesis using "1.IH" [OF False] by (simp add: s decimal_snoc)
  qed
qed

lemma digit_plain:
  assumes "c \<in> set ''0123456789''"
  shows "isDigit c" "\<not> isWhiteSpace c" "c \<noteq> CHR ''-''" "c \<noteq> CHR ''+''"
  using assms by (auto simp: isDigit_def isWhiteSpace_def)

lemma parseInt_showNat: "parseInt (showNat n) = Some (int n)"
proof -
  let ?s = "showNat n"
  have ne: "?s \<noteq> []" and ds: "set ?s \<subseteq> set ''0123456789''"
    using showNat_digits [of n] by blast+
  then have h: "hd ?s \<in> set ''0123456789''" by (meson hd_in_set subsetD)
  have 1: "dropWhile isWhiteSpace ?s = ?s"
    using digit_plain(2) [OF h] ne by (cases ?s) simp_all
  have "\<forall>c \<in> set ?s. isDigit c" using ds digit_plain(1) by blast
  then have 2: "takeWhile isDigit ?s = ?s" by (simp add: takeWhile_eq_all_conv)
  show ?thesis
    unfolding parseInt_def Let_def 1
    using digit_plain(3,4) [OF h] ne by (simp add: 2 decimal_showNat)
qed

lemma parseInt_Nil: "parseInt [] = None"
  by (simp add: parseInt_def)

lemma chosen_facts:
  "chosen a n = Some i \<longrightarrow> i < n \<and> parseInt a = Some (int i + 1)"
  "i < n \<longrightarrow> chosen (showNat (i + 1)) n = Some i"
  "chosen (showNat 0) n = None"
  "chosen (showNat (n + 1)) n = None"
  "parseInt a = None \<longrightarrow> chosen a n = None"
  "chosen [] n = None"
  by (auto simp: chosen_def parseInt_showNat parseInt_Nil split: option.splits if_splits)

lemma chooseAccount_step:
  assumes "stdin w = d # ds"
  shows "chooseAccount accounts w =
     (case chosen (trim d) (length accounts) of
        Some i \<Rightarrow> Returned (accounts ! i)
      | None \<Rightarrow> Thrown ''Invalid account selection. Please enter a valid number from the list.'',
      w\<lparr>stdin := ds,
        trace := trace w @ [Prompted (''Select an account:\<newline>'' @ join nl (numbered Name accounts))]\<rparr>)"
  using assms
  by (simp add: chooseAccount_def andThen_def promptUser_def chosen_def throw_def resolve_def
      split: option.splits)

lemma selectContact_step:
  assumes "stdin w = d # ds" and "contacts \<noteq> []"
  shows "selectContact contacts caseRecord w =
     (Returned (case chosen (trim d) (length contacts) of
                  Some i \<Rightarrow> AList.update ''ContactId'' (JStr (Id' (contacts ! i))) caseRecord
                | None \<Rightarrow> caseRecord),
      w\<lparr>stdin := ds,
        trace := trace w @ [Prompted (''Select a contact for this case (or press Enter to skip):\<newline>'' @
                                      join nl (numbered Name contacts))]\<rparr>)"
proof (cases "trim d = []")
  case True
  then show ?thesis
    using assms
    by (simp add: selectContact_def andThen_def promptUser_def resolve_def chosen_facts(6))
next
  case False
  then show ?thesis
    using assms
    by (simp add: selectContact_def andThen_def promptUser_def resolve_def chosen_def trim_trim
        split: option.splits)
qed

lemma askCommonPicklist_step:
  assumes "stdin w = d # ds" and "\<not> truthy (map_of caseRecord key)"
    and "List.find (\<lambda>f. fName f = key) caseDescribe = Some field"
    and "picklistValues field = Some entries" and "entries \<noteq> []"
  shows "askCommonPicklist caseDescribe key heading caseRecord w =
     (Returned (case chosen (trim d) (length entries) of
                  Some i \<Rightarrow> AList.update key (JStr (pvValue (entries ! i))) caseRecord
                | None \<Rightarrow> caseRecord),
      w\<lparr>stdin := ds, trace := trace w @ [Prompted (heading @ join nl (numbered entryLabel entries))]\<rparr>)"
  using assms
  by (simp add: askCommonPicklist_def andThen_def promptUser_def resolve_def chosen_def
      split: option.splits)

lemma askPicklist_step:
  assumes "stdin w = d # ds"
  shows "askPicklist field entries caseRecord w =
     (case chosen (trim d) (length entries) of
        Some i \<Rightarrow> Returned (AList.update (fName field) (JStr (pvValue (entries ! i))) caseRecord)
      | None \<Rightarrow> Thrown (''Invalid '' @ fLabel field @
                         '' selection. Please enter a valid number from the list.''),
      w\<lparr>stdin := ds,
        trace := trace w @ [Prompted (''Select a '' @ fLabel field @ '':\<newline>'' @
                                      join nl (numbered entryLabel entries))]\<rparr>)"
  using assms
  by (simp add: askPicklist_def andThen_def promptUser_def chosen_def throw_def resolve_def
      split: option.splits)

lemma askReference_step:
  assumes "stdin w = s # d # ds"
    and "findAnswer conn (trace w @ [Prompted (''Enter a search string to find '' @ fLabel field @ '':'')])
           obj (NameLike (''%'' @ trim s @ ''%'')) [''Id'', ''Name''] = Inr rows"
    and "2 \<le> length rows"
  shows "askReference conn field obj caseRecord w =
     (case chosen (trim d) (length rows) of
        Some i \<Rightarrow> Returned (AList.update (fName field) (JStr (Id' (rows ! i))) caseRecord)
      | None \<Rightarrow> Thrown (''Unable to find '' @ fLabel field @ '' records. Please try again.''),
      w\<lparr>stdin := ds,
        trace := trace w @
          [Prompted (''Enter a search string to find '' @ fLabel field @ '':''),
           Called (Find obj (NameLike (''%'' @ trim s @ ''%'')) [''Id'', ''Name'']),
           Prompted (''Select a '' @ fLabel field @ '':\<newline>'' @ join nl (numbered Name rows))]\<rparr>)"
proof -
  have n: "rows \<noteq> []" "length rows \<noteq> 1" "length rows \<noteq> 0" using assms(3) by auto
  show ?thesis
    using assms(1,2) n
    by (simp add: askReference_def chooseReference_def tryCatch_def andThen_def promptUser_def
          find'_def remote_def chosen_def throw_def resolve_def
        split: option.splits)
qed

text \<open>
  C2, amended. A selection step reads one answer, prompts once, and selects by the
  answer's leading integer as \<^verbatim>\<open>parseInt\<close> reads it (so \<^verbatim>\<open>2abc\<close> selects the second
  item): when that integer is \<open>k\<close> in \<open>[1, N]\<close>, the \<open>k\<close>-th presented item is taken, and
  the number printed beside an item selects that item. Otherwise (no leading integer, 0,
  \<open>N + 1\<close>, any integer outside \<open>[1, N]\<close>): the account selection and a required picklist
  field throw an invalid-selection error; a required reference field throws the
  unable-to-find error of its \<^verbatim>\<open>catch\<close>; the contact, Origin, Status and Priority steps
  do not abort: they leave the record as it is and the flow goes on.
\<close>

theorem selection_steps:
  assumes "stdin w = d # ds"
  shows
    "chooseAccount accounts w =
       (case chosen (trim d) (length accounts) of
          Some i \<Rightarrow> Returned (accounts ! i)
        | None \<Rightarrow> Thrown ''Invalid account selection. Please enter a valid number from the list.'',
        w\<lparr>stdin := ds,
          trace := trace w @ [Prompted (''Select an account:\<newline>'' @ join nl (numbered Name accounts))]\<rparr>) \<and>
     (contacts \<noteq> [] \<longrightarrow>
        selectContact contacts caseRecord w =
          (Returned (case chosen (trim d) (length contacts) of
                       Some i \<Rightarrow> AList.update ''ContactId'' (JStr (Id' (contacts ! i))) caseRecord
                     | None \<Rightarrow> caseRecord),
           w\<lparr>stdin := ds,
             trace := trace w @ [Prompted (''Select a contact for this case (or press Enter to skip):\<newline>'' @
                                           join nl (numbered Name contacts))]\<rparr>)) \<and>
     (\<not> truthy (map_of caseRecord key) \<and> List.find (\<lambda>f. fName f = key) caseDescribe = Some field \<and>
      picklistValues field = Some entries \<and> entries \<noteq> [] \<longrightarrow>
        askCommonPicklist caseDescribe key heading caseRecord w =
          (Returned (case chosen (trim d) (length entries) of
                       Some i \<Rightarrow> AList.update key (JStr (pvValue (entries ! i))) caseRecord
                     | None \<Rightarrow> caseRecord),
           w\<lparr>stdin := ds,
             trace := trace w @ [Prompted (heading @ join nl (numbered entryLabel entries))]\<rparr>)) \<and>
     askPicklist field entries caseRecord w =
       (case chosen (trim d) (length entries) of
          Some i \<Rightarrow> Returned (AList.update (fName field) (JStr (pvValue (entries ! i))) caseRecord)
        | None \<Rightarrow> Thrown (''Invalid '' @ fLabel field @
                           '' selection. Please enter a valid number from the list.''),
        w\<lparr>stdin := ds,
          trace := trace w @ [Prompted (''Select a '' @ fLabel field @ '':\<newline>'' @
                                        join nl (numbered entryLabel entries))]\<rparr>) \<and>
     (stdin v = s # d # ds \<and>
      findAnswer conn (trace v @ [Prompted (''Enter a search string to find '' @ fLabel field @ '':'')])
        obj (NameLike (''%'' @ trim s @ ''%'')) [''Id'', ''Name''] = Inr rows \<and>
      2 \<le> length rows \<longrightarrow>
        askReference conn field obj caseRecord v =
          (case chosen (trim d) (length rows) of
             Some i \<Rightarrow> Returned (AList.update (fName field) (JStr (Id' (rows ! i))) caseRecord)
           | None \<Rightarrow> Thrown (''Unable to find '' @ fLabel field @ '' records. Please try again.''),
           v\<lparr>stdin := ds,
             trace := trace v @
               [Prompted (''Enter a search string to find '' @ fLabel field @ '':''),
                Called (Find obj (NameLike (''%'' @ trim s @ ''%'')) [''Id'', ''Name'']),
                Prompted (''Select a '' @ fLabel field @ '':\<newline>'' @ join nl (numbered Name rows))]\<rparr>)) \<and>
     (chosen (trim d) n = Some i \<longrightarrow> i < n \<and> parseInt (trim d) = Some (int i + 1)) \<and>
     (parseInt (trim d) = None \<longrightarrow> chosen (trim d) n = None) \<and>
     (i < n \<longrightarrow> chosen (showNat (i + 1)) n = Some i) \<and>
     chosen (showNat 0) n = None \<and>
     chosen (showNat (n + 1)) n = None"
proof (intro conjI impI)
  show "chooseAccount accounts w =
       (case chosen (trim d) (length accounts) of
          Some i \<Rightarrow> Returned (accounts ! i)
        | None \<Rightarrow> Thrown ''Invalid account selection. Please enter a valid number from the list.'',
        w\<lparr>stdin := ds,
          trace := trace w @ [Prompted (''Select an account:\<newline>'' @ join nl (numbered Name accounts))]\<rparr>)"
    by (rule chooseAccount_step [OF assms])
next
  assume "contacts \<noteq> []"
  then show "selectContact contacts caseRecord w =
          (Returned (case chosen (trim d) (length contacts) of
                       Some i \<Rightarrow> AList.update ''ContactId'' (JStr (Id' (contacts ! i))) caseRecord
                     | None \<Rightarrow> caseRecord),
           w\<lparr>stdin := ds,
             trace := trace w @ [Prompted (''Select a contact for this case (or press Enter to skip):\<newline>'' @
                                           join nl (numbered Name contacts))]\<rparr>)"
    by (rule selectContact_step [OF assms])
next
  assume a: "\<not> truthy (map_of caseRecord key) \<and> List.find (\<lambda>f. fName f = key) caseDescribe = Some field \<and>
      picklistValues field = Some entries \<and> entries \<noteq> []"
  show "askCommonPicklist caseDescribe key heading caseRecord w =
          (Returned (case chosen (trim d) (length entries) of
                       Some i \<Rightarrow> AList.update key (JStr (pvValue (entries ! i))) caseRecord
                     | None \<Rightarrow> caseRecord),
           w\<lparr>stdin := ds,
             trace := trace w @ [Prompted (heading @ join nl (numbered entryLabel entries))]\<rparr>)"
    by (rule askCommonPicklist_step [OF assms a [THEN conjunct1] a [THEN conjunct2, THEN conjunct1]
          a [THEN conjunct2, THEN conjunct2, THEN conjunct1]
          a [THEN conjunct2, THEN conjunct2, THEN conjunct2]])
next
  show "askPicklist field entries caseRecord w =
       (case chosen (trim d) (length entries) of
          Some i \<Rightarrow> Returned (AList.update (fName field) (JStr (pvValue (entries ! i))) caseRecord)
        | None \<Rightarrow> Thrown (''Invalid '' @ fLabel field @
                           '' selection. Please enter a valid number from the list.''),
        w\<lparr>stdin := ds,
          trace := trace w @ [Prompted (''Select a '' @ fLabel field @ '':\<newline>'' @
                                        join nl (numbered entryLabel entries))]\<rparr>)"
    by (rule askPicklist_step [OF assms])
next
  assume a: "stdin v = s # d # ds \<and>
      findAnswer conn (trace v @ [Prompted (''Enter a search string to find '' @ fLabel field @ '':'')])
        obj (NameLike (''%'' @ trim s @ ''%'')) [''Id'', ''Name''] = Inr rows \<and>
      2 \<le> length rows"
  show "askReference conn field obj caseRecord v =
          (case chosen (trim d) (length rows) of
             Some i \<Rightarrow> Returned (AList.update (fName field) (JStr (Id' (rows ! i))) caseRecord)
           | None \<Rightarrow> Thrown (''Unable to find '' @ fLabel field @ '' records. Please try again.''),
           v\<lparr>stdin := ds,
             trace := trace v @
               [Prompted (''Enter a search string to find '' @ fLabel field @ '':''),
                Called (Find obj (NameLike (''%'' @ trim s @ ''%'')) [''Id'', ''Name'']),
                Prompted (''Select a '' @ fLabel field @ '':\<newline>'' @ join nl (numbered Name rows))]\<rparr>)"
    by (rule askReference_step [OF a [THEN conjunct1] a [THEN conjunct2, THEN conjunct1]
          a [THEN conjunct2, THEN conjunct2]])
next
  assume c: "chosen (trim d) n = Some i"
  show "i < n" using chosen_facts(1) [of "trim d" n i] c by (elim impE conjE)
  show "parseInt (trim d) = Some (int i + 1)" using chosen_facts(1) [of "trim d" n i] c by (elim impE conjE)
next
  assume "parseInt (trim d) = None"
  then show "chosen (trim d) n = None" using chosen_facts(5) [of "trim d" n] by (elim impE)
next
  assume "i < n"
  then show "chosen (showNat (i + 1)) n = Some i" using chosen_facts(2) [of i n] by (elim impE)
next
  show "chosen (showNat 0) n = None" by (rule chosen_facts(3))
next
  show "chosen (showNat (n + 1)) n = None" by (rule chosen_facts(4))
qed

theorem selection_steps_witness:
  "fst (chooseAccount [acmeCorp, acmeIndustries] (typing [''2''])) = Returned acmeIndustries \<and>
   fst (selectContact [ada, bob] [(''AccountId'', JStr ''001A'')] (typing [''2''])) =
     Returned [(''AccountId'', JStr ''001A''), (''ContactId'', JStr ''003B'')]"
proof -
  have c: "chosen (trim ''2'') (Suc (Suc 0)) = Some (Suc 0)"
    by code_simp
  have n: "[ada, bob] \<noteq> []" by simp
  have i: "stdin (typing [''2'']) = ''2'' # []" by (simp add: typing_def)
  have b: "Id' bob = ''003B''" by (simp add: bob_def)
  note t = selection_steps [OF i, of "[acmeCorp, acmeIndustries]" "[ada, bob]"
      "[(''AccountId'', JStr ''001A'')]"]
  have 1: "fst (chooseAccount [acmeCorp, acmeIndustries] (typing [''2''])) = Returned acmeIndustries"
    using t [THEN conjunct1] by (simp add: c)
  have 2: "fst (selectContact [ada, bob] [(''AccountId'', JStr ''001A'')] (typing [''2''])) =
     Returned [(''AccountId'', JStr ''001A''), (''ContactId'', JStr ''003B'')]"
    using t [THEN conjunct2, THEN conjunct1, rule_format, OF n] by (simp add: c b)
  from 1 2 show ?thesis by (rule conjI)
qed

text \<open>
  The claim as stated fails: an answer outside the list at the contact step or at the
  Status step does not abort, an answer that is not numeric (\<^verbatim>\<open>2abc\<close>) selects an
  account, and a whole run with the answer 9 to a Status list of two ends with a record
  that has no Status.
\<close>

theorem invalid_selection_kept_counterexample:
  "fst (selectContact [ada, bob] [(''AccountId'', JStr ''001A'' :: int jsval)] (typing [''7''])) =
     Returned [(''AccountId'', JStr ''001A'')] \<and>
   fst (askCommonPicklist caseFields ''Status'' ''Select a status:\<newline>''
          [(''AccountId'', JStr ''001A'' :: int jsval)] (typing [''9''])) =
     Returned [(''AccountId'', JStr ''001A'')] \<and>
   fst (chooseAccount [acmeCorp, acmeIndustries] (typing [''2abc''])) = Returned acmeIndustries \<and>
   fst (advancedGuidedCaseCreation sampleParseFloat sampleConn (typing sampleAnswers)) =
     Returned sampleRecord \<and>
   sampleAnswers ! 6 = ''9'' \<and> map_of sampleRecord ''Status'' = None"
  by code_simp

section \<open>The flow sees trimmed answers only\<close>

lemma blindI:
  "(\<And>w v. sameTyped w v \<Longrightarrow> fst (m w) = fst (m v) \<and> sameTyped (snd (m w)) (snd (m v))) \<Longrightarrow> blind m"
  unfolding blind_def by (intro allI impI)

lemma blindD:
  "blind m \<Longrightarrow> sameTyped w v \<Longrightarrow> fst (m w) = fst (m v) \<and> sameTyped (snd (m w)) (snd (m v))"
  unfolding blind_def by (erule allE [of _ w], erule allE [of _ v], erule mp)

lemma blind_resolve: "blind (resolve x)"
  by (rule blindI) (simp add: resolve_def)

lemma blind_throw: "blind (throw e)"
  by (rule blindI) (simp add: throw_def)

lemma blind_andThen:
  assumes "blind m" and "\<And>x. blind (f x)"
  shows "blind (andThen m f)"
proof (rule blindI)
  fix w v :: "'a world"
  assume s: "sameTyped w v"
  obtain r w1 where mw: "m w = (r, w1)" by (cases "m w")
  obtain r' v1 where mv: "m v = (r', v1)" by (cases "m v")
  from blindD [OF assms(1) s] mw mv have r: "r' = r" and s1: "sameTyped w1 v1" by simp_all
  show "fst (andThen m f w) = fst (andThen m f v) \<and> sameTyped (snd (andThen m f w)) (snd (andThen m f v))"
  proof (cases r)
    case (Returned x)
    then show ?thesis
      using blindD [OF assms(2) s1, of x] mw mv r by (simp add: andThen_def)
  next
    case (Thrown e)
    then show ?thesis using mw mv r s1 by (simp add: andThen_def)
  next
    case Pending
    then show ?thesis using mw mv r s1 by (simp add: andThen_def)
  qed
qed

lemma blind_tryCatch:
  assumes "blind m" and "\<And>e. blind (h e)"
  shows "blind (tryCatch m h)"
proof (rule blindI)
  fix w v :: "'a world"
  assume s: "sameTyped w v"
  obtain r w1 where mw: "m w = (r, w1)" by (cases "m w")
  obtain r' v1 where mv: "m v = (r', v1)" by (cases "m v")
  from blindD [OF assms(1) s] mw mv have r: "r' = r" and s1: "sameTyped w1 v1" by simp_all
  show "fst (tryCatch m h w) = fst (tryCatch m h v) \<and> sameTyped (snd (tryCatch m h w)) (snd (tryCatch m h v))"
  proof (cases r)
    case (Thrown e)
    then show ?thesis
      using blindD [OF assms(2) s1, of e] mw mv r by (simp add: tryCatch_def)
  next
    case (Returned x)
    then show ?thesis using mw mv r s1 by (simp add: tryCatch_def)
  next
    case Pending
    then show ?thesis using mw mv r s1 by (simp add: tryCatch_def)
  qed
qed

lemma blind_if: "(c \<Longrightarrow> blind a) \<Longrightarrow> (\<not> c \<Longrightarrow> blind b) \<Longrightarrow> blind (if c then a else b)"
  by (cases c) simp_all

lemma blind_option:
  "(x = None \<Longrightarrow> blind a) \<Longrightarrow> (\<And>y. x = Some y \<Longrightarrow> blind (b y)) \<Longrightarrow>
   blind (case x of None \<Rightarrow> a | Some y \<Rightarrow> b y)"
  by (cases x) simp_all

lemma blind_promptUser: "blind (promptUser msg)"
proof (rule blindI)
  fix w v :: "'a world"
  assume s: "sameTyped w v"
  show "fst (promptUser msg w) = fst (promptUser msg v) \<and>
        sameTyped (snd (promptUser msg w)) (snd (promptUser msg v))"
  proof (cases "stdin w")
    case Nil
    then have "stdin v = []" using s by (simp add: sameTyped_def)
    then show ?thesis using Nil s by (simp add: promptUser_def sameTyped_def)
  next
    case (Cons d ds)
    then obtain d' ds' where v: "stdin v = d' # ds'" using s by (cases "stdin v") (simp_all add: sameTyped_def)
    then show ?thesis using Cons s by (simp add: promptUser_def sameTyped_def)
  qed
qed

lemma blind_remote: "blind (remote c answer)"
  by (rule blindI) (simp add: remote_def sameTyped_def split: sum.splits)

lemma blind_promptUntilFilled: "blind (promptUntilFilled msg)"
proof (rule blindI)
  fix w v :: "'a world"
  show "sameTyped w v \<Longrightarrow> fst (promptUntilFilled msg w) = fst (promptUntilFilled msg v) \<and>
        sameTyped (snd (promptUntilFilled msg w)) (snd (promptUntilFilled msg v))"
  proof (induction msg w arbitrary: v rule: promptUntilFilled.induct)
    case (1 msg w)
    obtain r w1 where pw: "promptUser msg w = (r, w1)" by (cases "promptUser msg w")
    obtain r' v1 where pv: "promptUser msg v = (r', v1)" by (cases "promptUser msg v")
    from blindD [OF blind_promptUser "1.prems", of msg] pw pv
    have r: "r' = r" and s1: "sameTyped w1 v1" by simp_all
    show ?case
    proof (cases r)
      case (Returned answer)
      show ?thesis
      proof (cases "trim answer = []")
        case True
        from "1.IH" [OF pw [symmetric] Returned True s1] show ?thesis
          using pw pv r Returned True
          by (simp add: promptUntilFilled.simps [of msg w] promptUntilFilled.simps [of msg v])
      next
        case False
        then show ?thesis
          using pw pv r Returned s1
          by (simp add: promptUntilFilled.simps [of msg w] promptUntilFilled.simps [of msg v])
      qed
    next
      case (Thrown e)
      then show ?thesis
        using pw pv r s1
        by (simp add: promptUntilFilled.simps [of msg w] promptUntilFilled.simps [of msg v])
    next
      case Pending
      then show ?thesis
        using pw pv r s1
        by (simp add: promptUntilFilled.simps [of msg w] promptUntilFilled.simps [of msg v])
    qed
  qed
qed

lemma blind_describe: "blind (describe conn obj)"
  unfolding describe_def by (rule blind_remote)

lemma blind_find: "blind (find' conn obj crit cols)"
  unfolding find'_def by (rule blind_remote)

lemma blind_create: "blind (create conn obj rs)"
  unfolding create_def by (rule blind_remote)

lemma blind_update: "blind (update conn obj rs)"
  unfolding update_def by (rule blind_remote)

lemma blind_destroy: "blind (destroy conn obj ids)"
  unfolding destroy_def by (rule blind_remote)

lemma blind_upsert: "blind (upsert conn obj rs ext)"
  unfolding upsert_def by (rule blind_remote)

lemmas blind_intros =
  blind_resolve blind_throw blind_andThen blind_tryCatch blind_if blind_option
  blind_promptUser blind_promptUntilFilled blind_describe blind_find blind_create
  blind_update blind_destroy blind_upsert

lemma blind_chooseAccount: "blind (chooseAccount accounts)"
  unfolding chooseAccount_def by (intro blind_intros)

lemma blind_selectAccount: "blind (selectAccount conn)"
  unfolding selectAccount_def by (intro blind_intros blind_chooseAccount)

lemma blind_selectContact: "blind (selectContact contacts caseRecord)"
  unfolding selectContact_def by (intro blind_intros)

lemma blind_webContact: "blind (webContact caseRecord)"
  unfolding webContact_def by (intro blind_intros)

lemma blind_askSubject: "blind (askSubject caseRecord)"
  unfolding askSubject_def by (intro blind_intros)

lemma blind_askDescription: "blind (askDescription caseRecord)"
  unfolding askDescription_def by (intro blind_intros)

lemma blind_askCommonPicklist: "blind (askCommonPicklist fs key heading caseRecord)"
  unfolding askCommonPicklist_def by (intro blind_intros)

lemma blind_chooseReference: "blind (chooseReference field obj rows caseRecord)"
  unfolding chooseReference_def by (intro blind_intros)

lemma blind_askReference: "blind (askReference conn field obj caseRecord)"
  unfolding askReference_def by (intro blind_intros blind_chooseReference)

lemma blind_askPicklist: "blind (askPicklist field entries caseRecord)"
  unfolding askPicklist_def by (intro blind_intros)

lemma blind_askScalar: "blind (askScalar parseFloat field caseRecord)"
  unfolding askScalar_def by (intro blind_intros)

lemma blind_processField: "blind (processField parseFloat conn field caseRecord)"
  unfolding processField_def
  by (simp add: blind_resolve blind_askReference blind_askPicklist blind_askScalar
      split: option.splits list.splits)

lemma blind_processFields: "blind (processFields parseFloat conn fs caseRecord)"
proof (induction fs arbitrary: caseRecord)
  case Nil
  show ?case by (simp add: blind_resolve)
next
  case (Cons field fs)
  have "blind (andThen (processField parseFloat conn field caseRecord) (processFields parseFloat conn fs))"
    using blind_processField Cons.IH by (rule blind_andThen)
  then show ?case by simp
qed

lemma blind_collectCaseRecord: "blind (collectCaseRecord parseFloat conn)"
  unfolding collectCaseRecord_def
  by (intro blind_andThen blind_describe blind_find blind_selectAccount blind_selectContact blind_webContact
        blind_askSubject blind_askDescription blind_askCommonPicklist blind_processFields)

lemma blind_confirmCase: "blind (confirmCase caseRecord)"
  unfolding confirmCase_def by (intro blind_intros)

lemma blind_advancedGuidedCaseCreation: "blind (advancedGuidedCaseCreation parseFloat conn)"
  unfolding advancedGuidedCaseCreation_def
  by (intro blind_andThen blind_collectCaseRecord blind_confirmCase)

lemma blind_handleDMLRecords: "blind (handleDMLRecords parseFloat conn args)"
  unfolding handleDMLRecords_def
  by (intro blind_intros blind_advancedGuidedCaseCreation)

lemma confirmCase_step:
  assumes "stdin w = d # ds"
  shows "confirmCase caseRecord w =
     (if toLowerCase (trim d) \<noteq> ''y'' then Thrown ''Case creation canceled by user.''
      else Returned caseRecord,
      w\<lparr>stdin := ds, trace := trace w @ [Prompted ''\<newline>Create this case? (Y/N):'']\<rparr>)"
  using assms by (simp add: confirmCase_def andThen_def promptUser_def throw_def resolve_def)

text \<open>
  C10. Every answer that \<^verbatim>\<open>promptUser\<close> returns is the typed chunk trimmed: it has no
  white space at either end, and trimming it again changes nothing. The guided flow and
  the DML handler read their input through \<^verbatim>\<open>promptUser\<close> only: two runs whose answers
  differ in surrounding white space alone have the same outcome and the same trace. The
  confirmation compares the lower case of the trimmed answer with \<^verbatim>\<open>y\<close>, so the answer
  \<^verbatim>\<open>" Y "\<close> is accepted.
\<close>

theorem answers_are_trimmed:
  "(promptUser msg w = (Returned a, w') \<longrightarrow>
      (\<exists>d. stdin w = d # stdin w' \<and> a = trim d) \<and> trim a = a \<and>
      (a = [] \<or> (\<not> isWhiteSpace (hd a) \<and> \<not> isWhiteSpace (last a)))) \<and>
   (map trim (stdin w) = map trim (stdin v) \<and> trace w = trace v \<longrightarrow>
      fst (advancedGuidedCaseCreation parseFloat conn w) =
        fst (advancedGuidedCaseCreation parseFloat conn v) \<and>
      trace (snd (advancedGuidedCaseCreation parseFloat conn w)) =
        trace (snd (advancedGuidedCaseCreation parseFloat conn v)) \<and>
      fst (handleDMLRecords parseFloat conn args w) = fst (handleDMLRecords parseFloat conn args v) \<and>
      trace (snd (handleDMLRecords parseFloat conn args w)) =
        trace (snd (handleDMLRecords parseFloat conn args v))) \<and>
   (stdin w = d # ds \<longrightarrow>
      confirmCase caseRecord w =
        (if toLowerCase (trim d) \<noteq> ''y'' then Thrown ''Case creation canceled by user.''
         else Returned caseRecord,
         w\<lparr>stdin := ds, trace := trace w @ [Prompted ''\<newline>Create this case? (Y/N):'']\<rparr>)) \<and>
   toLowerCase (trim '' Y '') = ''y''"
proof (intro conjI impI)
  assume p: "promptUser msg w = (Returned a, w')"
  from promptUser_ReturnedD [OF p] obtain d0 where d0: "stdin w = d0 # stdin w'" "a = trim d0"
    by blast
  then show "\<exists>d. stdin w = d # stdin w' \<and> a = trim d" by blast
  show "trim a = a" unfolding d0(2) by (rule trim_trim)
  show "a = [] \<or> (\<not> isWhiteSpace (hd a) \<and> \<not> isWhiteSpace (last a))"
    unfolding d0(2) by (rule trim_ends)
next
  assume "map trim (stdin w) = map trim (stdin v) \<and> trace w = trace v"
  then have s: "sameTyped w v" by (simp add: sameTyped_def)
  from blindD [OF blind_advancedGuidedCaseCreation s, of parseFloat conn]
  show "fst (advancedGuidedCaseCreation parseFloat conn w) =
        fst (advancedGuidedCaseCreation parseFloat conn v)"
    "trace (snd (advancedGuidedCaseCreation parseFloat conn w)) =
        trace (snd (advancedGuidedCaseCreation parseFloat conn v))"
    by (simp_all add: sameTyped_def)
  from blindD [OF blind_handleDMLRecords s, of parseFloat conn args]
  show "fst (handleDMLRecords parseFloat conn args w) = fst (handleDMLRecords parseFloat conn args v)"
    "trace (snd (handleDMLRecords parseFloat conn args w)) =
        trace (snd (handleDMLRecords parseFloat conn args v))"
    by (simp_all add: sameTyped_def)
next
  assume "stdin w = d # ds"
  then show "confirmCase caseRecord w =
        (if toLowerCase (trim d) \<noteq> ''y'' then Thrown ''Case creation canceled by user.''
         else Returned caseRecord,
         w\<lparr>stdin := ds, trace := trace w @ [Prompted ''\<newline>Create this case? (Y/N):'']\<rparr>)"
    by (rule confirmCase_step)
next
  show "toLowerCase (trim '' Y '') = ''y''" by code_simp
qed

lemma guided_run_Y:
  "fst (advancedGuidedCaseCreation sampleParseFloat sampleConn (typing (collectAnswers @ [''Y'']))) =
     Returned sampleRecord"
  by code_simp

theorem answers_are_trimmed_witness:
  "fst (advancedGuidedCaseCreation sampleParseFloat sampleConn (typing (collectAnswers @ ['' Y '']))) =
     Returned sampleRecord \<and>
   confirmCase sampleRecord (typing ['' Y '']) =
     (Returned sampleRecord, \<lparr>stdin = [], trace = [Prompted ''\<newline>Create this case? (Y/N):'']\<rparr>)"
proof -
  have same: "map trim (stdin (typing (collectAnswers @ ['' Y '']))) =
          map trim (stdin (typing (collectAnswers @ [''Y'']))) \<and>
        trace (typing (collectAnswers @ ['' Y ''])) = trace (typing (collectAnswers @ [''Y'']) :: int world)"
    by code_simp
  have i: "stdin (typing ['' Y '']) = '' Y '' # []" by (simp add: typing_def)
  have y: "toLowerCase (trim '' Y '') = ''y''" by code_simp
  note t = answers_are_trimmed [of "''m''" "typing (collectAnswers @ ['' Y ''])" "[]"
      "typing (collectAnswers @ ['' Y ''])" "typing (collectAnswers @ [''Y''])" sampleParseFloat sampleConn twoCases]
  note u = answers_are_trimmed [of "''m''" "typing ['' Y '']" "[]" "typing ['' Y '']" "typing sampleAnswers"
      sampleParseFloat sampleConn twoCases "'' Y ''" "[]" sampleRecord]
  have 1: "fst (advancedGuidedCaseCreation sampleParseFloat sampleConn (typing (collectAnswers @ ['' Y '']))) =
     Returned sampleRecord"
    using t [THEN conjunct2, THEN conjunct1, rule_format, OF same, THEN conjunct1] guided_run_Y by simp
  have 2: "confirmCase sampleRecord (typing ['' Y '']) =
     (Returned sampleRecord, \<lparr>stdin = [], trace = [Prompted ''\<newline>Create this case? (Y/N):'']\<rparr>)"
    using u [THEN conjunct2, THEN conjunct2, THEN conjunct1, rule_format, OF i] y
    by (simp add: typing_def)
  from 1 2 show ?thesis by (rule conjI)
qed

end
